theory Spec2Isabelle
  imports Main "HOL-Library.Word" "HOL-Library.Signed_Division" "HOL-Library.Monad_Syntax"
begin

unbundle bit_operations_syntax

section \<open>The software rasterizer of GPU3D_Soft.cpp\<close>

text \<open>
  A shallow embedding of the parts of \<^verbatim>\<open>src/GPU3D_Soft.cpp\<close> that the
  verified properties are about. Unsigned C values (\<^verbatim>\<open>u8\<close>, \<^verbatim>\<open>u16\<close>,
  \<^verbatim>\<open>u32\<close>) are words, so that \<open>+\<close>, \<open>-\<close> and \<open>*\<close> wrap as in C.
  Buffer indices and the line numbers are \<open>int\<close>.
\<close>

type_synonym u8 = "8 word"
type_synonym u16 = "16 word"
type_synonym u32 = "32 word"

subsection \<open>Buffer geometry\<close>

definition ScanlineWidth :: int where
  "ScanlineWidth = 258"

definition NumScanlines :: int where
  "NumScanlines = 194"

definition BufferSize :: int where
  "BufferSize = ScanlineWidth * NumScanlines"

definition FirstPixelOffset :: int where
  "FirstPixelOffset = ScanlineWidth + 1"

text \<open>
  The address of the pixel in column \<open>x\<close> of line \<open>y\<close>, as every scanline loop
  computes it: \<^verbatim>\<open>FirstPixelOffset + (y*ScanlineWidth) + x\<close>.
\<close>

definition pixeladdr_of :: "int \<Rightarrow> int \<Rightarrow> int" where
  "pixeladdr_of y x = FirstPixelOffset + (y * ScanlineWidth) + x"

subsection \<open>GetLine\<close>

text \<open>
  \<^verbatim>\<open>GetLine\<close> reads \<^verbatim>\<open>RenderThreadRunning\<close> and, when the worker runs and
  \<^verbatim>\<open>line < 192\<close>, waits for one token of \<^verbatim>\<open>Sema_ScanlineCount\<close>. The
  semaphore is a counter of tokens; a wait on an empty semaphore does not return by
  itself, which is the value \<open>None\<close>. The returned pointer
  \<^verbatim>\<open>&ColorBuffer[(line * ScanlineWidth) + FirstPixelOffset]\<close> is the index into
  \<^verbatim>\<open>ColorBuffer\<close>.
\<close>

record thread_state =
  RenderThreadRunning :: bool
  Sema_ScanlineCount :: nat

definition Semaphore_Wait :: "nat \<Rightarrow> nat option" where
  "Semaphore_Wait n = (if n = 0 then None else Some (n - 1))"

definition GetLine :: "thread_state \<Rightarrow> int \<Rightarrow> (int \<times> thread_state) option" where
  "GetLine st line =
     (if RenderThreadRunning st \<and> line < 192
      then (case Semaphore_Wait (Sema_ScanlineCount st) of
              None \<Rightarrow> None
            | Some n \<Rightarrow> Some ((line * ScanlineWidth) + FirstPixelOffset,
                              st\<lparr>Sema_ScanlineCount := n\<rparr>))
      else Some ((line * ScanlineWidth) + FirstPixelOffset, st))"

subsection \<open>Polygons and the depth tests\<close>

text \<open>
  The fields of \<^verbatim>\<open>Polygon\<close> that the modelled functions read. The depth
  tests take \<^verbatim>\<open>s32\<close> depths; they are 32-bit words here, read as signed
  values by \<open>sint\<close>, \<open><s\<close> and \<open>\<le>s\<close>, and \<^verbatim>\<open>(u32)(diff + 0x200) <= 0x400\<close>
  is the unsigned comparison of words.
\<close>

record Polygon =
  Attr :: u32
  TexParam :: u32
  TexPalette :: u32
  FacingView :: bool
  WBuffer :: bool
  IsShadow :: bool

definition DepthTest_Equal_Z :: "u32 \<Rightarrow> u32 \<Rightarrow> u32 \<Rightarrow> bool" where
  "DepthTest_Equal_Z dstz z dstattr =
     (let diff = dstz - z in
      if diff + 0x200 \<le> 0x400 then True else False)"

definition DepthTest_Equal_W :: "u32 \<Rightarrow> u32 \<Rightarrow> u32 \<Rightarrow> bool" where
  "DepthTest_Equal_W dstz z dstattr =
     (let diff = dstz - z in
      if diff + 0xFF \<le> 0x1FE then True else False)"

definition DepthTest_LessThan :: "u32 \<Rightarrow> u32 \<Rightarrow> u32 \<Rightarrow> bool" where
  "DepthTest_LessThan dstz z dstattr = (if z <s dstz then True else False)"

definition DepthTest_LessThan_FrontFacing :: "u32 \<Rightarrow> u32 \<Rightarrow> u32 \<Rightarrow> bool" where
  "DepthTest_LessThan_FrontFacing dstz z dstattr =
     (if dstattr AND 0x00400010 = 0x00000010
      then (if z \<le>s dstz then True else False)
      else (if z <s dstz then True else False))"

definition fnDepthTest :: "Polygon \<Rightarrow> u32 \<Rightarrow> u32 \<Rightarrow> u32 \<Rightarrow> bool" where
  "fnDepthTest polygon =
     (if Attr polygon AND 0x4000 \<noteq> 0
      then (if WBuffer polygon then DepthTest_Equal_W else DepthTest_Equal_Z)
      else if FacingView polygon then DepthTest_LessThan_FrontFacing
      else DepthTest_LessThan)"

subsection \<open>Registers and buffers\<close>

text \<open>
  The rendering registers are globals of the namespace \<^verbatim>\<open>GPU3D\<close> that are declared
  outside this file; they are the fields of \<open>Regs\<close>, and the tables
  \<^verbatim>\<open>RenderFogDensityTable[34]\<close> and \<^verbatim>\<open>RenderToonTable[32]\<close> are functions of the
  index. The buffers of the renderer are functions of the index as well; an address is
  the \<^verbatim>\<open>u32 pixeladdr\<close> of the code.
\<close>

record Regs =
  RenderDispCnt :: u32
  RenderAlphaRef :: u32
  RenderFogOffset :: u32
  RenderFogShift :: u32
  RenderFogDensityTable :: "nat \<Rightarrow> u8"
  RenderToonTable :: "nat \<Rightarrow> u16"

record Buffers =
  ColorBuffer :: "nat \<Rightarrow> u32"
  DepthBuffer :: "nat \<Rightarrow> u32"
  AttrBuffer :: "nat \<Rightarrow> u32"
  StencilBuffer :: "nat \<Rightarrow> u8"
  PrevIsShadowMask :: bool

definition AlphaBlend :: "Regs \<Rightarrow> u32 \<Rightarrow> u32 \<Rightarrow> u32 \<Rightarrow> u32" where
  "AlphaBlend regs srccolor dstcolor alpha =
     (let dstalpha = drop_bit 24 dstcolor in
      if dstalpha = 0 then srccolor
      else
        let srcR = srccolor AND 0x3F;
            srcG = drop_bit 8 srccolor AND 0x3F;
            srcB = drop_bit 16 srccolor AND 0x3F;
            (srcR, srcG, srcB) =
              (if RenderDispCnt regs AND 8 \<noteq> 0
               then
                 let dstR = dstcolor AND 0x3F;
                     dstG = drop_bit 8 dstcolor AND 0x3F;
                     dstB = drop_bit 16 dstcolor AND 0x3F;
                     alpha = alpha + 1
                 in (drop_bit 5 ((srcR * alpha) + (dstR * (32 - alpha))),
                     drop_bit 5 ((srcG * alpha) + (dstG * (32 - alpha))),
                     drop_bit 5 ((srcB * alpha) + (dstB * (32 - alpha))))
               else (srcR, srcG, srcB));
            dstalpha = (if alpha > dstalpha then alpha else dstalpha)
        in srcR OR push_bit 8 srcG OR push_bit 16 srcB OR push_bit 24 dstalpha)"

definition PlotTranslucentPixel ::
  "Regs \<Rightarrow> Buffers \<Rightarrow> u32 \<Rightarrow> u32 \<Rightarrow> u32 \<Rightarrow> u32 \<Rightarrow> u32 \<Rightarrow> Buffers" where
  "PlotTranslucentPixel regs st pixeladdr color z polyattr shadow =
     (let dstattr = AttrBuffer st (unat pixeladdr);
          attr = (polyattr AND 0xE0F0) OR (drop_bit 8 polyattr AND 0xFF0000) OR 0x400000
                   OR (dstattr AND 0xFF001F0F)
      in
      if (if shadow \<noteq> 0
          then (if dstattr AND 0x400000 \<noteq> 0
                then dstattr AND 0x007F0000 = attr AND 0x007F0000
                else dstattr AND 0x3F000000 = polyattr AND 0x3F000000)
          else dstattr AND 0x007F0000 = attr AND 0x007F0000)
      then st
      else
        let attr = (if dstattr AND 0x8000 = 0 then attr AND NOT 0x8000 else attr);
            color = AlphaBlend regs color (ColorBuffer st (unat pixeladdr)) (drop_bit 24 color);
            st = (if z \<noteq> - 1 then st\<lparr>DepthBuffer := (DepthBuffer st)(unat pixeladdr := z)\<rparr> else st)
        in st\<lparr>ColorBuffer := (ColorBuffer st)(unat pixeladdr := color),
               AttrBuffer := (AttrBuffer st)(unat pixeladdr := attr)\<rparr>)"

subsection \<open>Fog density\<close>

text \<open>
  \<^verbatim>\<open>RenderFogDensityTable\<close> holds \<^verbatim>\<open>u8\<close> entries, which C promotes before the
  multiplication with a \<^verbatim>\<open>u32\<close>; \<open>ucast\<close> is that promotion. The shift
  \<^verbatim>\<open>(z >> 2) << RenderFogShift\<close> is the shift of a 32-bit word, which drops the bits
  shifted out.
\<close>

definition CalculateFogDensity :: "Regs \<Rightarrow> Buffers \<Rightarrow> u32 \<Rightarrow> u32" where
  "CalculateFogDensity regs st pixeladdr =
     (let z = DepthBuffer st (unat pixeladdr);
          (densityid, densityfrac) =
            (if z < RenderFogOffset regs then (0, 0)
             else
               let z = z - RenderFogOffset regs;
                   z = push_bit (unat (RenderFogShift regs)) (drop_bit 2 z);
                   densityid = drop_bit 17 z
               in if densityid \<ge> 32 then (32, 0) else (densityid, z AND 0x1FFFF));
          density =
            drop_bit 17
              ((ucast (RenderFogDensityTable regs (unat densityid)) * (0x20000 - densityfrac)) +
               (ucast (RenderFogDensityTable regs (unat densityid + 1)) * densityfrac))
      in if density \<ge> 127 then 128 else density)"

subsection \<open>Texture memory\<close>

text \<open>
  \<^verbatim>\<open>GPU::VRAMFlat_Texture\<close> (0x80000 bytes) and \<^verbatim>\<open>GPU::VRAMFlat_TexPal\<close>
  (0x20000 bytes) are byte arrays declared outside this file; they are the lists
  \<open>vram\<close> and \<open>pal\<close>. \<^verbatim>\<open>ReadVRAM_Texture<T>(addr)\<close> reads a \<^verbatim>\<open>T\<close> at the
  byte index \<^verbatim>\<open>addr & 0x7FFFF\<close>: one byte for \<^verbatim>\<open>u8\<close>, two bytes (low byte
  first) for \<^verbatim>\<open>u16\<close>. A read of a byte outside the array is undefined in C; here
  it is the value \<open>None\<close>, and every function that reads passes it on.
\<close>

type_synonym s16 = "16 word"

definition ReadVRAM_Texture_u8 :: "u8 list \<Rightarrow> u32 \<Rightarrow> u8 option" where
  "ReadVRAM_Texture_u8 vram addr =
     (let i = unat (addr AND 0x7FFFF) in
      if i < length vram then Some (vram ! i) else None)"

definition ReadVRAM_Texture_u16 :: "u8 list \<Rightarrow> u32 \<Rightarrow> u16 option" where
  "ReadVRAM_Texture_u16 vram addr =
     (let i = unat (addr AND 0x7FFFF) in
      if i + 1 < length vram
      then Some (ucast (vram ! i) OR push_bit 8 (ucast (vram ! (i + 1))))
      else None)"

definition ReadVRAM_TexPal_u16 :: "u8 list \<Rightarrow> u32 \<Rightarrow> u16 option" where
  "ReadVRAM_TexPal_u16 pal addr =
     (let i = unat (addr AND 0x1FFFF) in
      if i + 1 < length pal
      then Some (ucast (pal ! i) OR push_bit 8 (ucast (pal ! (i + 1))))
      else None)"

subsection \<open>TextureLookup\<close>

text \<open>
  The coordinates \<^verbatim>\<open>s\<close> and \<^verbatim>\<open>t\<close> are \<^verbatim>\<open>s16\<close> variables. C computes with
  them as \<^verbatim>\<open>int\<close>: in the model the value of such a variable is kept as the 32-bit
  word it promotes to, and an assignment to the variable truncates to 16 bits and
  sign-extends again (\<open>to_s16\<close>). \<^verbatim>\<open>>>\<close> on a signed value is the arithmetic
  shift \<open>signed_drop_bit\<close>. The switch over the texture format has no default: for
  format 0 nothing is read and the outputs \<^verbatim>\<open>*color\<close> and \<^verbatim>\<open>*alpha\<close> keep
  their values \<open>out\<close>.
\<close>

definition to_s16 :: "u32 \<Rightarrow> u32" where
  "to_s16 v = scast (ucast v :: s16)"

definition TextureLookup ::
  "u8 list \<Rightarrow> u8 list \<Rightarrow> u32 \<Rightarrow> u32 \<Rightarrow> s16 \<Rightarrow> s16 \<Rightarrow> u16 \<times> u8 \<Rightarrow> (u16 \<times> u8) option" where
  "TextureLookup vram pal texparam texpal s0 t0 out =
     (let vramaddr = push_bit 3 (texparam AND 0xFFFF);
          width = push_bit (unat (drop_bit 20 texparam AND 0x7)) 8;
          height = push_bit (unat (drop_bit 23 texparam AND 0x7)) 8;
          s = to_s16 (signed_drop_bit 4 (scast s0));
          t = to_s16 (signed_drop_bit 4 (scast t0));
          s = (if texparam AND 0x10000 \<noteq> 0
               then (if texparam AND 0x40000 \<noteq> 0
                     then (if s AND width \<noteq> 0
                           then to_s16 ((width - 1) - (s AND (width - 1)))
                           else to_s16 (s AND (width - 1)))
                     else to_s16 (s AND (width - 1)))
               else (if s <s 0 then 0
                     else if width \<le>s s then to_s16 (width - 1)
                     else s));
          t = (if texparam AND 0x20000 \<noteq> 0
               then (if texparam AND 0x80000 \<noteq> 0
                     then (if t AND height \<noteq> 0
                           then to_s16 ((height - 1) - (t AND (height - 1)))
                           else to_s16 (t AND (height - 1)))
                     else to_s16 (t AND (height - 1)))
               else (if t <s 0 then 0
                     else if height \<le>s t then to_s16 (height - 1)
                     else t));
          alpha0 = (if texparam AND 0x20000000 \<noteq> 0 then 0 else 31);
          fmt = drop_bit 26 texparam AND 0x7
      in
      if fmt = 1 then
        do {
          let vramaddr = vramaddr + ((t * width) + s);
          pixel \<leftarrow> ReadVRAM_Texture_u8 vram vramaddr;
          let texpal = push_bit 4 texpal;
          color \<leftarrow> ReadVRAM_TexPal_u16 pal (texpal + push_bit 1 (ucast pixel AND 0x1F));
          Some (color, (drop_bit 3 pixel AND 0x1C) + drop_bit 6 pixel)
        }
      else if fmt = 2 then
        do {
          let vramaddr = vramaddr + signed_drop_bit 2 ((t * width) + s);
          pixel \<leftarrow> ReadVRAM_Texture_u8 vram vramaddr;
          let pixel = drop_bit (unat (push_bit 1 (s AND 0x3))) pixel;
          let pixel = pixel AND 0x3;
          let texpal = push_bit 3 texpal;
          color \<leftarrow> ReadVRAM_TexPal_u16 pal (texpal + push_bit 1 (ucast pixel));
          Some (color, if pixel = 0 then alpha0 else 31)
        }
      else if fmt = 3 then
        do {
          let vramaddr = vramaddr + signed_drop_bit 1 ((t * width) + s);
          pixel \<leftarrow> ReadVRAM_Texture_u8 vram vramaddr;
          let pixel = (if s AND 0x1 \<noteq> 0 then drop_bit 4 pixel else pixel AND 0xF);
          let texpal = push_bit 4 texpal;
          color \<leftarrow> ReadVRAM_TexPal_u16 pal (texpal + push_bit 1 (ucast pixel));
          Some (color, if pixel = 0 then alpha0 else 31)
        }
      else if fmt = 4 then
        do {
          let vramaddr = vramaddr + ((t * width) + s);
          pixel \<leftarrow> ReadVRAM_Texture_u8 vram vramaddr;
          let texpal = push_bit 4 texpal;
          color \<leftarrow> ReadVRAM_TexPal_u16 pal (texpal + push_bit 1 (ucast pixel));
          Some (color, if pixel = 0 then alpha0 else 31)
        }
      else if fmt = 5 then
        do {
          let vramaddr = vramaddr + (((t AND 0x3FC) * signed_drop_bit 2 width) + (s AND 0x3FC));
          let vramaddr = vramaddr + (t AND 0x3);
          let slot1addr = 0x20000 + drop_bit 1 (vramaddr AND 0x1FFFC);
          let slot1addr = (if vramaddr \<ge> 0x40000 then slot1addr + 0x10000 else slot1addr);
          val \<leftarrow> ReadVRAM_Texture_u8 vram vramaddr;
          let val = drop_bit (unat (2 * (s AND 0x3))) val;
          palinfo \<leftarrow> ReadVRAM_Texture_u16 vram slot1addr;
          let paloffset = push_bit 2 (ucast palinfo AND 0x3FFF);
          let texpal = push_bit 4 texpal;
          if val AND 0x3 = 0 then
            do {
              color \<leftarrow> ReadVRAM_TexPal_u16 pal (texpal + paloffset);
              Some (color, 31)
            }
          else if val AND 0x3 = 1 then
            do {
              color \<leftarrow> ReadVRAM_TexPal_u16 pal (texpal + paloffset + 2);
              Some (color, 31)
            }
          else if val AND 0x3 = 2 then
            (if drop_bit 14 palinfo = 1 then
               do {
                 color0 \<leftarrow> ReadVRAM_TexPal_u16 pal (texpal + paloffset);
                 color1 \<leftarrow> ReadVRAM_TexPal_u16 pal (texpal + paloffset + 2);
                 let r0 = ucast color0 AND 0x001F;
                 let g0 = ucast color0 AND 0x03E0;
                 let b0 = ucast color0 AND 0x7C00;
                 let r1 = ucast color1 AND 0x001F;
                 let g1 = ucast color1 AND 0x03E0;
                 let b1 = ucast color1 AND 0x7C00;
                 let r = drop_bit 1 (r0 + r1);
                 let g = drop_bit 1 (g0 + g1) AND 0x03E0;
                 let b = drop_bit 1 (b0 + b1) AND 0x7C00;
                 Some (ucast (r OR g OR b :: u32), 31)
               }
             else if drop_bit 14 palinfo = 3 then
               do {
                 color0 \<leftarrow> ReadVRAM_TexPal_u16 pal (texpal + paloffset);
                 color1 \<leftarrow> ReadVRAM_TexPal_u16 pal (texpal + paloffset + 2);
                 let r0 = ucast color0 AND 0x001F;
                 let g0 = ucast color0 AND 0x03E0;
                 let b0 = ucast color0 AND 0x7C00;
                 let r1 = ucast color1 AND 0x001F;
                 let g1 = ucast color1 AND 0x03E0;
                 let b1 = ucast color1 AND 0x7C00;
                 let r = drop_bit 3 (r0 * 5 + r1 * 3);
                 let g = drop_bit 3 (g0 * 5 + g1 * 3) AND 0x03E0;
                 let b = drop_bit 3 (b0 * 5 + b1 * 3) AND 0x7C00;
                 Some (ucast (r OR g OR b :: u32), 31)
               }
             else
               do {
                 color \<leftarrow> ReadVRAM_TexPal_u16 pal (texpal + paloffset + 4);
                 Some (color, 31)
               })
          else
            (if drop_bit 14 palinfo = 2 then
               do {
                 color \<leftarrow> ReadVRAM_TexPal_u16 pal (texpal + paloffset + 6);
                 Some (color, 31)
               }
             else if drop_bit 14 palinfo = 3 then
               do {
                 color0 \<leftarrow> ReadVRAM_TexPal_u16 pal (texpal + paloffset);
                 color1 \<leftarrow> ReadVRAM_TexPal_u16 pal (texpal + paloffset + 2);
                 let r0 = ucast color0 AND 0x001F;
                 let g0 = ucast color0 AND 0x03E0;
                 let b0 = ucast color0 AND 0x7C00;
                 let r1 = ucast color1 AND 0x001F;
                 let g1 = ucast color1 AND 0x03E0;
                 let b1 = ucast color1 AND 0x7C00;
                 let r = drop_bit 3 (r0 * 3 + r1 * 5);
                 let g = drop_bit 3 (g0 * 3 + g1 * 5) AND 0x03E0;
                 let b = drop_bit 3 (b0 * 3 + b1 * 5) AND 0x7C00;
                 Some (ucast (r OR g OR b :: u32), 31)
               }
             else Some (0, 0))
        }
      else if fmt = 6 then
        do {
          let vramaddr = vramaddr + ((t * width) + s);
          pixel \<leftarrow> ReadVRAM_Texture_u8 vram vramaddr;
          let texpal = push_bit 4 texpal;
          color \<leftarrow> ReadVRAM_TexPal_u16 pal (texpal + push_bit 1 (ucast pixel AND 0x7));
          Some (color, drop_bit 3 pixel)
        }
      else if fmt = 7 then
        do {
          let vramaddr = vramaddr + push_bit 1 ((t * width) + s);
          color \<leftarrow> ReadVRAM_Texture_u16 vram vramaddr;
          Some (color, if color AND 0x8000 \<noteq> 0 then 31 else 0)
        }
      else Some out)"


subsection \<open>RenderPixel\<close>

text \<open>
  \<^verbatim>\<open>x = v & 0x3E; if (x) x++;\<close> with a \<^verbatim>\<open>u8\<close> variable \<^verbatim>\<open>x\<close> expands a
  5-bit colour channel to 6 bits; the code has it for each channel of a toon colour and
  of a texel, and \<open>expand6\<close> is that pair of statements. The \<^verbatim>\<open>u8\<close> variables
  \<^verbatim>\<open>r, g, b, a\<close> are assigned from \<^verbatim>\<open>int\<close> expressions, which are computed on
  32-bit words and truncated by \<open>ucast\<close>. The locals \<^verbatim>\<open>tcolor\<close> and
  \<^verbatim>\<open>talpha\<close> are passed to \<open>TextureLookup\<close> as \<open>(0, 0)\<close>: the call is made
  for the formats 1 to 7 only, which assign both.
\<close>

definition expand6 :: "u32 \<Rightarrow> u8" where
  "expand6 v = (let x = ucast (v AND 0x3E) in if x \<noteq> 0 then x + 1 else x)"

definition RenderPixel ::
  "Regs \<Rightarrow> u8 list \<Rightarrow> u8 list \<Rightarrow> Polygon \<Rightarrow> u8 \<Rightarrow> u8 \<Rightarrow> u8 \<Rightarrow> s16 \<Rightarrow> s16 \<Rightarrow> u32 option" where
  "RenderPixel regs vram pal polygon vr0 vg0 vb0 s t =
     (let blendmode = drop_bit 4 (Attr polygon) AND 0x3;
          polyalpha = drop_bit 16 (Attr polygon) AND 0x1F;
          wireframe = (polyalpha = 0);
          (vr, vg, vb) =
            (if blendmode = 2
             then (if RenderDispCnt regs AND 0x2 \<noteq> 0
                   then (vr0, vr0, vr0)
                   else
                     let tooncolor = RenderToonTable regs (unat (drop_bit 1 vr0))
                     in (expand6 (push_bit 1 (ucast tooncolor)),
                         expand6 (drop_bit 4 (ucast tooncolor)),
                         expand6 (drop_bit 9 (ucast tooncolor))))
             else (vr0, vg0, vb0))
      in
      do {
        (r, g, b, a) \<leftarrow>
          (if RenderDispCnt regs AND 0x1 \<noteq> 0 \<and> drop_bit 26 (TexParam polygon) AND 0x7 \<noteq> 0
           then
             do {
               (tcolor, talpha) \<leftarrow>
                 TextureLookup vram pal (TexParam polygon) (TexPalette polygon) s t (0, 0);
               let tr = expand6 (push_bit 1 (ucast tcolor));
               let tg = expand6 (drop_bit 4 (ucast tcolor));
               let tb = expand6 (drop_bit 9 (ucast tcolor));
               Some
                 (if blendmode AND 0x1 \<noteq> 0
                  then
                    (if talpha = 0 then (vr, vg, vb, ucast polyalpha)
                     else if talpha = 31 then (tr, tg, tb, ucast polyalpha)
                     else
                       (ucast (drop_bit 5 ((ucast tr * ucast talpha) + (ucast vr * (31 - ucast talpha)) :: u32)),
                        ucast (drop_bit 5 ((ucast tg * ucast talpha) + (ucast vg * (31 - ucast talpha)) :: u32)),
                        ucast (drop_bit 5 ((ucast tb * ucast talpha) + (ucast vb * (31 - ucast talpha)) :: u32)),
                        ucast polyalpha))
                  else
                    (ucast (drop_bit 6 ((ucast tr + 1) * (ucast vr + 1) - 1 :: u32)),
                     ucast (drop_bit 6 ((ucast tg + 1) * (ucast vg + 1) - 1 :: u32)),
                     ucast (drop_bit 6 ((ucast tb + 1) * (ucast vb + 1) - 1 :: u32)),
                     ucast (drop_bit 5 ((ucast talpha + 1) * (polyalpha + 1) - 1))))
             }
           else Some (vr, vg, vb, ucast polyalpha));
        let (r, g, b) =
          (if blendmode = 2 \<and> RenderDispCnt regs AND 0x2 \<noteq> 0
           then
             let tooncolor = RenderToonTable regs (unat (drop_bit 1 vr));
                 vr = expand6 (push_bit 1 (ucast tooncolor));
                 vg = expand6 (drop_bit 4 (ucast tooncolor));
                 vb = expand6 (drop_bit 9 (ucast tooncolor));
                 r = r + vr;
                 g = g + vg;
                 b = b + vb
             in (if r > 63 then 63 else r, if g > 63 then 63 else g, if b > 63 then 63 else b)
           else (r, g, b));
        let a = (if wireframe then 31 else a :: u8);
        Some (ucast r OR push_bit 8 (ucast g) OR push_bit 16 (ucast b) OR push_bit 24 (ucast a))
      })"

subsection \<open>Interpolator\<close>

text \<open>
  The interpolator and the slopes compute on \<^verbatim>\<open>s32\<close> and \<^verbatim>\<open>s64\<close> values. They are
  modelled as integers, and every operation of the source is followed by the wrap-around
  of its C type: \<open>s32\<close> and \<open>s64\<close> for the signed types, \<open>u32\<close> where C converts an
  operand to \<^verbatim>\<open>u32\<close> (the non-linear path multiplies by the \<^verbatim>\<open>u32\<close> member
  \<^verbatim>\<open>yfactor\<close>). The division of C truncates towards zero, which is \<open>sdiv\<close>; \<^verbatim>\<open>>>\<close> on a
  signed value is the arithmetic shift \<open>drop_bit\<close>.

  The members of the class carry the prefix \<open>I_\<close>. The template parameter \<^verbatim>\<open>dir\<close> is the
  first argument of \<open>Interp_Setup\<close>. The constructor \<^verbatim>\<open>Interpolator() {}\<close> leaves the
  members unset; \<open>Interpolator_new\<close> is the object with every member zero.
\<close>

definition s32 :: "int \<Rightarrow> int" where
  "s32 v = signed_take_bit 31 v"

definition s64 :: "int \<Rightarrow> int" where
  "s64 v = signed_take_bit 63 v"

definition u32 :: "int \<Rightarrow> int" where
  "u32 v = take_bit 32 v"

record Interpolator =
  I_x0 :: int
  I_x1 :: int
  I_xdiff :: int
  I_x :: int
  I_shift :: nat
  I_linear :: bool
  I_xrecip :: int
  I_xrecip_z :: int
  I_w0n :: int
  I_w0d :: int
  I_w1d :: int
  I_yfactor :: int

definition Interp_Setup :: "nat \<Rightarrow> Interpolator \<Rightarrow> int \<Rightarrow> int \<Rightarrow> int \<Rightarrow> int \<Rightarrow> Interpolator" where
  "Interp_Setup dir I x0 x1 w0 w1 =
     (let xdiff = s32 (x1 - x0);
          xrecip = (if xdiff \<noteq> 0 then s32 (0x40000000 sdiv xdiff) else 0);
          xrecip_z = drop_bit 8 xrecip;
          mask = (if dir \<noteq> 0 then 0x7E else 0x7F);
          linear = (if w0 = w1 \<and> w0 AND mask = 0 \<and> w1 AND mask = 0 then True else False);
          I = I\<lparr>I_x0 := x0, I_x1 := x1, I_xdiff := xdiff, I_xrecip := xrecip,
                 I_xrecip_z := xrecip_z, I_linear := linear\<rparr>
      in
      if dir \<noteq> 0 then
        (if w0 AND 0x1 \<noteq> 0 \<and> w1 AND 0x1 = 0
         then I\<lparr>I_w0n := s32 (w0 - 1), I_w0d := s32 (w0 + 1), I_w1d := w1, I_shift := 9\<rparr>
         else I\<lparr>I_w0n := w0 AND 0xFFFE, I_w0d := w0 AND 0xFFFE, I_w1d := w1 AND 0xFFFE,
                  I_shift := 9\<rparr>)
      else I\<lparr>I_w0n := w0, I_w0d := w0, I_w1d := w1, I_shift := 8\<rparr>)"

definition Interp_SetX :: "Interpolator \<Rightarrow> int \<Rightarrow> Interpolator" where
  "Interp_SetX I x =
     (let x = s32 (x - I_x0 I);
          I = I\<lparr>I_x := x\<rparr>
      in
      if I_xdiff I \<noteq> 0 \<and> \<not> I_linear I then
        (let num = s64 (s64 (x * I_w0n I) * 2 ^ I_shift I);
             den = s32 (s32 (x * I_w0d I) + s32 (s32 (I_xdiff I - x) * I_w1d I))
         in if den = 0 then I\<lparr>I_yfactor := 0\<rparr>
            else I\<lparr>I_yfactor := u32 (s32 (num sdiv den))\<rparr>)
      else I)"

definition Interpolate :: "Interpolator \<Rightarrow> int \<Rightarrow> int \<Rightarrow> int" where
  "Interpolate I y0 y1 =
     (if I_xdiff I = 0 \<or> y0 = y1 then y0
      else if \<not> I_linear I then
        (if y0 < y1
         then s32 (u32 (y0 + drop_bit (I_shift I) (u32 (u32 (s32 (y1 - y0)) * I_yfactor I))))
         else s32 (u32 (y1 + drop_bit (I_shift I)
                 (u32 (u32 (s32 (y0 - y1)) * u32 (2 ^ I_shift I - I_yfactor I))))))
      else
        (if y0 < y1
         then s32 (s64 (y0 + drop_bit 30
                 (s64 (s64 (s64 (s32 (y1 - y0) * I_x I) * I_xrecip I) + 0x3000000))))
         else s32 (s64 (y1 + drop_bit 30
                 (s64 (s64 (s64 (s32 (y0 - y1) * s32 (I_xdiff I - I_x I)) * I_xrecip I)
                       + 0x3000000))))))"

definition Interpolator_new :: Interpolator where
  "Interpolator_new = \<lparr>I_x0 = 0, I_x1 = 0, I_xdiff = 0, I_x = 0, I_shift = 0, I_linear = False,
     I_xrecip = 0, I_xrecip_z = 0, I_w0n = 0, I_w0d = 0, I_w1d = 0, I_yfactor = 0\<rparr>"

subsection \<open>InterpolateZ\<close>

text \<open>
  The Z-buffering path along Y halves \<^verbatim>\<open>disp\<close> while it exceeds \<open>0x3FF\<close> and counts
  the steps; \<open>zshift\<close> is that loop, which ends because a positive \<^verbatim>\<open>disp\<close> decreases.
  The \<^verbatim>\<open>u32\<close> member \<^verbatim>\<open>yfactor\<close> keeps its value when C converts it to \<^verbatim>\<open>s64\<close>.
\<close>

function zshift :: "int \<Rightarrow> nat \<Rightarrow> int \<times> nat" where
  "zshift disp shift =
     (if disp > 0x3FF then zshift (drop_bit 1 disp) (shift + 1) else (disp, shift))"
  by pat_completeness auto
termination
  by (relation "measure (\<lambda>(disp, shift). nat disp)") (simp_all add: drop_bit_eq_div)

definition InterpolateZ :: "nat \<Rightarrow> Interpolator \<Rightarrow> int \<Rightarrow> int \<Rightarrow> bool \<Rightarrow> int" where
  "InterpolateZ dir I z0 z1 wbuffer =
     (if I_xdiff I = 0 \<or> z0 = z1 then z0
      else if wbuffer then
        (if z0 < z1
         then s32 (s64 (z0 + drop_bit (I_shift I) (s64 (s32 (z1 - z0) * I_yfactor I))))
         else s32 (s64 (z1 + drop_bit (I_shift I)
                 (s64 (s32 (z0 - z1) * u32 (2 ^ I_shift I - I_yfactor I))))))
      else
        (let (base, disp, factor) =
               (if z0 < z1 then (z0, s32 (z1 - z0), I_x I)
                else (z1, s32 (z0 - z1), s32 (I_xdiff I - I_x I)))
         in
         if dir \<noteq> 0 then
           (let (disp, shift) = zshift disp 0
            in s32 (s64 (base + s64 (drop_bit 22 (s64 (s64 (disp * factor) * I_xrecip_z I))
                                      * 2 ^ shift))))
         else
           (let disp = drop_bit 9 disp
            in s32 (s64 (base + drop_bit 13 (s64 (s64 (disp * factor) * I_xrecip_z I)))))))"

subsection \<open>RenderShadowMaskScanline\<close>

text \<open>
  A loop \<^verbatim>\<open>for (; x < xlimit; x++)\<close> whose body updates a state: \<open>for_x\<close> returns the
  final \<open>x\<close> with the final state.
\<close>

function for_x :: "(int \<Rightarrow> 'a \<Rightarrow> 'a) \<Rightarrow> int \<Rightarrow> int \<Rightarrow> 'a \<Rightarrow> int \<times> 'a" where
  "for_x body x xlimit s =
     (if x < xlimit then for_x body (x + 1) xlimit (body x s) else (x, s))"
  by pat_completeness auto
termination
  by (relation "measure (\<lambda>(body, x, xlimit, s). nat (xlimit - x))") simp_all

text \<open>
  \<^verbatim>\<open>RenderShadowMaskScanline\<close> from the \<^verbatim>\<open>memset\<close> of the stencil row to the end of the
  three loops. The edge set-up before the loops (\<^verbatim>\<open>SetupPolygonLeftEdge\<close>,
  \<^verbatim>\<open>SetupPolygonRightEdge\<close>, the slopes' \<^verbatim>\<open>EdgeParams\<close>, the interpolation of W and Z
  along the edges and the swap for \<^verbatim>\<open>xstart > xend\<close>) reads the vertex data of the
  polygon; it is not modelled, and the values it leaves in the locals \<^verbatim>\<open>xstart\<close>,
  \<^verbatim>\<open>xend\<close>, \<^verbatim>\<open>l_filledge\<close>, \<^verbatim>\<open>r_filledge\<close>, \<^verbatim>\<open>l_edgelen\<close>, \<^verbatim>\<open>r_edgelen\<close>,
  \<^verbatim>\<open>wl\<close>, \<^verbatim>\<open>wr\<close>, \<^verbatim>\<open>zl\<close>, \<^verbatim>\<open>zr\<close> are the fields of \<open>ScanlineLocals\<close>, together
  with \<^verbatim>\<open>polygon->YTop\<close> and \<^verbatim>\<open>polygon->YBottom\<close>. The locals \<^verbatim>\<open>polyattr\<close> and the
  edge coverages are computed by the source and never read. The two \<^verbatim>\<open>Step\<close> calls at
  the end change the slopes only. The state is the buffers; the loops also carry the
  interpolator \<^verbatim>\<open>interpX\<close>, whose \<^verbatim>\<open>SetX\<close> is called for every pixel.
\<close>

record ScanlineLocals =
  L_YTop :: int
  L_YBottom :: int
  L_xstart :: int
  L_xend :: int
  L_l_filledge :: bool
  L_r_filledge :: bool
  L_l_edgelen :: int
  L_r_edgelen :: int
  L_wl :: int
  L_wr :: int
  L_zl :: int
  L_zr :: int

definition RenderShadowMaskScanline ::
  "Regs \<Rightarrow> Polygon \<Rightarrow> ScanlineLocals \<Rightarrow> int \<Rightarrow> Buffers \<Rightarrow> Buffers" where
  "RenderShadowMaskScanline regs polygon L y st =
     (let polyalpha = drop_bit 16 (Attr polygon) AND 0x1F;
          wireframe = (polyalpha = 0);
          st = (if \<not> PrevIsShadowMask st
                then st\<lparr>StencilBuffer :=
                        (\<lambda>i. if nat (256 * (y AND 0x1)) \<le> i \<and> i < nat (256 * (y AND 0x1)) + 256
                             then 0 else StencilBuffer st i)\<rparr>
                else st);
          st = st\<lparr>PrevIsShadowMask := True\<rparr>;
          xstart = L_xstart L;
          xend = L_xend L;
          l_filledge = L_l_filledge L;
          r_filledge = L_r_filledge L;
          l_edgelen = L_l_edgelen L;
          r_edgelen = L_r_edgelen L;
          wl = L_wl L;
          wr = L_wr L;
          zl = L_zl L;
          zr = L_zr L;
          polyalpha = (if wireframe then 31 else polyalpha)
      in
      if polyalpha \<le> RenderAlphaRef regs then st
      else
        let yedge = (if y = L_YTop L then 0x4
                     else if y = s32 (L_YBottom L - 1) then 0x8 else (0 :: int));
            x = xstart;
            interpX = Interp_Setup 0 Interpolator_new xstart (s32 (xend + 1)) wl wr;
            x = (if x < 0 then 0 else x);
            xlimit = s32 (xstart + l_edgelen);
            xlimit = (if xlimit > s32 (xend + 1) then s32 (xend + 1) else xlimit);
            xlimit = (if xlimit > 256 then 256 else xlimit);
            (x, interpX, st) =
              for_x (\<lambda>x (interpX, st).
                  let pixeladdr = (word_of_int (FirstPixelOffset + (y * ScanlineWidth) + x) :: u32);
                      interpX = Interp_SetX interpX x;
                      z = InterpolateZ 0 interpX zl zr (WBuffer polygon);
                      dstattr = AttrBuffer st (unat pixeladdr)
                  in
                  if \<not> l_filledge then (interpX, st)
                  else
                    let st = (if \<not> fnDepthTest polygon (DepthBuffer st (unat pixeladdr))
                                     (word_of_int z) dstattr
                              then st\<lparr>StencilBuffer := (StencilBuffer st)
                                     (nat (256 * (y AND 0x1) + x) :=
                                        StencilBuffer st (nat (256 * (y AND 0x1) + x)) OR 0x1)\<rparr>
                              else st);
                        st = (if dstattr AND 0x3 \<noteq> 0 then
                                (let pixeladdr = pixeladdr + word_of_int BufferSize
                                 in if \<not> fnDepthTest polygon (DepthBuffer st (unat pixeladdr))
                                           (word_of_int z) (AttrBuffer st (unat pixeladdr))
                                    then st\<lparr>StencilBuffer := (StencilBuffer st)
                                           (nat (256 * (y AND 0x1) + x) :=
                                              StencilBuffer st (nat (256 * (y AND 0x1) + x)) OR 0x2)\<rparr>
                                    else st)
                              else st)
                    in (interpX, st))
                x xlimit (interpX, st);
            edge = yedge;
            xlimit = s32 (s32 (xend - r_edgelen) + 1);
            xlimit = (if xlimit > s32 (xend + 1) then s32 (xend + 1) else xlimit);
            xlimit = (if xlimit > 256 then 256 else xlimit);
            (x, interpX, st) =
              (if wireframe \<and> edge = 0 then (xlimit, interpX, st)
               else
                 for_x (\<lambda>x (interpX, st).
                     let pixeladdr = (word_of_int (FirstPixelOffset + (y * ScanlineWidth) + x) :: u32);
                         interpX = Interp_SetX interpX x;
                         z = InterpolateZ 0 interpX zl zr (WBuffer polygon);
                         dstattr = AttrBuffer st (unat pixeladdr);
                         st = (if \<not> fnDepthTest polygon (DepthBuffer st (unat pixeladdr))
                                      (word_of_int z) dstattr
                               then st\<lparr>StencilBuffer := (StencilBuffer st)
                                      (nat (256 * (y AND 0x1) + x) := 1)\<rparr>
                               else st);
                         st = (if dstattr AND 0x3 \<noteq> 0 then
                                 (let pixeladdr = pixeladdr + word_of_int BufferSize
                                  in if \<not> fnDepthTest polygon (DepthBuffer st (unat pixeladdr))
                                            (word_of_int z) (AttrBuffer st (unat pixeladdr))
                                     then st\<lparr>StencilBuffer := (StencilBuffer st)
                                            (nat (256 * (y AND 0x1) + x) :=
                                               StencilBuffer st (nat (256 * (y AND 0x1) + x)) OR 0x2)\<rparr>
                                     else st)
                               else st)
                     in (interpX, st))
                   x xlimit (interpX, st));
            xlimit = s32 (xend + 1);
            xlimit = (if xlimit > 256 then 256 else xlimit);
            (x, interpX, st) =
              for_x (\<lambda>x (interpX, st).
                  let pixeladdr = (word_of_int (FirstPixelOffset + (y * ScanlineWidth) + x) :: u32);
                      interpX = Interp_SetX interpX x;
                      z = InterpolateZ 0 interpX zl zr (WBuffer polygon);
                      dstattr = AttrBuffer st (unat pixeladdr)
                  in
                  if \<not> r_filledge then (interpX, st)
                  else
                    let st = (if \<not> fnDepthTest polygon (DepthBuffer st (unat pixeladdr))
                                     (word_of_int z) dstattr
                              then st\<lparr>StencilBuffer := (StencilBuffer st)
                                     (nat (256 * (y AND 0x1) + x) := 1)\<rparr>
                              else st);
                        st = (if dstattr AND 0x3 \<noteq> 0 then
                                (let pixeladdr = pixeladdr + word_of_int BufferSize
                                 in if \<not> fnDepthTest polygon (DepthBuffer st (unat pixeladdr))
                                           (word_of_int z) (AttrBuffer st (unat pixeladdr))
                                    then st\<lparr>StencilBuffer := (StencilBuffer st)
                                           (nat (256 * (y AND 0x1) + x) :=
                                              StencilBuffer st (nat (256 * (y AND 0x1) + x)) OR 0x2)\<rparr>
                                    else st)
                              else st)
                    in (interpX, st))
                x xlimit (interpX, st)
        in st)"

subsection \<open>Slope\<close>

text \<open>
  The class \<^verbatim>\<open>Slope<side>\<close>; the template parameter \<^verbatim>\<open>side\<close> (0 left, 1 right) is the
  first argument of \<open>Slope_Setup\<close>. The private members carry the prefix \<open>S_\<close>; the
  members \<^verbatim>\<open>ycoverage\<close> and \<^verbatim>\<open>ycov_incr\<close> are never written and are left out.
  \<open>Slope_Setup\<close> and \<open>Slope_Step\<close> return the value of \<^verbatim>\<open>XVal()\<close> with the updated
  object. The constructor leaves the members unset; \<open>Slope_new\<close> is the object with every
  member zero. \<open>Slope_Steps n\<close> is \<open>n\<close> calls of \<^verbatim>\<open>Step()\<close>. The division by
  \<^verbatim>\<open>ylen\<close> is guarded by the source; the width \<^verbatim>\<open>xlen\<close> of \<^verbatim>\<open>s32\<close> arguments is
  never 0.
\<close>

record Slope =
  Increment :: int
  Negative :: bool
  XMajor :: bool
  Interp :: Interpolator
  S_x0 :: int
  S_xmin :: int
  S_xmax :: int
  S_xlen :: int
  S_ylen :: int
  S_dx :: int
  S_y :: int
  S_xcov_incr :: int

definition XVal :: "Slope \<Rightarrow> int" where
  "XVal S =
     (let ret = (if Negative S then s32 (S_x0 S - drop_bit 18 (S_dx S))
                 else s32 (S_x0 S + drop_bit 18 (S_dx S)))
      in if ret < S_xmin S then S_xmin S
         else if ret > S_xmax S then S_xmax S
         else ret)"

definition Slope_Setup ::
  "nat \<Rightarrow> Slope \<Rightarrow> int \<Rightarrow> int \<Rightarrow> int \<Rightarrow> int \<Rightarrow> int \<Rightarrow> int \<Rightarrow> int \<Rightarrow> int \<times> Slope" where
  "Slope_Setup side S x0 x1 y0 y1 w0 w1 y =
     (let S = S\<lparr>S_x0 := x0, S_y := y\<rparr>;
          S = (if x1 > x0 then S\<lparr>S_xmin := x0, S_xmax := s32 (x1 - 1), Negative := False\<rparr>
               else if x1 < x0 then S\<lparr>S_xmin := x1, S_xmax := s32 (x0 - 1), Negative := True\<rparr>
               else
                 (let xmin = (if side \<noteq> 0 then s32 (x0 - 1) else x0)
                  in S\<lparr>S_xmin := xmin, S_xmax := xmin, Negative := False\<rparr>));
          xlen = s32 (s32 (S_xmax S + 1) - S_xmin S);
          ylen = s32 (y1 - y0);
          S = S\<lparr>S_xlen := xlen, S_ylen := ylen\<rparr>;
          Increment =
            (if ylen = 0 then 0
             else if ylen = xlen then 0x40000
             else
               (let yrecip = s32 (0x40000 sdiv ylen);
                    Increment = s32 (s32 (x1 - x0) * yrecip)
                in if Increment < 0 then s32 (- Increment) else Increment));
          XMajor = (Increment > 0x40000);
          S = S\<lparr>Increment := Increment, XMajor := XMajor\<rparr>;
          dx =
            (if side \<noteq> 0 then
               (if XMajor then (if Negative S then 0x20000 + 0x40000 else s32 (Increment - 0x20000))
                else if Increment \<noteq> 0 then (if Negative S then 0x40000 else 0)
                else - 0x40000)
             else
               (if XMajor then (if Negative S then s32 (s32 (Increment - 0x20000) + 0x40000)
                                else 0x20000)
                else if Increment \<noteq> 0 then (if Negative S then 0x40000 else 0)
                else 0));
          dx = s32 (dx + s32 (s32 (y - y0) * Increment));
          S = S\<lparr>S_dx := dx\<rparr>;
          x = XVal S
      in
      if XMajor then
        (let I = (if side \<noteq> 0 then Interp_Setup 1 (Interp S) (s32 (x0 - 1)) (s32 (x1 - 1)) w0 w1
                  else Interp_Setup 1 (Interp S) x0 x1 w0 w1);
             I = Interp_SetX I x
         in (x, S\<lparr>Interp := I, S_xcov_incr := s32 (s32 (ylen * 2 ^ 10) sdiv xlen)\<rparr>))
      else
        (let I = Interp_Setup 1 (Interp S) y0 y1 w0 w1;
             I = Interp_SetX I y
         in (x, S\<lparr>Interp := I\<rparr>)))"

definition Slope_Step :: "Slope \<Rightarrow> int \<times> Slope" where
  "Slope_Step S =
     (let S = S\<lparr>S_dx := s32 (S_dx S + Increment S), S_y := s32 (S_y S + 1)\<rparr>;
          x = XVal S
      in if XMajor S then (x, S\<lparr>Interp := Interp_SetX (Interp S) x\<rparr>)
         else (x, S\<lparr>Interp := Interp_SetX (Interp S) (S_y S)\<rparr>))"

definition Slope_new :: Slope where
  "Slope_new = \<lparr>Increment = 0, Negative = False, XMajor = False, Interp = Interpolator_new,
     S_x0 = 0, S_xmin = 0, S_xmax = 0, S_xlen = 0, S_ylen = 0, S_dx = 0, S_y = 0,
     S_xcov_incr = 0\<rparr>"

primrec Slope_Steps :: "nat \<Rightarrow> Slope \<Rightarrow> Slope" where
  "Slope_Steps 0 S = S"
| "Slope_Steps (Suc n) S = Slope_Steps n (snd (Slope_Step S))"

section \<open>Verified properties\<close>

subsection \<open>GetLine\<close>

text \<open>
  C9, as stated: for every line \<open>y\<close> in \<open>[0,192)\<close> the first usable pixel of the
  line is at offset 1 from the pointer that \<open>GetLine\<close> returns. This fails: the
  pointer returned for line 0 is index 259, which already is the address of the pixel of
  column 0 of line 0, so that pixel is at offset 0, and offset 1 is column 1.
\<close>

theorem GetLine_offset1_counterexample:
  "GetLine \<lparr>RenderThreadRunning = False, Sema_ScanlineCount = 0\<rparr> 0
     = Some (259, \<lparr>RenderThreadRunning = False, Sema_ScanlineCount = 0\<rparr>)
   \<and> pixeladdr_of 0 0 = 259
   \<and> 259 + 1 \<noteq> pixeladdr_of 0 0"
  by (simp add: GetLine_def pixeladdr_of_def FirstPixelOffset_def ScanlineWidth_def)

text \<open>
  C9, amended: for every line \<open>y\<close> in \<open>[0,192)\<close> and whatever the semaphore holds,
  the pointer that \<open>GetLine\<close> returns is the index of the first usable pixel of line
  \<open>y\<close> itself (offset 0). The call returns at once when the worker is not running or a
  scanline token is available; with the worker running and no token it waits, and as soon
  as a token has been posted it returns that same pointer. The returned index is one past
  the start \<open>(y+1) * 258\<close> of the 258-pixel-wide row, column \<open>x\<close> of the line is at
  offset \<open>x\<close> from it, and the 256 usable pixels lie inside the top layer of the buffer.
\<close>

theorem GetLine_first_usable_pixel:
  assumes "0 \<le> y" and "y < 192"
  shows "(GetLine st y = None \<longleftrightarrow> RenderThreadRunning st \<and> Sema_ScanlineCount st = 0)
       \<and> (\<forall>p st'. GetLine st y = Some (p, st') \<longrightarrow> p = pixeladdr_of y 0)
       \<and> (\<exists>st'. GetLine (st\<lparr>Sema_ScanlineCount := Suc (Sema_ScanlineCount st)\<rparr>) y
                   = Some (pixeladdr_of y 0, st'))
       \<and> pixeladdr_of y 0 = (y + 1) * ScanlineWidth + 1
       \<and> (\<forall>x. pixeladdr_of y 0 + x = pixeladdr_of y x)
       \<and> 0 \<le> pixeladdr_of y 0 \<and> pixeladdr_of y 0 + 255 < BufferSize"
  using assms
  by (auto simp add: GetLine_def Semaphore_Wait_def pixeladdr_of_def FirstPixelOffset_def
      ScanlineWidth_def BufferSize_def NumScanlines_def)

theorem GetLine_first_usable_pixel_witness:
  "GetLine \<lparr>RenderThreadRunning = True, Sema_ScanlineCount = 5\<rparr> 191
     = Some (49537, \<lparr>RenderThreadRunning = True, Sema_ScanlineCount = 4\<rparr>)
   \<and> GetLine \<lparr>RenderThreadRunning = True, Sema_ScanlineCount = 0\<rparr> 191 = None
   \<and> GetLine \<lparr>RenderThreadRunning = True, Sema_ScanlineCount = Suc 0\<rparr> 191
     = Some (49537, \<lparr>RenderThreadRunning = True, Sema_ScanlineCount = 0\<rparr>)
   \<and> pixeladdr_of 191 0 = 49537
   \<and> pixeladdr_of 191 255 = 49537 + 255
   \<and> 49537 + 255 < BufferSize"
  using GetLine_first_usable_pixel [of 191 "\<lparr>RenderThreadRunning = True, Sema_ScanlineCount = 5\<rparr>"]
    GetLine_first_usable_pixel [of 191 "\<lparr>RenderThreadRunning = True, Sema_ScanlineCount = 0\<rparr>"]
  by (simp add: GetLine_def Semaphore_Wait_def pixeladdr_of_def FirstPixelOffset_def
      ScanlineWidth_def BufferSize_def NumScanlines_def)

subsection \<open>Bits of 32-bit words\<close>

lemma lt32_cases:
  "(k::nat) < 32 \<Longrightarrow>
   k \<in> {0, 1, 2, 3, 4, 5, 6, 7, 8, 9, 10, 11, 12, 13, 14, 15, 16, 17, 18, 19, 20, 21, 22, 23,
        24, 25, 26, 27, 28, 29, 30, 31}"
  by simp arith

lemma all_lt32: "(\<forall>n<32::nat. P n) \<longleftrightarrow>
   (P 0 \<and> P 1 \<and> P 2 \<and> P 3 \<and> P 4 \<and> P 5 \<and> P 6 \<and> P 7 \<and> P 8 \<and> P 9 \<and> P 10 \<and> P 11 \<and> P 12 \<and> P 13 \<and> P 14 \<and> P 15
    \<and> P 16 \<and> P 17 \<and> P 18 \<and> P 19 \<and> P 20 \<and> P 21 \<and> P 22 \<and> P 23 \<and> P 24 \<and> P 25 \<and> P 26 \<and> P 27 \<and> P 28 \<and> P 29 \<and> P 30 \<and> P 31)"
  (is "?L \<longleftrightarrow> ?R")
proof
  assume ?L then show ?R by simp
next
  assume r: ?R
  show ?L
  proof (intro allI impI)
    fix n :: nat assume "n < 32"
    from lt32_cases[OF this] r show "P n" by auto
  qed
qed

lemma sint32_range: "- (2^31) \<le> sint (d::u32) \<and> sint d < 2^31"
  using sint_ge[of d] sint_lt[of d] by simp

lemma window_test:
  assumes "0 \<le> k" and "k < 2^30"
  shows "((d::u32) + word_of_int k \<le> word_of_int (2 * k)) \<longleftrightarrow> (- k \<le> sint d \<and> sint d \<le> k)"
proof -
  have "d + word_of_int k = word_of_int (sint d + k)" by simp
  then have a: "uint (d + word_of_int k) = (sint d + k) mod 2^32"
    by (simp only: uint_word_of_int take_bit_eq_mod) simp
  have b: "uint (word_of_int (2 * k) :: u32) = 2 * k"
    using assms by (simp only: uint_word_of_int take_bit_eq_mod) simp
  have "(sint d + k) mod 2^32 = (if - k \<le> sint d then sint d + k else sint d + k + 2^32)"
    using sint32_range[of d] assms
    by (auto simp add: mod_pos_pos_trivial intro!: mod_pos_pos_trivial) (smt (verit) mod_add_self2 mod_pos_pos_trivial)
  then show ?thesis
    using sint32_range[of d] assms a b by (auto simp add: word_le_def)
qed

lemma Equal_Z_iff: "DepthTest_Equal_Z dstz z a \<longleftrightarrow> (- 0x200 \<le> sint (dstz - z) \<and> sint (dstz - z) \<le> 0x200)"
  using window_test[of 512 "dstz - z"] by (simp add: DepthTest_Equal_Z_def)

lemma Equal_W_iff: "DepthTest_Equal_W dstz z a \<longleftrightarrow> (- 0xFF \<le> sint (dstz - z) \<and> sint (dstz - z) \<le> 0xFF)"
  using window_test[of 255 "dstz - z"] by (simp add: DepthTest_Equal_W_def)

lemma attr_bit14: "(a AND 0x4000 = 0) = (\<not> bit (a::u32) 14)"
  by (simp add: bit_eq_iff bit_and_iff all_lt32)

lemma opaque_backfacing: "(dstattr AND 0x00400010 = (0x10::u32)) \<longleftrightarrow> (\<not> bit dstattr 22 \<and> bit dstattr 4)"
  by (simp add: bit_eq_iff bit_and_iff all_lt32) auto

lemma sint_small:
  assumes "unat (w::u32) < 2^24"
  shows "sint w = int (unat w)"
proof -
  have u: "uint w = int (unat w)" by simp
  have a: "unat w < 16777216" using assms by simp
  have n: "- 2147483648 \<le> uint w" "uint w < 2147483648"
    using a u by linarith+
  have r: "- (2 ^ 31) \<le> uint w" "uint w < 2 ^ 31"
    using n by simp_all
  have "sint w = signed_take_bit (LENGTH(32) - Suc 0) (uint w)"
    by (rule sint_uint)
  also have "\<dots> = signed_take_bit 31 (uint w)"
    by simp
  also have "\<dots> = uint w"
    using r by (rule signed_take_bit_int_eq_self)
  finally show ?thesis by (simp only: u)
qed

lemma depth24_diff:
  assumes "unat (dstz::u32) < 2^24" and "unat (z::u32) < 2^24"
  shows "sint (dstz - z) = int (unat dstz) - int (unat z)"
proof -
  have a: "unat dstz < 16777216" "unat z < 16777216" using assms by simp_all
  have s: "sint dstz = int (unat dstz)" "sint z = int (unat z)"
    using assms by (simp_all only: sint_small)
  have n: "- 2147483648 \<le> sint dstz - sint z" "sint dstz - sint z < 2147483648"
    unfolding s using a by linarith+
  have r: "- (2 ^ 31) \<le> sint dstz - sint z" "sint dstz - sint z < 2 ^ 31"
    using n by simp_all
  have "sint (dstz - z) = signed_take_bit (LENGTH(32) - 1) (sint dstz - sint z)"
    by (rule sint_word_diff)
  also have "\<dots> = signed_take_bit 31 (sint dstz - sint z)"
    by simp
  also have "\<dots> = sint dstz - sint z"
    using r by (rule signed_take_bit_int_eq_self)
  finally show ?thesis unfolding s .
qed

subsection \<open>The depth predicate\<close>

text \<open>
  C3: the depth predicate of a polygon. When bit 14 of the polygon attributes is set it
  is the equality test, which accepts exactly the differences \<open>diff = dstz - z\<close>
  (the \<^verbatim>\<open>s32\<close> variable of the code) within \<open>\<plusminus>0x200\<close> under Z-buffering and
  within \<open>\<plusminus>0xFF\<close> under W-buffering; otherwise it is \<open>z < dstz\<close>, and a
  front-facing polygon also passes on \<open>z = dstz\<close> exactly when the destination
  pixel is opaque (attribute bit 22 clear) and back-facing (attribute bit 4 set). For
  24-bit depths, the range of the depth buffer, \<open>diff\<close> is the difference of the
  two depths as numbers.
\<close>

theorem fnDepthTest_predicate:
  "(fnDepthTest polygon dstz z dstattr \<longleftrightarrow>
     (if bit (Attr polygon) 14
      then (if WBuffer polygon
            then - 0xFF \<le> sint (dstz - z) \<and> sint (dstz - z) \<le> 0xFF
            else - 0x200 \<le> sint (dstz - z) \<and> sint (dstz - z) \<le> 0x200)
      else (sint z < sint dstz \<or>
            (FacingView polygon \<and> z = dstz \<and> \<not> bit dstattr 22 \<and> bit dstattr 4))))
   \<and> (unat dstz < 2^24 \<and> unat z < 2^24 \<longrightarrow>
        sint (dstz - z) = int (unat dstz) - int (unat z)
        \<and> sint z = int (unat z) \<and> sint dstz = int (unat dstz))"
proof -
  show ?thesis
    by (simp add: fnDepthTest_def attr_bit14 Equal_Z_iff Equal_W_iff opaque_backfacing
        DepthTest_LessThan_def DepthTest_LessThan_FrontFacing_def word_sless_alt word_sle_eq
        depth24_diff sint_small) (auto simp add: order_le_less word_eq_iff_signed [where ?'a = int])
qed

theorem fnDepthTest_predicate_witness:
  "fnDepthTest \<lparr>Attr = 0x4000, TexParam = 0, TexPalette = 0, FacingView = True,
                 WBuffer = False, IsShadow = False\<rparr> 0x1000 0x1200 0
   \<and> \<not> fnDepthTest \<lparr>Attr = 0x4000, TexParam = 0, TexPalette = 0, FacingView = True,
                 WBuffer = False, IsShadow = False\<rparr> 0x1000 0x1201 0
   \<and> sint (0x1000 - 0x1201 :: u32) = - 0x201"
  using fnDepthTest_predicate [of "\<lparr>Attr = 0x4000, TexParam = 0, TexPalette = 0, FacingView = True,
                 WBuffer = False, IsShadow = False\<rparr>" "0x1000" "0x1200" 0]
    fnDepthTest_predicate [of "\<lparr>Attr = 0x4000, TexParam = 0, TexPalette = 0, FacingView = True,
                 WBuffer = False, IsShadow = False\<rparr>" "0x1000" "0x1201" 0]
  by simp

subsection \<open>More on bits and small values of 32-bit words\<close>

lemma word32_eq_iff:
  fixes a b :: u32
  shows "a = b \<longleftrightarrow> (\<forall>n<32. bit a n = bit b n)"
  by (auto simp add: bit_eq_iff dest: bit_imp_le_length)

lemmas bits32 = word32_eq_iff all_lt32 bit_and_iff bit_or_iff bit_xor_iff bit_not_iff
  bit_drop_bit_eq bit_push_bit_iff

lemma unat_and_3F: "unat ((x::u32) AND 0x3F) \<le> 63"
proof -
  have "x AND 0x3F \<le> 0x3F" by (rule word_and_le1)
  then show ?thesis by (simp add: word_le_nat_alt)
qed

lemma le63_and_3F:
  assumes "unat (r::u32) \<le> 63"
  shows "r AND 0x3F = r"
proof -
  have u: "uint r = int (unat r)" by simp
  have "uint r < 64" using assms unfolding u by linarith
  then have "uint r < 2 ^ 6" by simp
  then have "r AND mask 6 = r" by (simp only: mask_eq_iff)
  then show ?thesis by (simp add: mask_eq_exp_minus_1)
qed

lemma le255_and_FF:
  assumes "unat (r::u32) \<le> 255"
  shows "r AND 0xFF = r"
proof -
  have u: "uint r = int (unat r)" by simp
  have "uint r < 256" using assms unfolding u by linarith
  then have "uint r < 2 ^ 8" by simp
  then have "r AND mask 8 = r" by (simp only: mask_eq_iff)
  then show ?thesis by (simp add: mask_eq_exp_minus_1)
qed

lemma unpack_masked:
  fixes r g b a :: u32
  defines "c \<equiv> (r AND 0x3F) OR push_bit 8 (g AND 0x3F) OR push_bit 16 (b AND 0x3F) OR push_bit 24 (a AND 0xFF)"
  shows "c AND 0x3F = r AND 0x3F"
    and "drop_bit 8 c AND 0x3F = g AND 0x3F"
    and "drop_bit 16 c AND 0x3F = b AND 0x3F"
    and "drop_bit 24 c = a AND 0xFF"
  unfolding c_def
  by (simp_all add: bits32)

lemma unpack_fields:
  fixes r g b a :: u32
  assumes "unat r \<le> 63" "unat g \<le> 63" "unat b \<le> 63" "unat a \<le> 255"
  defines "c \<equiv> r OR push_bit 8 g OR push_bit 16 b OR push_bit 24 a"
  shows "c AND 0x3F = r"
    and "drop_bit 8 c AND 0x3F = g"
    and "drop_bit 16 c AND 0x3F = b"
    and "drop_bit 24 c = a"
  using unpack_masked[of r g b a] assms(1-4)
  unfolding c_def by (simp_all add: le63_and_3F le255_and_FF)

lemma blend_channel:
  fixes s d a' :: u32
  assumes s: "unat s \<le> 63" and d: "unat d \<le> 63" and al: "unat a' \<le> 32"
  shows "unat (drop_bit 5 ((s * a') + (d * (32 - a'))))
           = (unat s * unat a' + unat d * (32 - unat a')) div 32"
    and "unat (drop_bit 5 ((s * a') + (d * (32 - a')))) \<le> 63"
proof -
  have "a' \<le> 32" using al by (simp add: word_le_nat_alt)
  then have a2: "unat (32 - a') = 32 - unat a'"
    by (simp add: unat_sub)
  have p1: "unat s * unat a' \<le> 63 * 32"
    using s al by (rule mult_le_mono)
  have "32 - unat a' \<le> 32" by simp
  with d have p2: "unat d * (32 - unat a') \<le> 63 * 32"
    by (rule mult_le_mono)
  have "unat s * unat a' < 4294967296" using p1 by simp
  then have m1: "unat (s * a') = unat s * unat a'"
    by (simp add: unat_word_ariths)
  have "unat d * (32 - unat a') < 4294967296" using p2 by simp
  then have m2: "unat (d * (32 - a')) = unat d * (32 - unat a')"
    by (simp add: unat_word_ariths a2)
  have "unat s * unat a' + unat d * (32 - unat a') = unat s * unat a' + unat d * 32 - unat d * unat a'"
    using al by (simp add: diff_mult_distrib2)
  have "unat s * unat a' + unat d * (32 - unat a') \<le> 63 * unat a' + 63 * (32 - unat a')"
    using s d by (intro add_mono mult_le_mono1)
  also have "\<dots> = 63 * 32"
    using al by simp
  finally have sum: "unat s * unat a' + unat d * (32 - unat a') \<le> 63 * 32" .
  then have "unat s * unat a' + unat d * (32 - unat a') < 4294967296" by simp
  moreover have "unat ((s * a') + (d * (32 - a')))
              = (unat (s * a') + unat (d * (32 - a'))) mod 2 ^ LENGTH(32)"
    by (rule unat_word_ariths(1))
  ultimately have m3: "unat ((s * a') + (d * (32 - a')))
              = unat s * unat a' + unat d * (32 - unat a')"
    by (simp only: m1 m2) simp
  show "unat (drop_bit 5 ((s * a') + (d * (32 - a'))))
           = (unat s * unat a' + unat d * (32 - unat a')) div 32"
    by (simp only: unat_drop_bit_eq m3) (simp add: drop_bit_eq_div)
  then show "unat (drop_bit 5 ((s * a') + (d * (32 - a')))) \<le> 63"
    using sum by simp
qed


lemma dispcnt_bit3: "((c::u32) AND 8 = 0) = (\<not> bit c 3)"
  by (simp add: bits32)

lemma unat_drop_bit_24: "unat (drop_bit 24 (c::u32)) \<le> 255"
proof -
  have "unat c < 2 ^ 32" using unsigned_less[of c] by simp
  then have "unat c div 2 ^ 24 < 256" by simp
  then show ?thesis by (simp only: unat_drop_bit_eq) (simp add: drop_bit_eq_div)
qed

lemma transl_id_eq:
  "bit (dstattr::u32) 22 \<Longrightarrow> drop_bit 16 dstattr AND 0x3F = drop_bit 24 polyattr AND 0x3F \<Longrightarrow>
   dstattr AND 0x007F0000 =
     ((polyattr AND 0xE0F0) OR (drop_bit 8 polyattr AND 0xFF0000) OR 0x400000
                   OR (dstattr AND 0xFF001F0F)) AND 0x007F0000"
  by (simp add: bit_eq_iff bit_and_iff bit_or_iff bit_drop_bit_eq all_lt32)

lemma bit22: "(a AND 0x400000 = 0) = (\<not> bit (a::u32) 22)"
  by (simp add: bit_eq_iff bit_and_iff all_lt32)

subsection \<open>The translucent plot\<close>

text \<open>
  C4: when the destination pixel is already translucent (attribute bit 22 set) and its
  translucent polygon id (attribute bits 16 to 21) equals the translucent id of the
  incoming polygon (bits 24 to 29 of \<open>polyattr\<close>), \<open>PlotTranslucentPixel\<close>
  returns the buffers as they were, for a shadow polygon and for any other: nothing is
  written to Color, Depth or Attr.
\<close>

theorem PlotTranslucentPixel_same_id_writes_nothing:
  assumes "bit (AttrBuffer st (unat pixeladdr)) 22"
    and "drop_bit 16 (AttrBuffer st (unat pixeladdr)) AND 0x3F = drop_bit 24 polyattr AND 0x3F"
  shows "PlotTranslucentPixel regs st pixeladdr color z polyattr shadow = st"
  using assms transl_id_eq[OF assms]
  by (simp add: PlotTranslucentPixel_def Let_def bit22)



theorem PlotTranslucentPixel_same_id_witness:
  "PlotTranslucentPixel
     \<lparr>RenderDispCnt = 8, RenderAlphaRef = 0, RenderFogOffset = 0, RenderFogShift = 0,
       RenderFogDensityTable = (\<lambda>i. 0), RenderToonTable = (\<lambda>i. 0)\<rparr>
     \<lparr>ColorBuffer = (\<lambda>i. 0x1F3F3F3F), DepthBuffer = (\<lambda>i. 5), AttrBuffer = (\<lambda>i. 0x00450000),
       StencilBuffer = (\<lambda>i. 0), PrevIsShadowMask = False\<rparr>
     300 0x10000020 7 0x05008000 0
   = \<lparr>ColorBuffer = (\<lambda>i. 0x1F3F3F3F), DepthBuffer = (\<lambda>i. 5), AttrBuffer = (\<lambda>i. 0x00450000),
       StencilBuffer = (\<lambda>i. 0), PrevIsShadowMask = False\<rparr>
   \<and> AttrBuffer (PlotTranslucentPixel
     \<lparr>RenderDispCnt = 8, RenderAlphaRef = 0, RenderFogOffset = 0, RenderFogShift = 0,
       RenderFogDensityTable = (\<lambda>i. 0), RenderToonTable = (\<lambda>i. 0)\<rparr>
     \<lparr>ColorBuffer = (\<lambda>i. 0x1F3F3F3F), DepthBuffer = (\<lambda>i. 5), AttrBuffer = (\<lambda>i. 0x00450000),
       StencilBuffer = (\<lambda>i. 0), PrevIsShadowMask = False\<rparr>
     300 0x10000020 7 0x06008000 0) 300 = 0x00460000"
  using PlotTranslucentPixel_same_id_writes_nothing [of
     "\<lparr>ColorBuffer = (\<lambda>i. 0x1F3F3F3F), DepthBuffer = (\<lambda>i. 5), AttrBuffer = (\<lambda>i. 0x00450000),
       StencilBuffer = (\<lambda>i. 0), PrevIsShadowMask = False\<rparr>" 300 "0x05008000"
     "\<lparr>RenderDispCnt = 8, RenderAlphaRef = 0, RenderFogOffset = 0, RenderFogShift = 0,
       RenderFogDensityTable = (\<lambda>i. 0), RenderToonTable = (\<lambda>i. 0)\<rparr>" "0x10000020" 7 0]
  by (simp add: PlotTranslucentPixel_def Let_def)

subsection \<open>Alpha blending\<close>

text \<open>
  C5, as stated: with display-control bit 3 set every translucent write blends each
  channel as \<open>(src * (alpha+1) + dst * (32-(alpha+1))) >> 5\<close>. This fails where the
  destination alpha is 0: \<open>AlphaBlend\<close> then returns the source colour as it is.
  With source red 63, alpha 16, destination red 32 and destination alpha 0 the formula
  gives 48 and the code gives 63.
\<close>

theorem AlphaBlend_formula_counterexample:
  "AlphaBlend \<lparr>RenderDispCnt = 8, RenderAlphaRef = 0, RenderFogOffset = 0, RenderFogShift = 0,
       RenderFogDensityTable = (\<lambda>i. 0), RenderToonTable = (\<lambda>i. 0)\<rparr> 0x1000003F 0x00000020 0x10 = 0x1000003F
   \<and> unat ((0x1000003F :: u32) AND 0x3F)
        \<noteq> (unat ((0x1000003F :: u32) AND 0x3F) * (16 + 1)
            + unat ((0x00000020 :: u32) AND 0x3F) * (32 - (16 + 1))) div 32"
  by (simp add: AlphaBlend_def)

text \<open>
  C5, amended: when the destination alpha is 0, \<open>AlphaBlend\<close> returns the source
  colour word unchanged, whatever bit 3 is. When the destination alpha is not 0 and
  \<open>alpha\<close> is a 5-bit value: with display-control bit 3 set each RGB channel of the
  result is \<open>(src * (alpha+1) + dst * (32-(alpha+1))) div 32\<close> of the 6-bit source and
  destination channels, computed without overflow; with bit 3 clear each channel is the
  source channel; in both cases the result's alpha is the maximum of \<open>alpha\<close> and
  the destination alpha.
\<close>

theorem AlphaBlend_formula:
  "(drop_bit 24 dstcolor = 0 \<longrightarrow> AlphaBlend regs srccolor dstcolor alpha = srccolor) \<and>
   (drop_bit 24 dstcolor \<noteq> 0 \<and> unat alpha \<le> 31 \<longrightarrow>
      (if bit (RenderDispCnt regs) 3
       then unat (AlphaBlend regs srccolor dstcolor alpha AND 0x3F)
              = (unat (srccolor AND 0x3F) * (unat alpha + 1)
                  + unat (dstcolor AND 0x3F) * (32 - (unat alpha + 1))) div 32
          \<and> unat (drop_bit 8 (AlphaBlend regs srccolor dstcolor alpha) AND 0x3F)
              = (unat (drop_bit 8 srccolor AND 0x3F) * (unat alpha + 1)
                  + unat (drop_bit 8 dstcolor AND 0x3F) * (32 - (unat alpha + 1))) div 32
          \<and> unat (drop_bit 16 (AlphaBlend regs srccolor dstcolor alpha) AND 0x3F)
              = (unat (drop_bit 16 srccolor AND 0x3F) * (unat alpha + 1)
                  + unat (drop_bit 16 dstcolor AND 0x3F) * (32 - (unat alpha + 1))) div 32
       else AlphaBlend regs srccolor dstcolor alpha AND 0x3F = srccolor AND 0x3F
          \<and> drop_bit 8 (AlphaBlend regs srccolor dstcolor alpha) AND 0x3F
              = drop_bit 8 srccolor AND 0x3F
          \<and> drop_bit 16 (AlphaBlend regs srccolor dstcolor alpha) AND 0x3F
              = drop_bit 16 srccolor AND 0x3F)
      \<and> drop_bit 24 (AlphaBlend regs srccolor dstcolor alpha)
            = max alpha (drop_bit 24 dstcolor))"
proof (intro conjI impI)
  assume "drop_bit 24 dstcolor = 0"
  then show "AlphaBlend regs srccolor dstcolor alpha = srccolor"
    by (simp add: AlphaBlend_def)
next
  assume h: "drop_bit 24 dstcolor \<noteq> 0 \<and> unat alpha \<le> 31"
  define blendch :: "u32 \<Rightarrow> u32 \<Rightarrow> u32 \<Rightarrow> u32"
    where "blendch s d a' = drop_bit 5 ((s * a') + (d * (32 - a')))" for s d a'
  define a' where "a' = alpha + 1"
  define A where "A = (if alpha > drop_bit 24 dstcolor then alpha else drop_bit 24 dstcolor)"
  define sR where "sR = srccolor AND 0x3F"
  define sG where "sG = drop_bit 8 srccolor AND 0x3F"
  define sB where "sB = drop_bit 16 srccolor AND 0x3F"
  define dR where "dR = dstcolor AND 0x3F"
  define dG where "dG = drop_bit 8 dstcolor AND 0x3F"
  define dB where "dB = drop_bit 16 dstcolor AND 0x3F"
  have unf: "AlphaBlend regs srccolor dstcolor alpha =
      (if bit (RenderDispCnt regs) 3
       then blendch sR dR a' OR push_bit 8 (blendch sG dG a') OR push_bit 16 (blendch sB dB a')
              OR push_bit 24 A
       else sR OR push_bit 8 sG OR push_bit 16 sB OR push_bit 24 A)"
    using h by (simp add: AlphaBlend_def Let_def blendch_def a'_def A_def dispcnt_bit3
        sR_def sG_def sB_def dR_def dG_def dB_def)
  have a'u: "unat a' = unat alpha + 1"
    using h by (simp add: a'_def unat_word_ariths)
  then have a'32: "unat a' \<le> 32" using h by simp
  have bs: "unat sR \<le> 63" "unat sG \<le> 63" "unat sB \<le> 63"
           "unat dR \<le> 63" "unat dG \<le> 63" "unat dB \<le> 63"
    unfolding sR_def sG_def sB_def dR_def dG_def dB_def by (rule unat_and_3F)+
  have Amax: "A = max alpha (drop_bit 24 dstcolor)"
    by (auto simp add: A_def max_def)
  have "unat A \<le> 255"
    using h unat_drop_bit_24[of dstcolor] by (simp add: A_def)
  note Ab = this
  have chR: "unat (blendch sR dR a') = (unat sR * unat a' + unat dR * (32 - unat a')) div 32"
       "unat (blendch sR dR a') \<le> 63"
    unfolding blendch_def
    by (rule blend_channel(1)[OF bs(1) bs(4) a'32], rule blend_channel(2)[OF bs(1) bs(4) a'32])
  have chG: "unat (blendch sG dG a') = (unat sG * unat a' + unat dG * (32 - unat a')) div 32"
       "unat (blendch sG dG a') \<le> 63"
    unfolding blendch_def
    by (rule blend_channel(1)[OF bs(2) bs(5) a'32], rule blend_channel(2)[OF bs(2) bs(5) a'32])
  have chB: "unat (blendch sB dB a') = (unat sB * unat a' + unat dB * (32 - unat a')) div 32"
       "unat (blendch sB dB a') \<le> 63"
    unfolding blendch_def
    by (rule blend_channel(1)[OF bs(3) bs(6) a'32], rule blend_channel(2)[OF bs(3) bs(6) a'32])
  note on = unpack_fields[OF chR(2) chG(2) chB(2) Ab]
  note off = unpack_fields[OF bs(1) bs(2) bs(3) Ab]
  show "if bit (RenderDispCnt regs) 3
       then unat (AlphaBlend regs srccolor dstcolor alpha AND 0x3F)
              = (unat (srccolor AND 0x3F) * (unat alpha + 1)
                  + unat (dstcolor AND 0x3F) * (32 - (unat alpha + 1))) div 32
          \<and> unat (drop_bit 8 (AlphaBlend regs srccolor dstcolor alpha) AND 0x3F)
              = (unat (drop_bit 8 srccolor AND 0x3F) * (unat alpha + 1)
                  + unat (drop_bit 8 dstcolor AND 0x3F) * (32 - (unat alpha + 1))) div 32
          \<and> unat (drop_bit 16 (AlphaBlend regs srccolor dstcolor alpha) AND 0x3F)
              = (unat (drop_bit 16 srccolor AND 0x3F) * (unat alpha + 1)
                  + unat (drop_bit 16 dstcolor AND 0x3F) * (32 - (unat alpha + 1))) div 32
       else AlphaBlend regs srccolor dstcolor alpha AND 0x3F = srccolor AND 0x3F
          \<and> drop_bit 8 (AlphaBlend regs srccolor dstcolor alpha) AND 0x3F
              = drop_bit 8 srccolor AND 0x3F
          \<and> drop_bit 16 (AlphaBlend regs srccolor dstcolor alpha) AND 0x3F
              = drop_bit 16 srccolor AND 0x3F"
  proof (cases "bit (RenderDispCnt regs) 3")
    case True
    have e: "AlphaBlend regs srccolor dstcolor alpha =
        blendch sR dR a' OR push_bit 8 (blendch sG dG a') OR push_bit 16 (blendch sB dB a')
              OR push_bit 24 A"
      by (simp only: unf True if_True)
    have r: "unat (AlphaBlend regs srccolor dstcolor alpha AND 0x3F)
              = (unat sR * (unat alpha + 1) + unat dR * (32 - (unat alpha + 1))) div 32"
      by (simp only: e on(1) chR(1) a'u)
    have g: "unat (drop_bit 8 (AlphaBlend regs srccolor dstcolor alpha) AND 0x3F)
              = (unat sG * (unat alpha + 1) + unat dG * (32 - (unat alpha + 1))) div 32"
      by (simp only: e on(2) chG(1) a'u)
    have b: "unat (drop_bit 16 (AlphaBlend regs srccolor dstcolor alpha) AND 0x3F)
              = (unat sB * (unat alpha + 1) + unat dB * (32 - (unat alpha + 1))) div 32"
      by (simp only: e on(3) chB(1) a'u)
    show ?thesis
      using r g b unfolding sR_def sG_def sB_def dR_def dG_def dB_def
      by (simp only: True if_True simp_thms)
  next
    case False
    have e: "AlphaBlend regs srccolor dstcolor alpha =
        sR OR push_bit 8 sG OR push_bit 16 sB OR push_bit 24 A"
      by (simp only: unf False if_False)
    have r: "AlphaBlend regs srccolor dstcolor alpha AND 0x3F = sR"
      by (simp only: e off(1))
    have g: "drop_bit 8 (AlphaBlend regs srccolor dstcolor alpha) AND 0x3F = sG"
      by (simp only: e off(2))
    have b: "drop_bit 16 (AlphaBlend regs srccolor dstcolor alpha) AND 0x3F = sB"
      by (simp only: e off(3))
    show ?thesis
      using r g b unfolding sR_def sG_def sB_def
      by (simp only: False if_False simp_thms)
  qed
  show "drop_bit 24 (AlphaBlend regs srccolor dstcolor alpha) = max alpha (drop_bit 24 dstcolor)"
  proof (cases "bit (RenderDispCnt regs) 3")
    case True
    then show ?thesis by (simp only: unf if_True on(4)) (simp only: Amax)
  next
    case False
    then show ?thesis by (simp only: unf if_False off(4)) (simp only: Amax)
  qed
qed


theorem AlphaBlend_formula_witness:
  "AlphaBlend \<lparr>RenderDispCnt = 8, RenderAlphaRef = 0, RenderFogOffset = 0, RenderFogShift = 0,
       RenderFogDensityTable = (\<lambda>i. 0), RenderToonTable = (\<lambda>i. 0)\<rparr> 0x1000003F 0x1F000020 0x10 = 0x1F000030
   \<and> AlphaBlend \<lparr>RenderDispCnt = 8, RenderAlphaRef = 0, RenderFogOffset = 0, RenderFogShift = 0,
       RenderFogDensityTable = (\<lambda>i. 0), RenderToonTable = (\<lambda>i. 0)\<rparr> 0x1000003F 0x00000020 0x10 = 0x1000003F
   \<and> (63 * (16 + 1) + 32 * (32 - (16 + 1))) div 32 = (0x30::nat)"
  using AlphaBlend_formula [of "0x1F000020" "\<lparr>RenderDispCnt = 8, RenderAlphaRef = 0, RenderFogOffset = 0, RenderFogShift = 0,
       RenderFogDensityTable = (\<lambda>i. 0), RenderToonTable = (\<lambda>i. 0)\<rparr>" "0x1000003F" "0x10"]
   AlphaBlend_formula [of "0x00000020" "\<lparr>RenderDispCnt = 8, RenderAlphaRef = 0, RenderFogOffset = 0, RenderFogShift = 0,
       RenderFogDensityTable = (\<lambda>i. 0), RenderToonTable = (\<lambda>i. 0)\<rparr>" "0x1000003F" "0x10"]
  by (simp add: AlphaBlend_def)

subsection \<open>Fog density\<close>

lemma unat_u8_le: "unat (t::u8) \<le> 255"
  using unsigned_less[of t, where 'a = nat] by simp

lemma unat_ucast_u8: "unat (ucast (t::u8) :: u32) = unat t"
proof -
  have "unat (ucast t :: u32) = take_bit LENGTH(32) (unat t)"
    by (rule unsigned_ucast_eq)
  also have "\<dots> = unat t"
    using unat_u8_le[of t] by (simp add: take_bit_nat_eq_self_iff)
  finally show ?thesis .
qed

lemma fog_interp:
  fixes t0 t1 :: u8 and frac :: u32
  assumes "unat frac \<le> 0x20000"
  shows "unat (drop_bit 17 ((ucast t0 * (0x20000 - frac)) + (ucast t1 * frac)))
          = (unat t0 * (0x20000 - unat frac) + unat t1 * unat frac) div 0x20000"
proof -
  have "frac \<le> 0x20000" using assms by (simp add: word_le_nat_alt)
  then have a2: "unat (0x20000 - frac) = 0x20000 - unat frac"
    by (simp add: unat_sub)
  have "0x20000 - unat frac \<le> 0x20000" by simp
  with unat_u8_le[of t0] have p1: "unat t0 * (0x20000 - unat frac) \<le> 255 * 0x20000"
    by (rule mult_le_mono)
  from unat_u8_le[of t1] assms have p2: "unat t1 * unat frac \<le> 255 * 0x20000"
    by (rule mult_le_mono)
  have "unat t0 * (0x20000 - unat frac) < 4294967296" using p1 by simp
  then have m1: "unat ((ucast t0 :: u32) * (0x20000 - frac)) = unat t0 * (0x20000 - unat frac)"
    by (simp add: unat_word_ariths a2 unat_ucast_u8)
  have "unat t1 * unat frac < 4294967296" using p2 by simp
  then have m2: "unat ((ucast t1 :: u32) * frac) = unat t1 * unat frac"
    by (simp add: unat_word_ariths unat_ucast_u8)
  have "unat t0 * (0x20000 - unat frac) + unat t1 * unat frac
          \<le> 255 * (0x20000 - unat frac) + 255 * unat frac"
    using unat_u8_le[of t0] unat_u8_le[of t1] by (intro add_mono mult_le_mono1)
  also have "\<dots> = 255 * 0x20000" using assms by simp
  finally have "unat t0 * (0x20000 - unat frac) + unat t1 * unat frac < 4294967296" by simp
  moreover have "unat ((ucast t0 * (0x20000 - frac)) + (ucast t1 * frac) :: u32)
      = (unat ((ucast t0 :: u32) * (0x20000 - frac)) + unat ((ucast t1 :: u32) * frac)) mod 2 ^ LENGTH(32)"
    by (rule unat_word_ariths(1))
  ultimately have m3: "unat ((ucast t0 * (0x20000 - frac)) + (ucast t1 * frac) :: u32)
      = unat t0 * (0x20000 - unat frac) + unat t1 * unat frac"
    by (simp only: m1 m2) simp
  show ?thesis
    by (simp only: unat_drop_bit_eq m3) (simp add: drop_bit_eq_div)
qed


lemma unat_and_1FFFF: "unat ((z::u32) AND 0x1FFFF) = unat z mod 2 ^ 17"
proof -
  have e: "z AND 0x1FFFF = take_bit 17 z"
    by (simp add: take_bit_eq_mask mask_eq_exp_minus_1)
  have "unat (take_bit 17 z) = take_bit 17 (unat z)"
    by (rule unsigned_take_bit_eq)
  then show ?thesis
    unfolding e by (simp only: take_bit_eq_mod)
qed

lemma fog_final:
  fixes density :: u32
  shows "unat (if density \<ge> 127 then 128 else density)
           = (if unat density \<ge> 127 then 128 else unat density)"
  by (simp add: word_le_nat_alt)

text \<open>
  C6, as stated: the fog density is the minimum of the interpolated value
  \<open>(T[id] * (0x20000 - frac) + T[id+1] * frac) >> 17\<close> and 128. This fails where the
  interpolated value is 127: with every table entry 127 the interpolated value is 127,
  and the code returns 128.
\<close>

theorem CalculateFogDensity_min_counterexample:
  "CalculateFogDensity
     \<lparr>RenderDispCnt = 0x80, RenderAlphaRef = 0, RenderFogOffset = 0, RenderFogShift = 0,
       RenderFogDensityTable = (\<lambda>i. 127), RenderToonTable = (\<lambda>i. 0)\<rparr>
     \<lparr>ColorBuffer = (\<lambda>i. 0), DepthBuffer = (\<lambda>i. 0), AttrBuffer = (\<lambda>i. 0x8000),
       StencilBuffer = (\<lambda>i. 0), PrevIsShadowMask = False\<rparr> 259 = 128
   \<and> (127 * (0x20000 - 0) + 127 * 0) div 2 ^ 17 = (127::nat)
   \<and> min (127::nat) 128 \<noteq> 128"
  by (simp add: CalculateFogDensity_def)

text \<open>
  C6, amended: for a fog shift \<^verbatim>\<open>RenderFogShift\<close> below 32 (C leaves a shift of a 32-bit
  value by 32 or more undefined), with
  \<open>z' = ((z - RenderFogOffset) >> 2) << RenderFogShift\<close> as a 32-bit
  value, the density index is \<open>z' >> 17\<close> clamped to 32 and the fraction is
  \<open>z' & 0x1FFFF\<close>, except that the fraction is 0 where the index is clamped and both
  are 0 where \<open>z < RenderFogOffset\<close>. The interpolated value \<open>v\<close> is
  \<open>(T[id] * (0x20000 - frac) + T[id+1] * frac) >> 17\<close>, computed without overflow, and
  the result is \<open>min v 128\<close>, except that \<open>v = 127\<close> gives 128 as well. The table is
  read at \<open>id\<close> and \<open>id + 1\<close>, both below 34.
\<close>

theorem CalculateFogDensity_value:
  fixes regs :: Regs and st :: Buffers and pixeladdr :: u32
  defines "z \<equiv> DepthBuffer st (unat pixeladdr)"
  defines "z' \<equiv> unat (push_bit (unat (RenderFogShift regs)) (drop_bit 2 (z - RenderFogOffset regs)))"
  defines "ident \<equiv> (if z < RenderFogOffset regs then 0 else min (z' div 2 ^ 17) 32)"
  defines "frac \<equiv> (if z < RenderFogOffset regs \<or> 32 \<le> z' div 2 ^ 17 then 0 else z' mod 2 ^ 17)"
  defines "v \<equiv> (unat (RenderFogDensityTable regs ident) * (0x20000 - frac)
                  + unat (RenderFogDensityTable regs (ident + 1)) * frac) div 2 ^ 17"
  assumes "unat (RenderFogShift regs) < 32"
  shows "unat (CalculateFogDensity regs st pixeladdr) = (if v = 127 then 128 else min v 128)
         \<and> ident + 1 < 34"
proof -
  define zw where "zw = push_bit (unat (RenderFogShift regs)) (drop_bit 2 (z - RenderFogOffset regs))"
  have z'u: "z' = unat zw" by (simp add: z'_def zw_def)
  define di :: u32 where "di = (if z < RenderFogOffset regs then 0 else if drop_bit 17 zw \<ge> 32 then 32 else drop_bit 17 zw)"
  define df :: u32 where "df = (if z < RenderFogOffset regs then 0 else if drop_bit 17 zw \<ge> 32 then 0 else zw AND 0x1FFFF)"
  have unf: "CalculateFogDensity regs st pixeladdr =
      (let density = drop_bit 17
              ((ucast (RenderFogDensityTable regs (unat di)) * (0x20000 - df)) +
               (ucast (RenderFogDensityTable regs (unat di + 1)) * df))
       in if density \<ge> 127 then 128 else density)"
    by (simp add: CalculateFogDensity_def Let_def di_def df_def zw_def z_def)
  have d17: "unat (drop_bit 17 zw) = z' div 2 ^ 17"
    by (simp only: unat_drop_bit_eq z'u) (simp add: drop_bit_eq_div)
  have ge32: "(drop_bit 17 zw \<ge> 32) = (32 \<le> z' div 2 ^ 17)"
    by (simp only: word_le_nat_alt d17) simp
  have di: "unat di = ident"
    by (simp add: di_def ident_def ge32 d17 min_def)
  have df: "unat df = frac"
    by (simp add: df_def frac_def ge32 unat_and_1FFFF z'u)
  have "z' mod 131072 < 131072" by simp
  then have "frac \<le> 0x20000"
    by (simp add: frac_def)
  then have fb: "unat df \<le> 0x20000" by (simp only: df)
  have dens: "unat (drop_bit 17
              ((ucast (RenderFogDensityTable regs (unat di)) * (0x20000 - df)) +
               (ucast (RenderFogDensityTable regs (unat di + 1)) * df))) = v"
    by (simp only: fog_interp[OF fb] di df v_def) simp
  have "unat (CalculateFogDensity regs st pixeladdr) = (if v \<ge> 127 then 128 else v)"
    by (simp only: unf Let_def fog_final dens)
  moreover have "ident + 1 < 34" by (simp add: ident_def min_def)
  ultimately show ?thesis by (auto simp add: min_def)
qed


theorem CalculateFogDensity_value_witness:
  "unat (CalculateFogDensity
     \<lparr>RenderDispCnt = 0x80, RenderAlphaRef = 0, RenderFogOffset = 0x1000, RenderFogShift = 10,
       RenderFogDensityTable = (\<lambda>i. if i = 2 then 10 else if i = 3 then 20 else 0),
       RenderToonTable = (\<lambda>i. 0)\<rparr>
     \<lparr>ColorBuffer = (\<lambda>i. 0), DepthBuffer = (\<lambda>i. 0x1500), AttrBuffer = (\<lambda>i. 0x8000),
       StencilBuffer = (\<lambda>i. 0), PrevIsShadowMask = False\<rparr> 259) = 15"
  using CalculateFogDensity_value [of
     "\<lparr>RenderDispCnt = 0x80, RenderAlphaRef = 0, RenderFogOffset = 0x1000, RenderFogShift = 10,
       RenderFogDensityTable = (\<lambda>i. if i = 2 then 10 else if i = 3 then 20 else 0),
       RenderToonTable = (\<lambda>i. 0)\<rparr>"
     "\<lparr>ColorBuffer = (\<lambda>i. 0), DepthBuffer = (\<lambda>i. 0x1500), AttrBuffer = (\<lambda>i. 0x8000),
       StencilBuffer = (\<lambda>i. 0), PrevIsShadowMask = False\<rparr>" 259]
  by simp

subsection \<open>Texture reads stay in bounds\<close>

lemma and_7FFFF_lt: "unat ((addr::u32) AND 0x7FFFF) < 0x80000"
proof -
  have "addr AND 0x7FFFF \<le> 0x7FFFF" by (rule word_and_le1)
  then show ?thesis by (simp add: word_le_nat_alt)
qed

lemma and_1FFFF_lt: "unat ((addr::u32) AND 0x1FFFF) < 0x20000"
proof -
  have "addr AND 0x1FFFF \<le> 0x1FFFF" by (rule word_and_le1)
  then show ?thesis by (simp add: word_le_nat_alt)
qed

lemma even_and_7FFFF_lt:
  assumes "even (addr::u32)"
  shows "unat (addr AND 0x7FFFF) + 1 < 0x80000"
proof -
  have "\<not> bit addr 0" using assms by (simp add: bit_0)
  then have "addr AND 0x7FFFF = addr AND 0x7FFFE"
    by (simp add: bits32)
  moreover have "addr AND 0x7FFFE \<le> 0x7FFFE" by (rule word_and_le1)
  ultimately show ?thesis by (simp add: word_le_nat_alt)
qed

lemma even_and_1FFFF_lt:
  assumes "even (addr::u32)"
  shows "unat (addr AND 0x1FFFF) + 1 < 0x20000"
proof -
  have "\<not> bit addr 0" using assms by (simp add: bit_0)
  then have "addr AND 0x1FFFF = addr AND 0x1FFFE"
    by (simp add: bits32)
  moreover have "addr AND 0x1FFFE \<le> 0x1FFFE" by (rule word_and_le1)
  ultimately show ?thesis by (simp add: word_le_nat_alt)
qed

lemma ReadVRAM_Texture_u8_ok:
  assumes "length vram = 0x80000"
  shows "ReadVRAM_Texture_u8 vram addr = Some (vram ! unat (addr AND 0x7FFFF))"
  using and_7FFFF_lt[of addr] assms by (simp add: ReadVRAM_Texture_u8_def)

lemma ReadVRAM_Texture_u16_ok:
  assumes "length vram = 0x80000" and "even addr"
  shows "ReadVRAM_Texture_u16 vram addr =
           Some (ucast (vram ! unat (addr AND 0x7FFFF))
                 OR push_bit 8 (ucast (vram ! (unat (addr AND 0x7FFFF) + 1))))"
  using even_and_7FFFF_lt[OF assms(2)] assms(1) by (simp add: ReadVRAM_Texture_u16_def Let_def)

lemma ReadVRAM_TexPal_u16_ok:
  assumes "length pal = 0x20000" and "even addr"
  shows "ReadVRAM_TexPal_u16 pal addr =
           Some (ucast (pal ! unat (addr AND 0x1FFFF))
                 OR push_bit 8 (ucast (pal ! (unat (addr AND 0x1FFFF) + 1))))"
  using even_and_1FFFF_lt[OF assms(2)] assms(1) by (simp add: ReadVRAM_TexPal_u16_def Let_def)

lemma even_slot1: "even (drop_bit 1 ((v::u32) AND 0x1FFFC))"
  by (simp add: even_and_iff)

lemma ex_Some_if:
  "(\<exists>c a. (if b then X else Y) = Some (c, a) \<and> P a) =
     (if b then (\<exists>c a. X = Some (c, a) \<and> P a) else (\<exists>c a. Y = Some (c, a) \<and> P a))"
  by simp

lemma and_7_cases:
  fixes f :: u32
  shows "f AND 7 = 0 \<or> f AND 7 = 1 \<or> f AND 7 = 2 \<or> f AND 7 = 3
       \<or> f AND 7 = 4 \<or> f AND 7 = 5 \<or> f AND 7 = 6 \<or> f AND 7 = 7"
proof -
  define k where "k = unat (f AND 7)"
  have e: "f AND 7 = of_nat k" by (simp add: k_def)
  have "f AND 7 \<le> 7" by (rule word_and_le1)
  then have "k \<le> 7" by (simp add: word_le_nat_alt k_def)
  then have "k = 0 \<or> k = 1 \<or> k = 2 \<or> k = 3 \<or> k = 4 \<or> k = 5 \<or> k = 6 \<or> k = 7"
    by arith
  then show ?thesis unfolding e by (elim disjE) simp_all
qed

lemma unat_drop_bit_3_u8: "unat (drop_bit 3 (p::u8)) \<le> 31"
proof -
  have "unat p < 2 ^ 8" using unsigned_less[of p, where 'a = nat] by simp
  then have "unat p div 2 ^ 3 < 32" by simp
  then show ?thesis by (simp only: unat_drop_bit_eq) (simp add: drop_bit_eq_div)
qed

lemma a3i5_alpha: "unat ((drop_bit 3 (p::u8) AND 0x1C) + drop_bit 6 p) \<le> 31"
proof -
  have "drop_bit 3 p AND 0x1C \<le> 0x1C" by (rule word_and_le1)
  then have a: "unat (drop_bit 3 p AND 0x1C) \<le> 28" by (simp add: word_le_nat_alt)
  have "unat p < 2 ^ 8" using unsigned_less[of p, where 'a = nat] by simp
  then have "unat p div 2 ^ 6 < 4" by simp
  then have b: "unat (drop_bit 6 p) \<le> 3" by (simp only: unat_drop_bit_eq) (simp add: drop_bit_eq_div)
  have "unat ((drop_bit 3 p AND 0x1C) + drop_bit 6 p)
          = (unat (drop_bit 3 p AND 0x1C) + unat (drop_bit 6 p)) mod 2 ^ LENGTH(8)"
    by (rule unat_word_ariths(1))
  also have "\<dots> \<le> unat (drop_bit 3 p AND 0x1C) + unat (drop_bit 6 p)"
    by (rule mod_less_eq_dividend)
  finally show ?thesis using a b by linarith
qed

lemma even_if: "even (if c then (a::u32) else b) = (if c then even a else even b)"
  by simp

lemma unat_le_if: "(unat (if c then (a::u8) else b) \<le> n) = (if c then unat a \<le> n else unat b \<le> n)"
  by simp

lemma TextureLookup_result:
  assumes v: "length vram = 0x80000" and p: "length pal = 0x20000"
  shows "\<exists>c a. TextureLookup vram pal texparam texpal s0 t0 out = Some (c, a)
               \<and> (drop_bit 26 texparam AND 0x7 = 0 \<or> unat a \<le> 31)"
proof -
  define width :: u32 where "width = push_bit (unat (drop_bit 20 texparam AND 0x7)) 8"
  define height :: u32 where "height = push_bit (unat (drop_bit 23 texparam AND 0x7)) 8"
  define s1 where "s1 = to_s16 (signed_drop_bit 4 (scast s0))"
  define t1 where "t1 = to_s16 (signed_drop_bit 4 (scast t0))"
  define s where "s = (if texparam AND 0x10000 \<noteq> 0
               then (if texparam AND 0x40000 \<noteq> 0
                     then (if s1 AND width \<noteq> 0
                           then to_s16 ((width - 1) - (s1 AND (width - 1)))
                           else to_s16 (s1 AND (width - 1)))
                     else to_s16 (s1 AND (width - 1)))
               else (if s1 <s 0 then 0
                     else if width \<le>s s1 then to_s16 (width - 1)
                     else s1))"
  define t where "t = (if texparam AND 0x20000 \<noteq> 0
               then (if texparam AND 0x80000 \<noteq> 0
                     then (if t1 AND height \<noteq> 0
                           then to_s16 ((height - 1) - (t1 AND (height - 1)))
                           else to_s16 (t1 AND (height - 1)))
                     else to_s16 (t1 AND (height - 1)))
               else (if t1 <s 0 then 0
                     else if height \<le>s t1 then to_s16 (height - 1)
                     else t1))"
  define fmt where "fmt = drop_bit 26 texparam AND 0x7"
  have cases: "fmt = 0 \<or> fmt = 1 \<or> fmt = 2 \<or> fmt = 3 \<or> fmt = 4 \<or> fmt = 5 \<or> fmt = 6 \<or> fmt = 7"
    unfolding fmt_def by (rule and_7_cases)
  show ?thesis
    unfolding TextureLookup_def Let_def
    unfolding width_def[symmetric] height_def[symmetric] s1_def[symmetric] t1_def[symmetric]
    unfolding s_def[symmetric] t_def[symmetric] fmt_def[symmetric]
    using cases
    by (cases out) (elim disjE; simp add: ReadVRAM_Texture_u8_ok[OF v] ReadVRAM_Texture_u16_ok[OF v]
       ReadVRAM_TexPal_u16_ok[OF p] even_and_iff even_if ex_Some_if a3i5_alpha unat_drop_bit_3_u8 unat_le_if
       split del: if_split cong: if_cong)
qed

lemma ReadVRAM_Texture_u16_None:
  assumes "length vram = 0x80000"
  shows "ReadVRAM_Texture_u16 vram addr = None \<longleftrightarrow> addr AND 0x7FFFF = 0x7FFFF"
proof -
  have "unat (addr AND 0x7FFFF) < 0x80000" by (rule and_7FFFF_lt)
  moreover have "addr AND 0x7FFFF = 0x7FFFF \<longleftrightarrow> unat (addr AND 0x7FFFF) = unat (0x7FFFF :: u32)"
    by (rule word_unat_eq_iff)
  ultimately show ?thesis
    using assms by (auto simp add: ReadVRAM_Texture_u16_def Let_def)
qed

lemma ReadVRAM_TexPal_u16_None:
  assumes "length pal = 0x20000"
  shows "ReadVRAM_TexPal_u16 pal addr = None \<longleftrightarrow> addr AND 0x1FFFF = 0x1FFFF"
proof -
  have "unat (addr AND 0x1FFFF) < 0x20000" by (rule and_1FFFF_lt)
  moreover have "addr AND 0x1FFFF = 0x1FFFF \<longleftrightarrow> unat (addr AND 0x1FFFF) = unat (0x1FFFF :: u32)"
    by (rule word_unat_eq_iff)
  ultimately show ?thesis
    using assms by (auto simp add: ReadVRAM_TexPal_u16_def Let_def)
qed

text \<open>
  C8, as stated: for all addresses passed to the read helpers the access is masked to the
  size of the flat view and therefore in bounds. This fails for the 16-bit helpers: the
  mask bounds the index of the first byte only, so at an address whose masked index is
  the last byte of the view (\<open>0x7FFFF\<close> of texture memory, \<open>0x1FFFF\<close> of palette
  memory) the second byte of the access is one past the array.
\<close>

theorem ReadVRAM_u16_last_byte_counterexample:
  "ReadVRAM_Texture_u16 (replicate 0x80000 0x55) 0x7FFFF = None
   \<and> unat ((0x7FFFF :: u32) AND 0x7FFFF) + 1 = length (replicate 0x80000 (0x55 :: u8))
   \<and> ReadVRAM_TexPal_u16 (replicate 0x20000 0x12) 0x1FFFF = None
   \<and> unat ((0x1FFFF :: u32) AND 0x1FFFF) + 1 = length (replicate 0x20000 (0x12 :: u8))"
  by (simp add: ReadVRAM_Texture_u16_def ReadVRAM_TexPal_u16_def)

text \<open>
  C8, amended: with the flat views of their sizes (0x80000 bytes of texture memory, 0x20000
  bytes of palette memory), \<open>TextureLookup\<close> returns a texel for every \<open>texparam\<close>,
  \<open>texpal\<close>, \<open>s\<close> and \<open>t\<close>: none of the reads it makes, the slot-1 read of the
  compressed format included, leaves the arrays. A byte read is in bounds at every
  address. A 16-bit read at the masked index \<open>i\<close> accesses \<open>i\<close> and \<open>i + 1\<close>; it is in
  bounds at every even address, and it leaves the array exactly where the masked index is
  the last byte of the view.
\<close>

theorem TextureLookup_reads_in_bounds:
  assumes "length vram = 0x80000" and "length pal = 0x20000"
  shows "(\<exists>c a. TextureLookup vram pal texparam texpal s t out = Some (c, a))
       \<and> (\<forall>addr. unat (addr AND 0x7FFFF) < length vram
                \<and> ReadVRAM_Texture_u8 vram addr = Some (vram ! unat (addr AND 0x7FFFF)))
       \<and> (\<forall>addr. even addr \<longrightarrow> unat (addr AND 0x7FFFF) + 1 < length vram
                \<and> ReadVRAM_Texture_u16 vram addr \<noteq> None)
       \<and> (\<forall>addr. even addr \<longrightarrow> unat (addr AND 0x1FFFF) + 1 < length pal
                \<and> ReadVRAM_TexPal_u16 pal addr \<noteq> None)
       \<and> (\<forall>addr. ReadVRAM_Texture_u16 vram addr = None \<longleftrightarrow> addr AND 0x7FFFF = 0x7FFFF)
       \<and> (\<forall>addr. ReadVRAM_TexPal_u16 pal addr = None \<longleftrightarrow> addr AND 0x1FFFF = 0x1FFFF)"
proof (intro conjI allI impI)
  show "\<exists>c a. TextureLookup vram pal texparam texpal s t out = Some (c, a)"
    using TextureLookup_result[OF assms] by blast
next
  fix addr :: u32
  show "unat (addr AND 0x7FFFF) < length vram"
    using and_7FFFF_lt[of addr] assms(1) by simp
  show "ReadVRAM_Texture_u8 vram addr = Some (vram ! unat (addr AND 0x7FFFF))"
    by (rule ReadVRAM_Texture_u8_ok[OF assms(1)])
next
  fix addr :: u32 assume e: "even addr"
  show "unat (addr AND 0x7FFFF) + 1 < length vram"
    using even_and_7FFFF_lt[OF e] assms(1) by simp
  show "ReadVRAM_Texture_u16 vram addr \<noteq> None"
    by (simp add: ReadVRAM_Texture_u16_ok[OF assms(1) e])
next
  fix addr :: u32 assume e: "even addr"
  show "unat (addr AND 0x1FFFF) + 1 < length pal"
    using even_and_1FFFF_lt[OF e] assms(2) by simp
  show "ReadVRAM_TexPal_u16 pal addr \<noteq> None"
    by (simp add: ReadVRAM_TexPal_u16_ok[OF assms(2) e])
next
  fix addr :: u32
  show "ReadVRAM_Texture_u16 vram addr = None \<longleftrightarrow> addr AND 0x7FFFF = 0x7FFFF"
    by (rule ReadVRAM_Texture_u16_None[OF assms(1)])
next
  fix addr :: u32
  show "ReadVRAM_TexPal_u16 pal addr = None \<longleftrightarrow> addr AND 0x1FFFF = 0x1FFFF"
    by (rule ReadVRAM_TexPal_u16_None[OF assms(2)])
qed

lemma replicate_reads:
  "ReadVRAM_Texture_u8 (replicate 0x80000 x) addr = Some x"
  "even addr \<Longrightarrow> ReadVRAM_Texture_u16 (replicate 0x80000 x) addr = Some (ucast x OR push_bit 8 (ucast x))"
  "even addr \<Longrightarrow> ReadVRAM_TexPal_u16 (replicate 0x20000 y) addr = Some (ucast y OR push_bit 8 (ucast y))"
  using and_7FFFF_lt[of addr] even_and_7FFFF_lt[of addr] even_and_1FFFF_lt[of addr]
  by (simp_all add: ReadVRAM_Texture_u8_def ReadVRAM_Texture_u16_def ReadVRAM_TexPal_u16_def Let_def)

theorem TextureLookup_reads_in_bounds_witness:
  "TextureLookup (replicate 0x80000 0x55) (replicate 0x20000 0x12) 0x1C000000 0 0x10 0x20 (0, 0)
     = Some (0x5555, 0)
   \<and> ReadVRAM_Texture_u8 (replicate 0x80000 0x55) 0xFFFFFFFF = Some 0x55
   \<and> ReadVRAM_Texture_u16 (replicate 0x80000 0x55) 0xFFFFFFFF = None"
  using TextureLookup_reads_in_bounds [of "replicate 0x80000 0x55" "replicate 0x20000 0x12"
      "0x1C000000" 0 "0x10" "0x20" "(0, 0)"]
  by (simp add: TextureLookup_def to_s16_def replicate_reads ReadVRAM_Texture_u16_def)

subsection \<open>The fields of a rendered pixel\<close>

lemma unat_ucast_down_le: "unat (ucast (w::u32) :: u8) \<le> unat w"
proof -
  have "unat (ucast w :: u8) = take_bit LENGTH(8) (unat w)"
    by (rule unsigned_ucast_eq)
  then show ?thesis by (simp add: take_bit_eq_mod)
qed

lemma unat_ucast_u8_u32 [simp]: "unat (ucast (t::u8) :: u32) = unat t"
  by (rule unat_ucast_u8)

lemma expand6_le: "unat (expand6 v) \<le> 63"
proof -
  define x :: u8 where "x = ucast (v AND 0x3E)"
  have "v AND 0x3E \<le> 0x3E" by (rule word_and_le1)
  then have "unat (v AND 0x3E) \<le> 62" by (simp add: word_le_nat_alt)
  with unat_ucast_down_le[of "v AND 0x3E"] have x: "unat x \<le> 62"
    unfolding x_def by linarith
  have "unat (x + 1) = (unat x + unat (1::u8)) mod 2 ^ LENGTH(8)"
    by (rule unat_word_ariths(1))
  also have "\<dots> \<le> unat x + unat (1::u8)" by (rule mod_less_eq_dividend)
  finally have "unat (x + 1) \<le> 63" using x by simp
  then show ?thesis
    using x by (simp add: expand6_def Let_def x_def[symmetric])
qed

lemma decal_le:
  fixes tr vr ta :: u8
  assumes "unat tr \<le> 63" and "unat vr \<le> 63" and "unat ta \<le> 31"
  shows "unat (ucast (drop_bit 5 ((ucast tr * ucast ta) + (ucast vr * (31 - ucast ta)) :: u32)) :: u8) \<le> 63"
proof -
  define T :: u32 where "T = ucast tr"
  define V :: u32 where "V = ucast vr"
  define A :: u32 where "A = ucast ta"
  have T: "unat T \<le> 63" and V: "unat V \<le> 63" and A: "unat A \<le> 31"
    using assms by (simp_all add: T_def V_def A_def)
  have "A \<le> 31" using A by (simp add: word_le_nat_alt)
  then have a2: "unat (31 - A) = 31 - unat A" by (simp add: unat_sub)
  have p1: "unat T * unat A \<le> 63 * 31" using T A by (rule mult_le_mono)
  have "31 - unat A \<le> 31" by simp
  with V have p2: "unat V * (31 - unat A) \<le> 63 * 31" by (rule mult_le_mono)
  have "unat T * unat A < 4294967296" using p1 by simp
  then have m1: "unat (T * A) = unat T * unat A" by (simp add: unat_word_ariths)
  have "unat V * (31 - unat A) < 4294967296" using p2 by simp
  then have m2: "unat (V * (31 - A)) = unat V * (31 - unat A)"
    by (simp add: unat_word_ariths a2)
  have "unat T * unat A + unat V * (31 - unat A) \<le> 63 * unat A + 63 * (31 - unat A)"
    using T V by (intro add_mono mult_le_mono1)
  also have "\<dots> = 63 * 31" using A by simp
  finally have sum: "unat T * unat A + unat V * (31 - unat A) \<le> 63 * 31" .
  then have "unat T * unat A + unat V * (31 - unat A) < 4294967296" by simp
  moreover have "unat ((T * A) + (V * (31 - A))) = (unat (T * A) + unat (V * (31 - A))) mod 2 ^ LENGTH(32)"
    by (rule unat_word_ariths(1))
  ultimately have m3: "unat ((T * A) + (V * (31 - A))) = unat T * unat A + unat V * (31 - unat A)"
    by (simp only: m1 m2) simp
  have "unat (drop_bit 5 ((T * A) + (V * (31 - A)))) = (unat T * unat A + unat V * (31 - unat A)) div 32"
    by (simp only: unat_drop_bit_eq m3) (simp add: drop_bit_eq_div)
  then have "unat (drop_bit 5 ((T * A) + (V * (31 - A)))) \<le> 63"
    using sum by simp
  with unat_ucast_down_le[of "drop_bit 5 ((T * A) + (V * (31 - A)))"]
  show ?thesis unfolding T_def V_def A_def by linarith
qed

lemma modulate_le:
  fixes X Y :: u32
  assumes "unat X \<le> n" and "unat Y \<le> m" and "(n + 1) * (m + 1) \<le> 2 ^ (k + j)" and "k + j < 32"
  shows "unat (drop_bit k ((X + 1) * (Y + 1) - 1)) < 2 ^ j"
proof -
  have nm: "(n + 1) * (m + 1) < 4294967296"
  proof -
    have "(2::nat) ^ (k + j) < 2 ^ 32" using assms(4) by (simp only: power_strict_increasing_iff) 
    then show ?thesis using assms(3) by simp
  qed
  have "n + 1 \<le> (n + 1) * (m + 1)" by simp
  then have "unat X + 1 < 4294967296" using nm assms(1) by linarith
  then have x1: "unat (X + 1) = unat X + 1"
    by (simp add: unat_word_ariths)
  have "m + 1 \<le> (n + 1) * (m + 1)" by simp
  then have "unat Y + 1 < 4294967296" using nm assms(2) by linarith
  then have y1: "unat (Y + 1) = unat Y + 1"
    by (simp add: unat_word_ariths)
  have p: "(unat X + 1) * (unat Y + 1) \<le> (n + 1) * (m + 1)"
    using assms(1,2) by (intro mult_le_mono) simp_all
  then have "(unat X + 1) * (unat Y + 1) < 4294967296" using nm by linarith
  then have m: "unat ((X + 1) * (Y + 1)) = (unat X + 1) * (unat Y + 1)"
    by (simp add: unat_word_ariths x1 y1)
  have pos: "1 \<le> (unat X + 1) * (unat Y + 1)" by simp
  then have "1 \<le> (X + 1) * (Y + 1)"
    by (simp only: word_le_nat_alt m) simp
  then have s: "unat ((X + 1) * (Y + 1) - 1) = (unat X + 1) * (unat Y + 1) - 1"
    by (simp only: unat_sub m) simp
  have "(unat X + 1) * (unat Y + 1) - 1 < 2 ^ (k + j)"
    using p pos assms(3) by linarith
  then have "((unat X + 1) * (unat Y + 1) - 1) div 2 ^ k < 2 ^ j"
    by (simp add: less_mult_imp_div_less power_add mult.commute)
  then show ?thesis
    by (simp only: unat_drop_bit_eq s) (simp add: drop_bit_eq_div)
qed

lemma modulate_rgb_le:
  fixes tr vr :: u8
  assumes "unat tr \<le> 63" and "unat vr \<le> 63"
  shows "unat (ucast (drop_bit 6 ((ucast tr + 1) * (ucast vr + 1) - 1 :: u32)) :: u8) \<le> 63"
proof -
  have "unat (drop_bit 6 ((ucast tr + 1) * (ucast vr + 1) - 1 :: u32)) < 2 ^ 6"
    by (rule modulate_le[where n = 63 and m = 63]) (use assms in simp_all)
  with unat_ucast_down_le[of "drop_bit 6 ((ucast tr + 1) * (ucast vr + 1) - 1)"]
  show ?thesis by simp
qed

lemma modulate_alpha_le:
  fixes ta :: u8 and pa :: u32
  assumes "unat ta \<le> 31" and "unat pa \<le> 31"
  shows "unat (ucast (drop_bit 5 ((ucast ta + 1) * (pa + 1) - 1 :: u32)) :: u8) \<le> 31"
proof -
  have "unat (drop_bit 5 ((ucast ta + 1) * (pa + 1) - 1 :: u32)) < 2 ^ 5"
    by (rule modulate_le[where n = 31 and m = 31]) (use assms in simp_all)
  with unat_ucast_down_le[of "drop_bit 5 ((ucast ta + 1) * (pa + 1) - 1)"]
  show ?thesis by simp
qed

lemma clamp63_le: "unat (if r > 63 then 63 else (r::u8)) \<le> 63"
  by (simp add: word_le_nat_alt word_less_nat_alt)

lemma polyalpha_le: "unat ((x::u32) AND 0x1F) \<le> 31"
proof -
  have "x AND 0x1F \<le> 0x1F" by (rule word_and_le1)
  then show ?thesis by (simp add: word_le_nat_alt)
qed

lemma polyalpha_u8_le: "unat (ucast ((x::u32) AND 0x1F) :: u8) \<le> 31"
  using unat_ucast_down_le[of "x AND 0x1F"] polyalpha_le[of x] by linarith

lemma u8_high_bits: "8 \<le> n \<Longrightarrow> bit (r::u8) n = False"
  by (auto dest: bit_imp_le_length)

lemma pack_lanes:
  fixes r g b a :: u8
  defines "c \<equiv> (ucast r OR push_bit 8 (ucast g) OR push_bit 16 (ucast b) OR push_bit 24 (ucast a) :: u32)"
  shows "c AND 0xFF = ucast r"
    and "drop_bit 8 c AND 0xFF = ucast g"
    and "drop_bit 16 c AND 0xFF = ucast b"
    and "drop_bit 24 c = ucast a"
  unfolding c_def
  by (simp_all add: bits32 bit_ucast_iff u8_high_bits)

lemma wireframe_alpha_le: "unat a \<le> 31 \<Longrightarrow> unat (if w then 31 else (a::u8)) \<le> 31"
  by simp

lemmas RenderPixel_simps = RenderPixel_def Let_def pack_lanes expand6_le decal_le modulate_rgb_le
  modulate_alpha_le clamp63_le polyalpha_u8_le polyalpha_le wireframe_alpha_le

lemma and_3_cases:
  fixes f :: u32
  shows "f AND 3 = 0 \<or> f AND 3 = 1 \<or> f AND 3 = 2 \<or> f AND 3 = 3"
proof -
  define k where "k = unat (f AND 3)"
  have e: "f AND 3 = of_nat k" by (simp add: k_def)
  have "f AND 3 \<le> 3" by (rule word_and_le1)
  then have "k \<le> 3" by (simp add: word_le_nat_alt k_def)
  then have "k = 0 \<or> k = 1 \<or> k = 2 \<or> k = 3"
    by arith
  then show ?thesis unfolding e by (elim disjE) simp_all
qed

text \<open>
  C10: for all polygon attributes, texture parameters and coordinates, registers, toon
  table and memory contents, and vertex colour channels of at most 63, \<open>RenderPixel\<close>
  returns a colour word whose byte lanes hold red, green and blue of at most 63 and an
  alpha of at most 31: no field of the packed 6-6-6-5 colour overflows into the next.
\<close>

theorem RenderPixel_fields:
  assumes v: "length vram = 0x80000" and p: "length pal = 0x20000"
    and vr: "unat vr \<le> 63" and vg: "unat vg \<le> 63" and vb: "unat vb \<le> 63"
  shows "\<exists>c. RenderPixel regs vram pal polygon vr vg vb s t = Some c
           \<and> unat (c AND 0xFF) \<le> 63
           \<and> unat (drop_bit 8 c AND 0xFF) \<le> 63
           \<and> unat (drop_bit 16 c AND 0xFF) \<le> 63
           \<and> unat (drop_bit 24 c) \<le> 31"
proof -
  obtain tc ta where
    tl: "TextureLookup vram pal (TexParam polygon) (TexPalette polygon) s t (0, 0) = Some (tc, ta)"
    and ta: "drop_bit 26 (TexParam polygon) AND 0x7 = 0 \<or> unat ta \<le> 31"
    using TextureLookup_result[OF v p] by blast
  have bm: "drop_bit 4 (Attr polygon) AND 0x3 = 0 \<or> drop_bit 4 (Attr polygon) AND 0x3 = 1
          \<or> drop_bit 4 (Attr polygon) AND 0x3 = 2 \<or> drop_bit 4 (Attr polygon) AND 0x3 = 3"
    by (rule and_3_cases)
  show ?thesis
  proof (cases "RenderDispCnt regs AND 0x1 \<noteq> 0 \<and> drop_bit 26 (TexParam polygon) AND 0x7 \<noteq> 0")
    case tex: True
    with ta have ta31: "unat ta \<le> 31" by simp
    from bm show ?thesis
    proof (elim disjE)
      assume "drop_bit 4 (Attr polygon) AND 0x3 = 0"
      with tex tl ta31 vr vg vb show ?thesis
        by (simp add: RenderPixel_simps split del: if_split del: drop_bit_or drop_bit_and)
    next
      assume "drop_bit 4 (Attr polygon) AND 0x3 = 1"
      with tex tl ta31 vr vg vb show ?thesis
        by (cases "ta = 0"; cases "ta = 31";
            simp add: RenderPixel_simps split del: if_split del: drop_bit_or drop_bit_and)
    next
      assume "drop_bit 4 (Attr polygon) AND 0x3 = 2"
      with tex tl ta31 vr vg vb show ?thesis
        by (cases "RenderDispCnt regs AND 0x2 = 0";
            simp add: RenderPixel_simps split del: if_split del: drop_bit_or drop_bit_and)
    next
      assume "drop_bit 4 (Attr polygon) AND 0x3 = 3"
      with tex tl ta31 vr vg vb show ?thesis
        by (cases "ta = 0"; cases "ta = 31";
            simp add: RenderPixel_simps split del: if_split del: drop_bit_or drop_bit_and)
    qed
  next
    case tex: False
    from bm tex vr vg vb show ?thesis
      by (elim disjE; cases "RenderDispCnt regs AND 0x2 = 0";
          cases "RenderDispCnt regs AND 0x1 = 0"; cases "drop_bit 26 (TexParam polygon) AND 0x7 = 0";
          simp add: RenderPixel_simps split del: if_split del: drop_bit_or drop_bit_and)
  qed
qed

theorem RenderPixel_fields_witness:
  "RenderPixel \<lparr>RenderDispCnt = 3, RenderAlphaRef = 0, RenderFogOffset = 0, RenderFogShift = 0,
       RenderFogDensityTable = (\<lambda>i. 0), RenderToonTable = (\<lambda>i. 0x7FFF)\<rparr>
       (replicate 0x80000 0xFF) (replicate 0x20000 0xFF)
       \<lparr>Attr = 0x001F0020, TexParam = 0x1C000000, TexPalette = 0, FacingView = True,
         WBuffer = False, IsShadow = False\<rparr>
       63 10 20 0 0 = Some 0x1F3F3F3F"
  using RenderPixel_fields [of "replicate 0x80000 0xFF" "replicate 0x20000 0xFF" 63 10 20
       "\<lparr>RenderDispCnt = 3, RenderAlphaRef = 0, RenderFogOffset = 0, RenderFogShift = 0,
       RenderFogDensityTable = (\<lambda>i. 0), RenderToonTable = (\<lambda>i. 0x7FFF)\<rparr>"
       "\<lparr>Attr = 0x001F0020, TexParam = 0x1C000000, TexPalette = 0, FacingView = True,
         WBuffer = False, IsShadow = False\<rparr>" 0 0]
  by (simp add: RenderPixel_def TextureLookup_def to_s16_def replicate_reads expand6_def)

subsection \<open>Linear interpolation\<close>

lemma s32_id: "- (2 ^ 31) \<le> v \<Longrightarrow> v < 2 ^ 31 \<Longrightarrow> s32 v = v"
  unfolding s32_def by (rule signed_take_bit_int_eq_self)

lemma s64_id: "- (2 ^ 63) \<le> v \<Longrightarrow> v < 2 ^ 63 \<Longrightarrow> s64 v = v"
  unfolding s64_def by (rule signed_take_bit_int_eq_self)

text \<open>
  The linear path computes \<open>(d * k * q + (3 << 24)) >> 30\<close> with the reciprocal
  \<open>q = 2\<^sup>3\<^sup>0 div D\<close>; these are its properties on unbounded integers.
\<close>

lemma recip_mult_le:
  fixes D :: int
  assumes "0 < D"
  shows "D * (2 ^ 30 div D) \<le> 2 ^ 30" and "0 \<le> (2 ^ 30 :: int) div D"
proof -
  have "D * (2 ^ 30 div D) + 2 ^ 30 mod D = 2 ^ 30" by (rule mult_div_mod_eq)
  moreover have "0 \<le> (2 ^ 30 :: int) mod D" using assms by (rule pos_mod_sign)
  ultimately show "D * (2 ^ 30 div D) \<le> 2 ^ 30" by linarith
  show "0 \<le> (2 ^ 30 :: int) div D" using assms by (simp add: pos_imp_zdiv_nonneg_iff)
qed

lemma lin_core_bounds:
  fixes d k D :: int
  assumes "0 \<le> d" and "0 \<le> k" and "k \<le> D" and "0 < D"
  shows "0 \<le> (d * k * (2 ^ 30 div D) + 3 * 2 ^ 24) div 2 ^ 30"
    and "(d * k * (2 ^ 30 div D) + 3 * 2 ^ 24) div 2 ^ 30 \<le> d"
proof -
  define q :: int where "q = 2 ^ 30 div D"
  have q0: "0 \<le> q" and Dq: "D * q \<le> 2 ^ 30"
    unfolding q_def using recip_mult_le [OF assms(4)] by simp_all
  have "k * q \<le> D * q" using assms(3) q0 by (rule mult_right_mono)
  with Dq have kq: "k * q \<le> 2 ^ 30" by linarith
  have kq0: "0 \<le> k * q" using assms(2) q0 by simp
  have "d * (k * q) \<le> d * 2 ^ 30" using kq assms(1) by (rule mult_left_mono)
  then have up: "d * k * q + 3 * 2 ^ 24 \<le> d * 2 ^ 30 + 3 * 2 ^ 24"
    by (simp add: mult.assoc)
  have lo: "0 \<le> d * k * q + 3 * 2 ^ 24"
    using assms(1) kq0 by (simp add: mult.assoc)
  show "0 \<le> (d * k * (2 ^ 30 div D) + 3 * 2 ^ 24) div 2 ^ 30"
    using lo unfolding q_def by (simp add: pos_imp_zdiv_nonneg_iff)
  have "(d * k * q + 3 * 2 ^ 24) div 2 ^ 30 \<le> (d * 2 ^ 30 + 3 * 2 ^ 24) div 2 ^ 30"
    using up by (rule zdiv_mono1) simp
  also have "(d * 2 ^ 30 + 3 * 2 ^ 24) div 2 ^ 30 = d" by simp
  finally show "(d * k * (2 ^ 30 div D) + 3 * 2 ^ 24) div 2 ^ 30 \<le> d"
    unfolding q_def .
qed

lemma lin_core_mono:
  fixes d k k' q :: int
  assumes "0 \<le> d" and "k \<le> k'" and "0 \<le> q"
  shows "(d * k * q + 3 * 2 ^ 24) div 2 ^ 30 \<le> (d * k' * q + 3 * 2 ^ 24) div 2 ^ 30"
proof -
  have "d * k \<le> d * k'" using assms(2) assms(1) by (rule mult_left_mono)
  then have "d * k * q \<le> d * k' * q" using assms(3) by (rule mult_right_mono)
  then have "d * k * q + 3 * 2 ^ 24 \<le> d * k' * q + 3 * 2 ^ 24" by simp
  then show ?thesis by (rule zdiv_mono1) simp
qed

lemma lin_core_full:
  fixes d D :: int
  assumes "0 \<le> d" and "0 < D"
  shows "(d * D * (2 ^ 30 div D) + 3 * 2 ^ 24) div 2 ^ 30 = d
           \<longleftrightarrow> d * (2 ^ 30 mod D) \<le> 3 * 2 ^ 24"
proof -
  define r :: int where "r = 2 ^ 30 mod D"
  have r0: "0 \<le> r" unfolding r_def using assms(2) by (rule pos_mod_sign)
  have "D * (2 ^ 30 div D) + r = 2 ^ 30" unfolding r_def by (rule mult_div_mod_eq)
  then have "D * (2 ^ 30 div D) = 2 ^ 30 - r" by linarith
  then have "d * (D * (2 ^ 30 div D)) = d * (2 ^ 30 - r)" by simp
  then have e: "d * D * (2 ^ 30 div D) + 3 * 2 ^ 24 = (3 * 2 ^ 24 - d * r) + d * 2 ^ 30"
    by (simp add: algebra_simps)
  have dr: "0 \<le> d * r" using assms(1) r0 by simp
  have "(d * D * (2 ^ 30 div D) + 3 * 2 ^ 24) div 2 ^ 30 = d + (3 * 2 ^ 24 - d * r) div 2 ^ 30"
    unfolding e by simp
  moreover have "(3 * 2 ^ 24 - d * r) div 2 ^ 30 = 0 \<longleftrightarrow> d * r \<le> 3 * 2 ^ 24"
  proof
    assume z: "(3 * 2 ^ 24 - d * r) div 2 ^ 30 = 0"
    have "0 \<le> 3 * 2 ^ 24 - d * r"
      using z pos_imp_zdiv_nonneg_iff [of "2 ^ 30" "3 * 2 ^ 24 - d * r"] by simp
    then show "d * r \<le> 3 * 2 ^ 24" by simp
  next
    assume "d * r \<le> 3 * 2 ^ 24"
    then have "0 \<le> 3 * 2 ^ 24 - d * r" and "3 * 2 ^ 24 - d * r < 2 ^ 30"
      using dr by simp_all
    then show "(3 * 2 ^ 24 - d * r) div 2 ^ 30 = 0" by (rule div_pos_pos_trivial)
  qed
  ultimately show ?thesis unfolding r_def by linarith
qed


lemma s32_abs: "\<bar>v\<bar> < 2 ^ 31 \<Longrightarrow> s32 v = v"
  by (rule s32_id) simp_all

lemma s64_abs: "\<bar>v\<bar> < 2 ^ 63 \<Longrightarrow> s64 v = v"
  by (rule s64_id) simp_all

lemma abs_mult_le:
  fixes a b :: int
  assumes "\<bar>a\<bar> \<le> A" and "\<bar>b\<bar> \<le> B"
  shows "\<bar>a * b\<bar> \<le> A * B"
proof -
  have "\<bar>a\<bar> * \<bar>b\<bar> \<le> A * B"
    using assms by (intro mult_mono) simp_all
  then show ?thesis by (simp add: abs_mult)
qed

lemma sdiv_recip_abs:
  fixes X D :: int
  assumes "(0 \<le> X \<and> 0 < D) \<or> (X \<le> 0 \<and> D < 0)"
  shows "X * (2 ^ 30 sdiv D) = \<bar>X\<bar> * (2 ^ 30 div \<bar>D\<bar>)"
  using assms by (auto simp add: signed_divide_int_def)

lemma sdiv_recip_range:
  fixes D :: int
  shows "\<bar>2 ^ 30 sdiv D\<bar> \<le> 2 ^ 30"
  using sdiv_int_range [of "2 ^ 30" D] by (simp add: abs_le_iff)

lemma linear_path_value:
  fixes base d Y D :: int
  assumes sg: "(0 \<le> Y \<and> Y \<le> D \<and> 0 < D) \<or> (D \<le> Y \<and> Y \<le> 0 \<and> D < 0)"
    and Db: "\<bar>D\<bar> < 2 ^ 31"
    and d0: "0 \<le> d" and lo: "- (2 ^ 30) \<le> base" and hi: "base + d < 2 ^ 30"
  shows "s32 (s64 (base + drop_bit 30
           (s64 (s64 (s64 (d * Y) * (2 ^ 30 sdiv D)) + 50331648))))
         = base + (d * \<bar>Y\<bar> * (2 ^ 30 div \<bar>D\<bar>) + 3 * 2 ^ 24) div 2 ^ 30"
proof -
  define k where "k = \<bar>Y\<bar>"
  define q :: int where "q = 2 ^ 30 div \<bar>D\<bar>"
  have D0: "0 < \<bar>D\<bar>" using sg by auto
  have d1: "\<bar>d\<bar> \<le> 2 ^ 31" using d0 lo hi by simp
  have k0: "0 \<le> k" and k1: "k \<le> \<bar>D\<bar>" and k2: "\<bar>Y\<bar> \<le> 2 ^ 31"
    using sg Db by (auto simp add: k_def)
  have q0: "0 \<le> q" and Dq: "\<bar>D\<bar> * q \<le> 2 ^ 30"
    unfolding q_def using recip_mult_le [OF D0] by simp_all
  have "k * q \<le> \<bar>D\<bar> * q" using k1 q0 by (rule mult_right_mono)
  with Dq have kq1: "k * q \<le> 2 ^ 30" by linarith
  have kq0: "0 \<le> k * q" using k0 q0 by simp
  have kq: "\<bar>k * q\<bar> \<le> 2 ^ 30" using kq0 kq1 by simp
  have xrq: "Y * (2 ^ 30 sdiv D) = k * q"
    unfolding k_def q_def using sg by (intro sdiv_recip_abs) auto
  have "\<bar>d * Y\<bar> \<le> 2 ^ 31 * 2 ^ 31" using d1 k2 by (rule abs_mult_le)
  then have e2: "s64 (d * Y) = d * Y" by (intro s64_abs) simp
  have p: "d * Y * (2 ^ 30 sdiv D) = d * (k * q)" using xrq by (simp add: mult.assoc)
  have dkq: "\<bar>d * (k * q)\<bar> \<le> 2 ^ 31 * 2 ^ 30" using d1 kq by (rule abs_mult_le)
  then have e3: "s64 (d * (k * q)) = d * (k * q)" by (intro s64_abs) simp
  have e4: "s64 (d * (k * q) + 50331648) = d * (k * q) + 50331648"
    using dkq by (intro s64_abs) simp
  define L where "L = (d * k * q + 3 * 2 ^ 24) div 2 ^ 30"
  have L0: "0 \<le> L" and L1: "L \<le> d"
    unfolding L_def q_def using lin_core_bounds [OF d0 k0 k1 D0] by simp_all
  have e5: "drop_bit 30 (d * (k * q) + 50331648) = L"
    unfolding L_def by (simp add: drop_bit_eq_div mult.assoc)
  have e6: "s64 (base + L) = base + L" using L0 L1 lo hi by (intro s64_abs) simp
  have e7: "s32 (base + L) = base + L" using L0 L1 lo hi by (intro s32_abs) simp
  have "s32 (s64 (base + drop_bit 30
           (s64 (s64 (s64 (d * Y) * (2 ^ 30 sdiv D)) + 50331648)))) = base + L"
    by (simp only: e2 p e3 e4 e5 e6 e7)
  then show ?thesis unfolding L_def k_def q_def .
qed

lemma Interpolate_linear_lt:
  assumes lin: "I_linear I" and xd: "I_xdiff I = D" and xx: "I_x I = X"
    and xr: "I_xrecip I = 2 ^ 30 sdiv D"
    and sg: "(0 \<le> X \<and> X \<le> D \<and> 0 < D) \<or> (D \<le> X \<and> X \<le> 0 \<and> D < 0)"
    and Db: "\<bar>D\<bar> < 2 ^ 31"
    and a: "- (2 ^ 30) \<le> a" and ab: "a < b" and b: "b < 2 ^ 30"
  shows "Interpolate I a b
           = a + ((b - a) * \<bar>X\<bar> * (2 ^ 30 div \<bar>D\<bar>) + 3 * 2 ^ 24) div 2 ^ 30"
proof -
  have D0: "D \<noteq> 0" using sg by auto
  have e1: "s32 (b - a) = b - a" using a ab b by (intro s32_abs) simp
  have "Interpolate I a b = s32 (s64 (a + drop_bit 30
          (s64 (s64 (s64 (s32 (b - a) * X) * (2 ^ 30 sdiv D)) + 50331648))))"
    unfolding Interpolate_def using lin xd xx xr ab D0 by simp
  also have "\<dots> = a + ((b - a) * \<bar>X\<bar> * (2 ^ 30 div \<bar>D\<bar>) + 3 * 2 ^ 24) div 2 ^ 30"
    unfolding e1 using sg Db a ab b by (intro linear_path_value) simp_all
  finally show ?thesis .
qed

lemma Interpolate_linear_gt:
  assumes lin: "I_linear I" and xd: "I_xdiff I = D" and xx: "I_x I = X"
    and xr: "I_xrecip I = 2 ^ 30 sdiv D"
    and sg: "(0 \<le> X \<and> X \<le> D \<and> 0 < D) \<or> (D \<le> X \<and> X \<le> 0 \<and> D < 0)"
    and Db: "\<bar>D\<bar> < 2 ^ 31"
    and b: "- (2 ^ 30) \<le> b" and ab: "b < a" and a: "a < 2 ^ 30"
  shows "Interpolate I a b
           = b + ((a - b) * (\<bar>D\<bar> - \<bar>X\<bar>) * (2 ^ 30 div \<bar>D\<bar>) + 3 * 2 ^ 24) div 2 ^ 30"
proof -
  have D0: "D \<noteq> 0" using sg by auto
  have e1: "s32 (a - b) = a - b" using a ab b by (intro s32_abs) simp
  have e2: "s32 (D - X) = D - X" using sg Db by (intro s32_abs) auto
  have e3: "\<bar>D\<bar> - \<bar>X\<bar> = \<bar>D - X\<bar>" using sg by auto
  have "Interpolate I a b = s32 (s64 (b + drop_bit 30
          (s64 (s64 (s64 (s32 (a - b) * s32 (D - X)) * (2 ^ 30 sdiv D)) + 50331648))))"
    unfolding Interpolate_def using lin xd xx xr ab D0 by simp
  also have "\<dots> = b + ((a - b) * \<bar>D - X\<bar> * (2 ^ 30 div \<bar>D\<bar>) + 3 * 2 ^ 24) div 2 ^ 30"
    unfolding e1 e2 using sg Db a ab b by (intro linear_path_value) auto
  finally show ?thesis unfolding e3 .
qed


lemma Interp_linear_setup:
  assumes m: "w AND (if dir \<noteq> 0 then 0x7E else 0x7F) = 0"
    and "- (2 ^ 30) \<le> x0" "x0 < 2 ^ 30" "- (2 ^ 30) \<le> x1" "x1 < 2 ^ 30"
    and "- (2 ^ 30) \<le> x" "x < 2 ^ 30"
  shows "I_linear (Interp_SetX (Interp_Setup dir I x0 x1 w w) x)"
    and "I_xdiff (Interp_SetX (Interp_Setup dir I x0 x1 w w) x) = x1 - x0"
    and "I_x (Interp_SetX (Interp_Setup dir I x0 x1 w w) x) = x - x0"
    and "I_xrecip (Interp_SetX (Interp_Setup dir I x0 x1 w w) x) = 2 ^ 30 sdiv (x1 - x0)"
proof -
  have e1: "s32 (x1 - x0) = x1 - x0" using assms by (intro s32_abs) simp
  have e2: "s32 (x - x0) = x - x0" using assms by (intro s32_abs) simp
  have e3: "s32 (1073741824 sdiv (x1 - x0)) = 1073741824 sdiv (x1 - x0)"
    using sdiv_recip_range [of "x1 - x0"] by (intro s32_abs) simp
  show "I_linear (Interp_SetX (Interp_Setup dir I x0 x1 w w) x)"
    using m by (cases "dir = 0") (simp_all add: Interp_SetX_def Interp_Setup_def Let_def)
  show "I_xdiff (Interp_SetX (Interp_Setup dir I x0 x1 w w) x) = x1 - x0"
    using m by (cases "dir = 0") (simp_all add: Interp_SetX_def Interp_Setup_def Let_def e1)
  show "I_x (Interp_SetX (Interp_Setup dir I x0 x1 w w) x) = x - x0"
    using m by (cases "dir = 0") (simp_all add: Interp_SetX_def Interp_Setup_def Let_def e2)
  show "I_xrecip (Interp_SetX (Interp_Setup dir I x0 x1 w w) x) = 2 ^ 30 sdiv (x1 - x0)"
    using m by (cases "dir = 0") (simp_all add: Interp_SetX_def Interp_Setup_def Let_def e1 e3)
qed


lemma Interpolate_linear_value:
  assumes m: "w AND (if dir \<noteq> 0 then 0x7E else 0x7F) = 0"
    and ne: "x0 \<noteq> x1"
    and x0: "- (2 ^ 30) \<le> x0" "x0 < 2 ^ 30" and x1: "- (2 ^ 30) \<le> x1" "x1 < 2 ^ 30"
    and a: "- (2 ^ 30) \<le> a" "a < 2 ^ 30" and b: "- (2 ^ 30) \<le> b" "b < 2 ^ 30"
    and x: "min x0 x1 \<le> x" "x \<le> max x0 x1"
  shows "Interpolate (Interp_SetX (Interp_Setup dir I x0 x1 w w) x) a b =
     (if a = b then a
      else if a < b
      then a + ((b - a) * \<bar>x - x0\<bar> * (2 ^ 30 div \<bar>x1 - x0\<bar>) + 3 * 2 ^ 24) div 2 ^ 30
      else b + ((a - b) * (\<bar>x1 - x0\<bar> - \<bar>x - x0\<bar>) * (2 ^ 30 div \<bar>x1 - x0\<bar>) + 3 * 2 ^ 24)
                 div 2 ^ 30)"
proof -
  let ?I = "Interp_SetX (Interp_Setup dir I x0 x1 w w) x"
  have xb: "- (2 ^ 30) \<le> x" "x < 2 ^ 30" using x x0 x1 by (auto simp add: min_def max_def split: if_splits)
  note f = Interp_linear_setup [OF m x0 x1 xb, of I]
  have sg: "(0 \<le> x - x0 \<and> x - x0 \<le> x1 - x0 \<and> 0 < x1 - x0)
            \<or> (x1 - x0 \<le> x - x0 \<and> x - x0 \<le> 0 \<and> x1 - x0 < 0)"
    using x ne by (auto simp add: min_def max_def split: if_splits)
  have Db: "\<bar>x1 - x0\<bar> < 2 ^ 31" using x0 x1 by simp
  consider "a = b" | "a < b" | "b < a" by linarith
  then show ?thesis
  proof cases
    case 1
    then show ?thesis by (simp add: Interpolate_def)
  next
    case 2
    show ?thesis
      using Interpolate_linear_lt [OF f(1) f(2) f(3) f(4) sg Db a(1) 2 b(2)] 2 by simp
  next
    case 3
    show ?thesis
      using Interpolate_linear_gt [OF f(1) f(2) f(3) f(4) sg Db b(1) 3 a(2)] 3 by simp
  qed
qed

lemma Interpolate_linear_props:
  assumes m: "w AND (if dir \<noteq> 0 then 0x7E else 0x7F) = 0"
    and ne: "x0 \<noteq> x1"
    and x0: "- (2 ^ 30) \<le> x0" "x0 < 2 ^ 30" and x1: "- (2 ^ 30) \<le> x1" "x1 < 2 ^ 30"
    and a: "- (2 ^ 30) \<le> a" "a < 2 ^ 30" and b: "- (2 ^ 30) \<le> b" "b < 2 ^ 30"
    and x: "min x0 x1 \<le> x" "x \<le> max x0 x1"
    and x': "min x0 x1 \<le> x'" "x' \<le> max x0 x1"
  shows "min a b \<le> Interpolate (Interp_SetX (Interp_Setup dir I x0 x1 w w) x) a b
       \<and> Interpolate (Interp_SetX (Interp_Setup dir I x0 x1 w w) x) a b \<le> max a b
       \<and> (\<bar>x - x0\<bar> \<le> \<bar>x' - x0\<bar> \<longrightarrow>
            (a \<le> b \<longrightarrow> Interpolate (Interp_SetX (Interp_Setup dir I x0 x1 w w) x) a b
                          \<le> Interpolate (Interp_SetX (Interp_Setup dir I x0 x1 w w) x') a b)
          \<and> (b \<le> a \<longrightarrow> Interpolate (Interp_SetX (Interp_Setup dir I x0 x1 w w) x') a b
                          \<le> Interpolate (Interp_SetX (Interp_Setup dir I x0 x1 w w) x) a b))
       \<and> (Interpolate (Interp_SetX (Interp_Setup dir I x0 x1 w w) x0) a b = a
            \<longleftrightarrow> a \<le> b \<or> (a - b) * (2 ^ 30 mod \<bar>x1 - x0\<bar>) \<le> 3 * 2 ^ 24)
       \<and> (Interpolate (Interp_SetX (Interp_Setup dir I x0 x1 w w) x1) a b = b
            \<longleftrightarrow> b \<le> a \<or> (b - a) * (2 ^ 30 mod \<bar>x1 - x0\<bar>) \<le> 3 * 2 ^ 24)"
proof -
  define D where "D = \<bar>x1 - x0\<bar>"
  define q :: int where "q = 2 ^ 30 div D"
  define k where "k = \<bar>x - x0\<bar>"
  define k' where "k' = \<bar>x' - x0\<bar>"
  define R where "R = (\<lambda>x. Interpolate (Interp_SetX (Interp_Setup dir I x0 x1 w w) x) a b)"
  have D0: "0 < D" using ne by (simp add: D_def)
  have q0: "0 \<le> q" unfolding q_def using recip_mult_le(2) [OF D0] .
  have k: "0 \<le> k" "k \<le> D" using x ne by (auto simp add: k_def D_def min_def max_def split: if_splits)
  have k': "0 \<le> k'" "k' \<le> D"
    using x' ne by (auto simp add: k'_def D_def min_def max_def split: if_splits)
  have Rx: "R x = (if a = b then a else if a < b
      then a + ((b - a) * k * q + 3 * 2 ^ 24) div 2 ^ 30
      else b + ((a - b) * (D - k) * q + 3 * 2 ^ 24) div 2 ^ 30)"
    unfolding R_def k_def q_def D_def
    by (rule Interpolate_linear_value [OF m ne x0 x1 a b x])
  have Rx': "R x' = (if a = b then a else if a < b
      then a + ((b - a) * k' * q + 3 * 2 ^ 24) div 2 ^ 30
      else b + ((a - b) * (D - k') * q + 3 * 2 ^ 24) div 2 ^ 30)"
    unfolding R_def k'_def q_def D_def
    by (rule Interpolate_linear_value [OF m ne x0 x1 a b x'])
  have Rx0: "R x0 = (if a = b then a else if a < b
      then a + ((b - a) * 0 * q + 3 * 2 ^ 24) div 2 ^ 30
      else b + ((a - b) * D * q + 3 * 2 ^ 24) div 2 ^ 30)"
    unfolding R_def q_def D_def
    using Interpolate_linear_value [OF m ne x0 x1 a b, of x0 I] by simp
  have Rx1: "R x1 = (if a = b then a else if a < b
      then a + ((b - a) * D * q + 3 * 2 ^ 24) div 2 ^ 30
      else b + ((a - b) * 0 * q + 3 * 2 ^ 24) div 2 ^ 30)"
    unfolding R_def q_def D_def
    using Interpolate_linear_value [OF m ne x0 x1 a b, of x1 I] by simp
  have range: "min a b \<le> R x \<and> R x \<le> max a b"
  proof -
    consider "a = b" | "a < b" | "b < a" by linarith
    then show ?thesis
    proof cases
      case 1 then show ?thesis using Rx by simp
    next
      case 2
      then have "0 \<le> b - a" by simp
      from lin_core_bounds [OF this k D0] show ?thesis using Rx 2 by (simp add: q_def)
    next
      case 3
      then have "0 \<le> a - b" by simp
      moreover have "0 \<le> D - k" "D - k \<le> D" using k by simp_all
      ultimately show ?thesis using lin_core_bounds [of "a - b" "D - k" D] D0 Rx 3
        by (simp add: q_def)
    qed
  qed
  have mono: "(a \<le> b \<longrightarrow> R x \<le> R x') \<and> (b \<le> a \<longrightarrow> R x' \<le> R x)" if kk: "k \<le> k'"
  proof -
    consider "a = b" | "a < b" | "b < a" by linarith
    then show ?thesis
    proof cases
      case 1 then show ?thesis using Rx Rx' by simp
    next
      case 2
      then have "0 \<le> b - a" by simp
      from lin_core_mono [OF this kk q0] show ?thesis using Rx Rx' 2 by simp
    next
      case 3
      then have "0 \<le> a - b" by simp
      moreover have "D - k' \<le> D - k" using kk by simp
      ultimately show ?thesis using lin_core_mono [of "a - b" "D - k'" "D - k" q] q0 Rx Rx' 3
        by simp
    qed
  qed
  have first: "R x0 = a \<longleftrightarrow> a \<le> b \<or> (a - b) * (2 ^ 30 mod D) \<le> 3 * 2 ^ 24"
  proof -
    consider "a = b" | "a < b" | "b < a" by linarith
    then show ?thesis
    proof cases
      case 1 then show ?thesis using Rx0 by simp
    next
      case 2 then show ?thesis using Rx0 by simp
    next
      case 3
      then have "0 \<le> a - b" by simp
      from lin_core_full [OF this D0]
      have "((a - b) * D * q + 3 * 2 ^ 24) div 2 ^ 30 = a - b
              \<longleftrightarrow> (a - b) * (2 ^ 30 mod D) \<le> 3 * 2 ^ 24"
        by (simp add: q_def)
      moreover have "R x0 = b + ((a - b) * D * q + 3 * 2 ^ 24) div 2 ^ 30" using Rx0 3 by simp
      ultimately show ?thesis using 3 by auto
    qed
  qed
  have last: "R x1 = b \<longleftrightarrow> b \<le> a \<or> (b - a) * (2 ^ 30 mod D) \<le> 3 * 2 ^ 24"
  proof -
    consider "a = b" | "a < b" | "b < a" by linarith
    then show ?thesis
    proof cases
      case 1 then show ?thesis using Rx1 by simp
    next
      case 2
      then have "0 \<le> b - a" by simp
      from lin_core_full [OF this D0]
      have "((b - a) * D * q + 3 * 2 ^ 24) div 2 ^ 30 = b - a
              \<longleftrightarrow> (b - a) * (2 ^ 30 mod D) \<le> 3 * 2 ^ 24"
        by (simp add: q_def)
      moreover have "R x1 = a + ((b - a) * D * q + 3 * 2 ^ 24) div 2 ^ 30" using Rx1 2 by simp
      ultimately show ?thesis using 2 by auto
    next
      case 3 then show ?thesis using Rx1 by simp
    qed
  qed
  show ?thesis
    using range mono first last unfolding R_def k_def k'_def D_def by blast
qed


text \<open>
  C2, as stated: with equal weights whose low bits are clear, \<^verbatim>\<open>Interpolate(a,b)\<close> returns
  \<open>a\<close> at \<open>x = x0\<close> and \<open>b\<close> at \<open>x = x1\<close>. This fails for \<open>x0 = x1\<close>, where the result
  is \<open>a\<close> also at \<open>x = x1\<close>, and it fails where the truncated reciprocal loses too much:
  between \<open>x0 = 0\<close> and \<open>x1 = 3\<close> the value \<open>a = 0x4000000\<close> towards \<open>b = 0\<close> comes
  out as \<open>0x3FFFFFF\<close> at \<open>x = x0\<close>.
\<close>

theorem Interpolate_endpoints_counterexample:
  "(0x1000 :: int) AND 0x7F = 0
   \<and> Interpolate (Interp_SetX (Interp_Setup 0 Interpolator_new 5 5 0x1000 0x1000) 5) 1 2 = 1
   \<and> Interpolate (Interp_SetX (Interp_Setup 0 Interpolator_new 0 3 0x1000 0x1000) 0) 0x4000000 0
       = 0x3FFFFFF"
  by (simp add: Interpolate_def Interp_SetX_def Interp_Setup_def Interpolator_new_def
      s32_def s64_def Let_def)

text \<open>
  C2, amended. When \<open>x0 = x1\<close>, \<^verbatim>\<open>Interpolate(a,b)\<close> returns \<open>a\<close> at every \<open>x\<close>, whatever
  the weights and the values. For an interpolator set up between two different positions
  \<open>x0 \<noteq> x1\<close> with equal weights whose low bits are cleared by the direction mask,
  positions and values in \<open>[-2\<^sup>3\<^sup>0, 2\<^sup>3\<^sup>0)\<close>, and every \<open>x\<close> between \<open>x0\<close> and \<open>x1\<close>:
  the result lies within \<open>[min a b, max a b]\<close>; it is monotone in the distance of \<open>x\<close>
  from \<open>x0\<close> (increasing for \<open>a \<le> b\<close>, decreasing for \<open>b \<le> a\<close>); at \<open>x = x0\<close> it is
  \<open>a\<close> exactly when \<open>a \<le> b\<close> or \<open>(a - b) * (2\<^sup>3\<^sup>0 mod |x1 - x0|) \<le> 3 * 2\<^sup>2\<^sup>4\<close>, and
  at \<open>x = x1\<close> it is \<open>b\<close> exactly when \<open>b \<le> a\<close> or
  \<open>(b - a) * (2\<^sup>3\<^sup>0 mod |x1 - x0|) \<le> 3 * 2\<^sup>2\<^sup>4\<close>.
\<close>

theorem Interpolate_linear_range_monotone_endpoints:
  "(x0 = x1 \<longrightarrow> Interpolate (Interp_SetX (Interp_Setup dir I x0 x1 w0 w1) x) a b = a)
   \<and> (x0 \<noteq> x1 \<and> w AND (if dir \<noteq> 0 then 0x7E else 0x7F) = 0
        \<and> - (2 ^ 30) \<le> x0 \<and> x0 < 2 ^ 30 \<and> - (2 ^ 30) \<le> x1 \<and> x1 < 2 ^ 30
        \<and> - (2 ^ 30) \<le> a \<and> a < 2 ^ 30 \<and> - (2 ^ 30) \<le> b \<and> b < 2 ^ 30
        \<and> min x0 x1 \<le> x \<and> x \<le> max x0 x1 \<and> min x0 x1 \<le> x' \<and> x' \<le> max x0 x1
      \<longrightarrow>
         min a b \<le> Interpolate (Interp_SetX (Interp_Setup dir I x0 x1 w w) x) a b
       \<and> Interpolate (Interp_SetX (Interp_Setup dir I x0 x1 w w) x) a b \<le> max a b
       \<and> (\<bar>x - x0\<bar> \<le> \<bar>x' - x0\<bar> \<longrightarrow>
            (a \<le> b \<longrightarrow> Interpolate (Interp_SetX (Interp_Setup dir I x0 x1 w w) x) a b
                          \<le> Interpolate (Interp_SetX (Interp_Setup dir I x0 x1 w w) x') a b)
          \<and> (b \<le> a \<longrightarrow> Interpolate (Interp_SetX (Interp_Setup dir I x0 x1 w w) x') a b
                          \<le> Interpolate (Interp_SetX (Interp_Setup dir I x0 x1 w w) x) a b))
       \<and> (Interpolate (Interp_SetX (Interp_Setup dir I x0 x1 w w) x0) a b = a
            \<longleftrightarrow> a \<le> b \<or> (a - b) * (2 ^ 30 mod \<bar>x1 - x0\<bar>) \<le> 3 * 2 ^ 24)
       \<and> (Interpolate (Interp_SetX (Interp_Setup dir I x0 x1 w w) x1) a b = b
            \<longleftrightarrow> b \<le> a \<or> (b - a) * (2 ^ 30 mod \<bar>x1 - x0\<bar>) \<le> 3 * 2 ^ 24))"
proof (rule conjI)
  show "x0 = x1 \<longrightarrow> Interpolate (Interp_SetX (Interp_Setup dir I x0 x1 w0 w1) x) a b = a"
    by (cases "dir = 0")
      (simp_all add: Interpolate_def Interp_SetX_def Interp_Setup_def Let_def s32_def)
next
  show "x0 \<noteq> x1 \<and> w AND (if dir \<noteq> 0 then 0x7E else 0x7F) = 0
        \<and> - (2 ^ 30) \<le> x0 \<and> x0 < 2 ^ 30 \<and> - (2 ^ 30) \<le> x1 \<and> x1 < 2 ^ 30
        \<and> - (2 ^ 30) \<le> a \<and> a < 2 ^ 30 \<and> - (2 ^ 30) \<le> b \<and> b < 2 ^ 30
        \<and> min x0 x1 \<le> x \<and> x \<le> max x0 x1 \<and> min x0 x1 \<le> x' \<and> x' \<le> max x0 x1
      \<longrightarrow>
         min a b \<le> Interpolate (Interp_SetX (Interp_Setup dir I x0 x1 w w) x) a b
       \<and> Interpolate (Interp_SetX (Interp_Setup dir I x0 x1 w w) x) a b \<le> max a b
       \<and> (\<bar>x - x0\<bar> \<le> \<bar>x' - x0\<bar> \<longrightarrow>
            (a \<le> b \<longrightarrow> Interpolate (Interp_SetX (Interp_Setup dir I x0 x1 w w) x) a b
                          \<le> Interpolate (Interp_SetX (Interp_Setup dir I x0 x1 w w) x') a b)
          \<and> (b \<le> a \<longrightarrow> Interpolate (Interp_SetX (Interp_Setup dir I x0 x1 w w) x') a b
                          \<le> Interpolate (Interp_SetX (Interp_Setup dir I x0 x1 w w) x) a b))
       \<and> (Interpolate (Interp_SetX (Interp_Setup dir I x0 x1 w w) x0) a b = a
            \<longleftrightarrow> a \<le> b \<or> (a - b) * (2 ^ 30 mod \<bar>x1 - x0\<bar>) \<le> 3 * 2 ^ 24)
       \<and> (Interpolate (Interp_SetX (Interp_Setup dir I x0 x1 w w) x1) a b = b
            \<longleftrightarrow> b \<le> a \<or> (b - a) * (2 ^ 30 mod \<bar>x1 - x0\<bar>) \<le> 3 * 2 ^ 24)"
  proof
    assume h: "x0 \<noteq> x1 \<and> w AND (if dir \<noteq> 0 then 0x7E else 0x7F) = 0
        \<and> - (2 ^ 30) \<le> x0 \<and> x0 < 2 ^ 30 \<and> - (2 ^ 30) \<le> x1 \<and> x1 < 2 ^ 30
        \<and> - (2 ^ 30) \<le> a \<and> a < 2 ^ 30 \<and> - (2 ^ 30) \<le> b \<and> b < 2 ^ 30
        \<and> min x0 x1 \<le> x \<and> x \<le> max x0 x1 \<and> min x0 x1 \<le> x' \<and> x' \<le> max x0 x1"
    show "min a b \<le> Interpolate (Interp_SetX (Interp_Setup dir I x0 x1 w w) x) a b
       \<and> Interpolate (Interp_SetX (Interp_Setup dir I x0 x1 w w) x) a b \<le> max a b
       \<and> (\<bar>x - x0\<bar> \<le> \<bar>x' - x0\<bar> \<longrightarrow>
            (a \<le> b \<longrightarrow> Interpolate (Interp_SetX (Interp_Setup dir I x0 x1 w w) x) a b
                          \<le> Interpolate (Interp_SetX (Interp_Setup dir I x0 x1 w w) x') a b)
          \<and> (b \<le> a \<longrightarrow> Interpolate (Interp_SetX (Interp_Setup dir I x0 x1 w w) x') a b
                          \<le> Interpolate (Interp_SetX (Interp_Setup dir I x0 x1 w w) x) a b))
       \<and> (Interpolate (Interp_SetX (Interp_Setup dir I x0 x1 w w) x0) a b = a
            \<longleftrightarrow> a \<le> b \<or> (a - b) * (2 ^ 30 mod \<bar>x1 - x0\<bar>) \<le> 3 * 2 ^ 24)
       \<and> (Interpolate (Interp_SetX (Interp_Setup dir I x0 x1 w w) x1) a b = b
            \<longleftrightarrow> b \<le> a \<or> (b - a) * (2 ^ 30 mod \<bar>x1 - x0\<bar>) \<le> 3 * 2 ^ 24)"
      by (rule Interpolate_linear_props) (insert h, simp_all)
  qed
qed

theorem Interpolate_linear_witness:
  "Interpolate (Interp_SetX (Interp_Setup 0 Interpolator_new 0 255 0x1000 0x1000) 100) 0 0x1F = 12
   \<and> Interpolate (Interp_SetX (Interp_Setup 0 Interpolator_new 0 255 0x1000 0x1000) 200) 0 0x1F = 24
   \<and> Interpolate (Interp_SetX (Interp_Setup 0 Interpolator_new 0 255 0x1000 0x1000) 0) 0 0x1F = 0
   \<and> Interpolate (Interp_SetX (Interp_Setup 0 Interpolator_new 0 255 0x1000 0x1000) 255) 0 0x1F
       = 0x1F
   \<and> Interpolate (Interp_SetX (Interp_Setup 1 Interpolator_new 7 7 0x1000 0x2345) 9) 3 0x1F = 3"
  using Interpolate_linear_range_monotone_endpoints [where w = "0x1000" and dir = 0 and x0 = 0
      and ?x1.0 = 255 and a = 0 and b = "0x1F" and x = 100 and x' = 200 and I = Interpolator_new
      and ?w0.0 = "0x1000" and ?w1.0 = "0x1000"]
    Interpolate_linear_range_monotone_endpoints [where dir = 1 and x0 = 7 and ?x1.0 = 7
      and a = 3 and b = "0x1F" and x = 9 and I = Interpolator_new
      and ?w0.0 = "0x1000" and ?w1.0 = "0x2345"]
  by (simp add: Interpolate_def Interp_SetX_def Interp_Setup_def Interpolator_new_def
      s32_def s64_def Let_def)

subsection \<open>Stencil bits of consecutive shadow masks\<close>

text \<open>
  C7: consecutive shadow-mask polygons on one line accumulate their stencil bits and never
  clear a bit already set. The left-edge loop does so (\<^verbatim>\<open>|= 0x1\<close>), but the loops of the
  polygon inside and of the right edge assign \<^verbatim>\<open>= 1\<close>, which clears bit \<open>0x2\<close> of the entry.
  On line 0, columns 14 and 15 hold a pixel of depth 50 with an edge flag over a second
  layer of depth 100. A first shadow mask of depth 200 over columns 14 to 16 (the row is
  zeroed first, as the previous polygon was no shadow mask) fails both depth tests in both
  columns and leaves 3 in both entries. A second shadow mask of depth 75 fails the test of
  the top layer only: the entry of column 14, on its left edge, stays 3, and the entry of
  column 15, inside, becomes 1.
\<close>

theorem RenderShadowMaskScanline_interior_overwrites_stencil:
  "StencilBuffer
     (RenderShadowMaskScanline
        \<lparr>RenderDispCnt = 0, RenderAlphaRef = 0, RenderFogOffset = 0, RenderFogShift = 0,
          RenderFogDensityTable = (\<lambda>i. 0), RenderToonTable = (\<lambda>i. 0)\<rparr>
        \<lparr>Attr = 0x001F0030, TexParam = 0, TexPalette = 0, FacingView = False,
          WBuffer = False, IsShadow = True\<rparr>
        \<lparr>L_YTop = 0, L_YBottom = 10, L_xstart = 14, L_xend = 16, L_l_filledge = True,
          L_r_filledge = True, L_l_edgelen = 1, L_r_edgelen = 1, L_wl = 0x1000, L_wr = 0x1000,
          L_zl = 200, L_zr = 200\<rparr>
        0
        \<lparr>ColorBuffer = (\<lambda>i. 0),
          DepthBuffer = (\<lambda>i. if i = 273 \<or> i = 274 then 50
                               else if i = 50325 \<or> i = 50326 then 100 else 0xFFFFFF),
          AttrBuffer = (\<lambda>i. if i = 273 \<or> i = 274 then 1 else 0),
          StencilBuffer = (\<lambda>i. 0xFF), PrevIsShadowMask = False\<rparr>) 14 = 3
   \<and> StencilBuffer
     (RenderShadowMaskScanline
        \<lparr>RenderDispCnt = 0, RenderAlphaRef = 0, RenderFogOffset = 0, RenderFogShift = 0,
          RenderFogDensityTable = (\<lambda>i. 0), RenderToonTable = (\<lambda>i. 0)\<rparr>
        \<lparr>Attr = 0x001F0030, TexParam = 0, TexPalette = 0, FacingView = False,
          WBuffer = False, IsShadow = True\<rparr>
        \<lparr>L_YTop = 0, L_YBottom = 10, L_xstart = 14, L_xend = 16, L_l_filledge = True,
          L_r_filledge = True, L_l_edgelen = 1, L_r_edgelen = 1, L_wl = 0x1000, L_wr = 0x1000,
          L_zl = 200, L_zr = 200\<rparr>
        0
        \<lparr>ColorBuffer = (\<lambda>i. 0),
          DepthBuffer = (\<lambda>i. if i = 273 \<or> i = 274 then 50
                               else if i = 50325 \<or> i = 50326 then 100 else 0xFFFFFF),
          AttrBuffer = (\<lambda>i. if i = 273 \<or> i = 274 then 1 else 0),
          StencilBuffer = (\<lambda>i. 0xFF), PrevIsShadowMask = False\<rparr>) 15 = 3
   \<and> StencilBuffer
     (RenderShadowMaskScanline
        \<lparr>RenderDispCnt = 0, RenderAlphaRef = 0, RenderFogOffset = 0, RenderFogShift = 0,
          RenderFogDensityTable = (\<lambda>i. 0), RenderToonTable = (\<lambda>i. 0)\<rparr>
        \<lparr>Attr = 0x001F0030, TexParam = 0, TexPalette = 0, FacingView = False,
          WBuffer = False, IsShadow = True\<rparr>
        \<lparr>L_YTop = 0, L_YBottom = 10, L_xstart = 14, L_xend = 16, L_l_filledge = True,
          L_r_filledge = True, L_l_edgelen = 1, L_r_edgelen = 1, L_wl = 0x1000, L_wr = 0x1000,
          L_zl = 75, L_zr = 75\<rparr>
        0
        (RenderShadowMaskScanline
        \<lparr>RenderDispCnt = 0, RenderAlphaRef = 0, RenderFogOffset = 0, RenderFogShift = 0,
          RenderFogDensityTable = (\<lambda>i. 0), RenderToonTable = (\<lambda>i. 0)\<rparr>
        \<lparr>Attr = 0x001F0030, TexParam = 0, TexPalette = 0, FacingView = False,
          WBuffer = False, IsShadow = True\<rparr>
        \<lparr>L_YTop = 0, L_YBottom = 10, L_xstart = 14, L_xend = 16, L_l_filledge = True,
          L_r_filledge = True, L_l_edgelen = 1, L_r_edgelen = 1, L_wl = 0x1000, L_wr = 0x1000,
          L_zl = 200, L_zr = 200\<rparr>
        0
        \<lparr>ColorBuffer = (\<lambda>i. 0),
          DepthBuffer = (\<lambda>i. if i = 273 \<or> i = 274 then 50
                               else if i = 50325 \<or> i = 50326 then 100 else 0xFFFFFF),
          AttrBuffer = (\<lambda>i. if i = 273 \<or> i = 274 then 1 else 0),
          StencilBuffer = (\<lambda>i. 0xFF), PrevIsShadowMask = False\<rparr>)) 14 = 3
   \<and> StencilBuffer
     (RenderShadowMaskScanline
        \<lparr>RenderDispCnt = 0, RenderAlphaRef = 0, RenderFogOffset = 0, RenderFogShift = 0,
          RenderFogDensityTable = (\<lambda>i. 0), RenderToonTable = (\<lambda>i. 0)\<rparr>
        \<lparr>Attr = 0x001F0030, TexParam = 0, TexPalette = 0, FacingView = False,
          WBuffer = False, IsShadow = True\<rparr>
        \<lparr>L_YTop = 0, L_YBottom = 10, L_xstart = 14, L_xend = 16, L_l_filledge = True,
          L_r_filledge = True, L_l_edgelen = 1, L_r_edgelen = 1, L_wl = 0x1000, L_wr = 0x1000,
          L_zl = 75, L_zr = 75\<rparr>
        0
        (RenderShadowMaskScanline
        \<lparr>RenderDispCnt = 0, RenderAlphaRef = 0, RenderFogOffset = 0, RenderFogShift = 0,
          RenderFogDensityTable = (\<lambda>i. 0), RenderToonTable = (\<lambda>i. 0)\<rparr>
        \<lparr>Attr = 0x001F0030, TexParam = 0, TexPalette = 0, FacingView = False,
          WBuffer = False, IsShadow = True\<rparr>
        \<lparr>L_YTop = 0, L_YBottom = 10, L_xstart = 14, L_xend = 16, L_l_filledge = True,
          L_r_filledge = True, L_l_edgelen = 1, L_r_edgelen = 1, L_wl = 0x1000, L_wr = 0x1000,
          L_zl = 200, L_zr = 200\<rparr>
        0
        \<lparr>ColorBuffer = (\<lambda>i. 0),
          DepthBuffer = (\<lambda>i. if i = 273 \<or> i = 274 then 50
                               else if i = 50325 \<or> i = 50326 then 100 else 0xFFFFFF),
          AttrBuffer = (\<lambda>i. if i = 273 \<or> i = 274 then 1 else 0),
          StencilBuffer = (\<lambda>i. 0xFF), PrevIsShadowMask = False\<rparr>)) 15 = 1
   \<and> (3 :: u8) OR 1 = 3"
  by (simp add: RenderShadowMaskScanline_def Let_def Interp_Setup_def Interp_SetX_def
      InterpolateZ_def Interpolator_new_def s32_def s64_def fnDepthTest_def
      DepthTest_LessThan_def FirstPixelOffset_def ScanlineWidth_def BufferSize_def
      NumScanlines_def word_sless_alt)

subsection \<open>Slopes\<close>

lemma Slope_Step_fields:
  "Increment (snd (Slope_Step S)) = Increment S"
  "Negative (snd (Slope_Step S)) = Negative S"
  "XMajor (snd (Slope_Step S)) = XMajor S"
  "S_x0 (snd (Slope_Step S)) = S_x0 S"
  "S_xmin (snd (Slope_Step S)) = S_xmin S"
  "S_xmax (snd (Slope_Step S)) = S_xmax S"
  "S_dx (snd (Slope_Step S)) = s32 (S_dx S + Increment S)"
  by (simp_all add: Slope_Step_def Let_def)

lemma Slope_Steps_fields:
  "Increment (Slope_Steps n S) = Increment S \<and> Negative (Slope_Steps n S) = Negative S
   \<and> XMajor (Slope_Steps n S) = XMajor S \<and> S_x0 (Slope_Steps n S) = S_x0 S
   \<and> S_xmin (Slope_Steps n S) = S_xmin S \<and> S_xmax (Slope_Steps n S) = S_xmax S"
  by (induction n arbitrary: S) (simp_all add: Slope_Step_fields)

lemma Slope_Steps_dx:
  assumes "0 \<le> Increment S" and "- (2 ^ 31) \<le> S_dx S"
    and "S_dx S + int n * Increment S < 2 ^ 31"
  shows "S_dx (Slope_Steps n S) = S_dx S + int n * Increment S"
  using assms
proof (induction n arbitrary: S)
  case 0
  then show ?case by simp
next
  case (Suc n)
  have m: "0 \<le> int n * Increment S" using Suc.prems(1) by simp
  have "S_dx S + Increment S \<le> S_dx S + int (Suc n) * Increment S"
    using m by (simp add: algebra_simps)
  then have e: "s32 (S_dx S + Increment S) = S_dx S + Increment S"
    using Suc.prems by (intro s32_id) linarith+
  have f: "S_dx (snd (Slope_Step S)) = S_dx S + Increment S"
    by (simp only: Slope_Step_fields e)
  have g: "Increment (snd (Slope_Step S)) = Increment S" by (rule Slope_Step_fields)
  have h: "int (Suc n) * Increment S = Increment S + int n * Increment S"
    by (simp add: algebra_simps)
  have "S_dx (Slope_Steps n (snd (Slope_Step S)))
          = S_dx (snd (Slope_Step S)) + int n * Increment (snd (Slope_Step S))"
  proof (rule Suc.IH)
    show "0 \<le> Increment (snd (Slope_Step S))" using Suc.prems(1) by (simp only: g)
    show "- (2 ^ 31) \<le> S_dx (snd (Slope_Step S))"
      unfolding f using Suc.prems(1,2) by linarith
    show "S_dx (snd (Slope_Step S)) + int n * Increment (snd (Slope_Step S)) < 2 ^ 31"
      unfolding f g using Suc.prems(3) unfolding h by linarith
  qed
  then have "S_dx (Slope_Steps (Suc n) S) = S_dx S + Increment S + int n * Increment S"
    by (simp only: Slope_Steps.simps f g)
  then show ?case unfolding h by linarith
qed

lemma XVal_range:
  assumes "S_xmin S \<le> S_xmax S"
  shows "S_xmin S \<le> XVal S \<and> XVal S \<le> S_xmax S"
  using assms by (simp add: XVal_def Let_def)

lemma inc_total:
  fixes xl Y :: int
  assumes "0 \<le> xl" and "xl \<le> 256" and "0 < Y" and "Y \<le> 1024"
  shows "xl * 2 ^ 18 - 2 ^ 18 \<le> Y * (xl * (2 ^ 18 div Y))"
    and "Y * (xl * (2 ^ 18 div Y)) \<le> xl * 2 ^ 18"
proof -
  define r :: int where "r = 2 ^ 18 mod Y"
  have r0: "0 \<le> r" unfolding r_def using assms(3) by (rule pos_mod_sign)
  have r1: "r < Y" unfolding r_def using assms(3) by (rule pos_mod_bound)
  have "Y * (2 ^ 18 div Y) + r = 2 ^ 18" unfolding r_def by (rule mult_div_mod_eq)
  then have "Y * (2 ^ 18 div Y) = 2 ^ 18 - r" by linarith
  then have "xl * (Y * (2 ^ 18 div Y)) = xl * (2 ^ 18 - r)" by simp
  then have e: "Y * (xl * (2 ^ 18 div Y)) = xl * 2 ^ 18 - xl * r"
    by (simp add: algebra_simps)
  have "xl * r \<le> 256 * 1024" using assms r0 r1 by (intro mult_mono) simp_all
  moreover have "0 \<le> xl * r" using assms(1) r0 by simp
  ultimately show "xl * 2 ^ 18 - 2 ^ 18 \<le> Y * (xl * (2 ^ 18 div Y))"
    and "Y * (xl * (2 ^ 18 div Y)) \<le> xl * 2 ^ 18"
    unfolding e by simp_all
qed

lemma Slope_Setup_fields:
  fixes side :: nat and S0 :: Slope and x0 x1 y0 y1 w0 w1 :: int
  assumes x0: "0 \<le> x0" "x0 \<le> 256" and x1: "0 \<le> x1" "x1 \<le> 256"
    and y: "0 \<le> y0" "y0 < y1" "y1 \<le> 192"
  defines "S \<equiv> snd (Slope_Setup side S0 x0 x1 y0 y1 w0 w1 y0)"
  defines "Inc \<equiv> (if y1 - y0 = (if x1 = x0 then 1 else \<bar>x1 - x0\<bar>) then 0x40000
                   else \<bar>x1 - x0\<bar> * (0x40000 div (y1 - y0)))"
  shows "S_x0 S = x0"
    and "S_xmin S = (if x0 < x1 then x0 else if x1 < x0 then x1
                     else if side \<noteq> 0 then x0 - 1 else x0)"
    and "S_xmax S = (if x0 < x1 then x1 - 1 else if x1 < x0 then x0 - 1
                     else if side \<noteq> 0 then x0 - 1 else x0)"
    and "Negative S = (x1 < x0)"
    and "Increment S = Inc"
    and "XMajor S = (0x40000 < Inc)"
    and "S_dx S =
      (if side \<noteq> 0 then
         (if 0x40000 < Inc then (if x1 < x0 then 0x60000 else Inc - 0x20000)
          else if Inc \<noteq> 0 then (if x1 < x0 then 0x40000 else 0)
          else - 0x40000)
       else
         (if 0x40000 < Inc then (if x1 < x0 then Inc + 0x20000 else 0x20000)
          else if Inc \<noteq> 0 then (if x1 < x0 then 0x40000 else 0)
          else 0))"
    and "fst (Slope_Setup side S0 x0 x1 y0 y1 w0 w1 y0) = XVal S"
    and "0 \<le> Inc" and "Inc \<le> 256 * 0x40000"
proof -
  define Sa where "Sa = S0\<lparr>S_x0 := x0, S_y := y0\<rparr>"
  define Sb where
    "Sb = (if x1 > x0 then Sa\<lparr>S_xmin := x0, S_xmax := s32 (x1 - 1), Negative := False\<rparr>
           else if x1 < x0 then Sa\<lparr>S_xmin := x1, S_xmax := s32 (x0 - 1), Negative := True\<rparr>
           else
             (let xmin = (if side \<noteq> 0 then s32 (x0 - 1) else x0)
              in Sa\<lparr>S_xmin := xmin, S_xmax := xmin, Negative := False\<rparr>))"
  define xlen where "xlen = s32 (s32 (S_xmax Sb + 1) - S_xmin Sb)"
  define ylen where "ylen = s32 (y1 - y0)"
  define Sc where "Sc = Sb\<lparr>S_xlen := xlen, S_ylen := ylen\<rparr>"
  define Inc' where
    "Inc' = (if ylen = 0 then 0
             else if ylen = xlen then 0x40000
             else
               (let yrecip = s32 (0x40000 sdiv ylen);
                    Increment = s32 (s32 (x1 - x0) * yrecip)
                in if Increment < 0 then s32 (- Increment) else Increment))"
  define XM where "XM = (Inc' > 0x40000)"
  define Sd where "Sd = Sc\<lparr>Increment := Inc', XMajor := XM\<rparr>"
  define dxa where
    "dxa = (if side \<noteq> 0 then
               (if XM then (if Negative Sd then 0x20000 + 0x40000 else s32 (Inc' - 0x20000))
                else if Inc' \<noteq> 0 then (if Negative Sd then 0x40000 else 0)
                else - 0x40000)
             else
               (if XM then (if Negative Sd then s32 (s32 (Inc' - 0x20000) + 0x40000)
                                else 0x20000)
                else if Inc' \<noteq> 0 then (if Negative Sd then 0x40000 else 0)
                else 0))"
  define dxb where "dxb = s32 (dxa + s32 (s32 (y0 - y0) * Inc'))"
  define Se where "Se = Sd\<lparr>S_dx := dxb\<rparr>"
  define xv where "xv = XVal Se"
  have unf: "Slope_Setup side S0 x0 x1 y0 y1 w0 w1 y0 =
      (if XM then
        (let I = (if side \<noteq> 0 then Interp_Setup 1 (Interp Se) (s32 (x0 - 1)) (s32 (x1 - 1)) w0 w1
                  else Interp_Setup 1 (Interp Se) x0 x1 w0 w1);
             I = Interp_SetX I xv
         in (xv, Se\<lparr>Interp := I, S_xcov_incr := s32 (s32 (ylen * 2 ^ 10) sdiv xlen)\<rparr>))
      else
        (let I = Interp_Setup 1 (Interp Se) y0 y1 w0 w1;
             I = Interp_SetX I y0
         in (xv, Se\<lparr>Interp := I\<rparr>)))"
    unfolding Slope_Setup_def
    apply (fold Sa_def)
    apply (subst Let_def)
    apply (fold Sb_def)
    apply (subst Let_def)
    apply (fold xlen_def)
    apply (subst Let_def)
    apply (fold ylen_def)
    apply (subst Let_def)
    apply (fold Sc_def)
    apply (subst Let_def)
    apply (fold Inc'_def)
    apply (subst Let_def)
    apply (fold XM_def)
    apply (subst Let_def)
    apply (fold Sd_def)
    apply (subst Let_def)
    apply (fold dxa_def)
    apply (subst Let_def)
    apply (fold dxb_def)
    apply (subst Let_def)
    apply (fold Se_def)
    apply (subst Let_def)
    apply (fold xv_def)
    apply (subst Let_def)
    apply (rule refl)
    done
  have S_Se: "S_x0 S = S_x0 Se" "S_xmin S = S_xmin Se" "S_xmax S = S_xmax Se"
    "Negative S = Negative Se" "Increment S = Increment Se" "XMajor S = XMajor Se"
    "S_dx S = S_dx Se" "XVal S = XVal Se"
    unfolding S_def unf by (simp_all add: Let_def XVal_def)
  have fst_xv: "fst (Slope_Setup side S0 x0 x1 y0 y1 w0 w1 y0) = xv"
    unfolding unf by (simp add: Let_def)
  have e_x0m: "s32 (x0 - 1) = x0 - 1" using x0 by (intro s32_id) simp_all
  have e_x1m: "s32 (x1 - 1) = x1 - 1" using x1 by (intro s32_id) simp_all
  have Sb_f: "S_x0 Sb = x0"
    "S_xmin Sb = (if x0 < x1 then x0 else if x1 < x0 then x1
                  else if side \<noteq> 0 then x0 - 1 else x0)"
    "S_xmax Sb = (if x0 < x1 then x1 - 1 else if x1 < x0 then x0 - 1
                  else if side \<noteq> 0 then x0 - 1 else x0)"
    "Negative Sb = (x1 < x0)"
    by (simp_all add: Sb_def Sa_def Let_def e_x0m e_x1m)
  have Se_Sb: "S_x0 Se = S_x0 Sb" "S_xmin Se = S_xmin Sb" "S_xmax Se = S_xmax Sb"
    "Negative Se = Negative Sb" "Negative Sd = Negative Sb"
    "Increment Se = Inc'" "XMajor Se = XM" "S_dx Se = dxb"
    by (simp_all add: Se_def Sd_def Sc_def)
  have xlen_eq: "xlen = (if x1 = x0 then 1 else \<bar>x1 - x0\<bar>)"
  proof -
    have "s32 (S_xmax Sb + 1) = S_xmax Sb + 1"
      unfolding Sb_f using x0 x1 by (intro s32_id) (auto split: if_splits)
    moreover have "s32 (S_xmax Sb + 1 - S_xmin Sb) = S_xmax Sb + 1 - S_xmin Sb"
      unfolding Sb_f using x0 x1 by (intro s32_id) (auto split: if_splits)
    ultimately have "xlen = S_xmax Sb + 1 - S_xmin Sb" by (simp add: xlen_def)
    then show ?thesis unfolding Sb_f by (auto split: if_splits)
  qed
  have ylen_eq: "ylen = y1 - y0" unfolding ylen_def using y by (intro s32_id) simp_all
  define q :: int where "q = 0x40000 div (y1 - y0)"
  have q0: "0 \<le> q"
    using y by (simp add: q_def pos_imp_zdiv_nonneg_iff)
  have q1: "q \<le> 0x40000"
    using zdiv_mono2 [of "0x40000" 1 "y1 - y0"] y by (simp add: q_def)
  have e_sdiv: "262144 sdiv (y1 - y0) = q" using y by (simp add: q_def signed_divide_int_def)
  have e_q: "s32 q = q" using q0 q1 by (intro s32_id) simp_all
  have e_xd: "s32 (x1 - x0) = x1 - x0" using x0 x1 by (intro s32_id) simp_all
  have pb: "\<bar>(x1 - x0) * q\<bar> \<le> 256 * 0x40000"
    using x0 x1 q0 q1 by (intro abs_mult_le) simp_all
  have e_p: "s32 ((x1 - x0) * q) = (x1 - x0) * q" using pb by (intro s32_abs) simp
  have e_n: "s32 (- ((x1 - x0) * q)) = - ((x1 - x0) * q)" using pb by (intro s32_abs) simp
  have e_a: "(if (x1 - x0) * q < 0 then - ((x1 - x0) * q) else (x1 - x0) * q) = \<bar>x1 - x0\<bar> * q"
  proof -
    have "(if (x1 - x0) * q < 0 then - ((x1 - x0) * q) else (x1 - x0) * q) = \<bar>(x1 - x0) * q\<bar>"
      by (simp only: abs_if)
    also have "\<dots> = \<bar>x1 - x0\<bar> * q" using q0 by (simp add: abs_mult)
    finally show ?thesis .
  qed
  have yr: "(let yrecip = s32 (0x40000 sdiv ylen);
                 Increment = s32 (s32 (x1 - x0) * yrecip)
             in if Increment < 0 then s32 (- Increment) else Increment) = \<bar>x1 - x0\<bar> * q"
  proof -
    have "(let yrecip = s32 (0x40000 sdiv ylen);
                 Increment = s32 (s32 (x1 - x0) * yrecip)
             in if Increment < 0 then s32 (- Increment) else Increment)
          = (if (x1 - x0) * q < 0 then s32 (- ((x1 - x0) * q)) else (x1 - x0) * q)"
      unfolding Let_def ylen_eq by (simp only: e_sdiv e_q e_xd e_p)
    also have "\<dots> = (if (x1 - x0) * q < 0 then - ((x1 - x0) * q) else (x1 - x0) * q)"
      by (simp only: e_n)
    finally show ?thesis by (simp only: e_a)
  qed
  have Inc_eq: "Inc' = Inc"
    unfolding Inc'_def yr unfolding Inc_def ylen_eq xlen_eq q_def using y by simp
  show Ib: "0 \<le> Inc" "Inc \<le> 256 * 0x40000"
    using pb q0 unfolding Inc_def q_def [symmetric] by (simp_all add: abs_mult)
  have XM_eq: "XM = (0x40000 < Inc)" by (simp add: XM_def Inc_eq)
  show "S_x0 S = x0" by (simp only: S_Se Se_Sb Sb_f)
  show "S_xmin S = (if x0 < x1 then x0 else if x1 < x0 then x1
                     else if side \<noteq> 0 then x0 - 1 else x0)"
    by (simp only: S_Se Se_Sb Sb_f)
  show "S_xmax S = (if x0 < x1 then x1 - 1 else if x1 < x0 then x0 - 1
                     else if side \<noteq> 0 then x0 - 1 else x0)"
    by (simp only: S_Se Se_Sb Sb_f)
  show "Negative S = (x1 < x0)" by (simp only: S_Se Se_Sb Sb_f)
  show "Increment S = Inc" by (simp only: S_Se Se_Sb Inc_eq)
  show "XMajor S = (0x40000 < Inc)" by (simp only: S_Se Se_Sb XM_eq)
  have e_i1: "s32 (Inc - 0x20000) = Inc - 0x20000" using Ib by (intro s32_id) simp_all
  have e_i2: "s32 (131072 + Inc) = 131072 + Inc" using Ib by (intro s32_id) simp_all
  have dxa_eq: "dxa =
      (if side \<noteq> 0 then
         (if 0x40000 < Inc then (if x1 < x0 then 0x60000 else Inc - 0x20000)
          else if Inc \<noteq> 0 then (if x1 < x0 then 0x40000 else 0)
          else - 0x40000)
       else
         (if 0x40000 < Inc then (if x1 < x0 then Inc + 0x20000 else 0x20000)
          else if Inc \<noteq> 0 then (if x1 < x0 then 0x40000 else 0)
          else 0))"
    unfolding dxa_def Se_Sb Sb_f XM_eq Inc_eq by (simp add: e_i1 e_i2)
  have dxb_eq: "dxb = dxa"
  proof -
    have "- (2 ^ 31) \<le> dxa \<and> dxa < 2 ^ 31" unfolding dxa_eq using Ib by (simp split: if_splits)
    then have "s32 dxa = dxa" by (intro s32_id) simp_all
    then show ?thesis by (simp add: dxb_def s32_def)
  qed
  show "S_dx S =
      (if side \<noteq> 0 then
         (if 0x40000 < Inc then (if x1 < x0 then 0x60000 else Inc - 0x20000)
          else if Inc \<noteq> 0 then (if x1 < x0 then 0x40000 else 0)
          else - 0x40000)
       else
         (if 0x40000 < Inc then (if x1 < x0 then Inc + 0x20000 else 0x20000)
          else if Inc \<noteq> 0 then (if x1 < x0 then 0x40000 else 0)
          else 0))"
    by (simp only: S_Se Se_Sb dxb_eq dxa_eq)
  show "fst (Slope_Setup side S0 x0 x1 y0 y1 w0 w1 y0) = XVal S"
    by (simp only: fst_xv xv_def S_Se)
qed


lemma drop_bit_18_ge:
  fixes k v :: int
  assumes "k * 2 ^ 18 \<le> v"
  shows "k \<le> drop_bit 18 v"
proof -
  have "(k * 2 ^ 18) div 2 ^ 18 \<le> v div 2 ^ 18" using assms by (rule zdiv_mono1) simp
  then show ?thesis by (simp add: drop_bit_eq_div)
qed

lemma drop_bit_18_le:
  fixes k v :: int
  assumes "v < (k + 1) * 2 ^ 18"
  shows "drop_bit 18 v \<le> k"
proof -
  have "v \<le> k * 2 ^ 18 + (2 ^ 18 - 1)" using assms by (simp add: algebra_simps)
  then have "v div 2 ^ 18 \<le> (k * 2 ^ 18 + (2 ^ 18 - 1)) div 2 ^ 18" by (rule zdiv_mono1) simp
  also have "(k * 2 ^ 18 + (2 ^ 18 - 1)) div 2 ^ 18 = k" by simp
  finally show ?thesis by (simp add: drop_bit_eq_div)
qed

lemma XVal_clamp:
  assumes le: "S_xmin S \<le> S_xmax S"
    and x: "\<bar>S_x0 S\<bar> \<le> 2 ^ 20" and d: "- (2 ^ 30) \<le> S_dx S" "S_dx S < 2 ^ 30"
  shows "XVal S = max (S_xmin S) (min (S_xmax S)
           (if Negative S then S_x0 S - drop_bit 18 (S_dx S)
            else S_x0 S + drop_bit 18 (S_dx S)))"
proof -
  have "- (2 ^ 12) * 2 ^ 18 \<le> S_dx S" using d(1) by simp
  then have lo: "- (2 ^ 12) \<le> drop_bit 18 (S_dx S)" by (rule drop_bit_18_ge)
  have "S_dx S < (2 ^ 12 - 1 + 1) * 2 ^ 18" using d(2) by simp
  then have hi: "drop_bit 18 (S_dx S) \<le> 2 ^ 12 - 1" by (rule drop_bit_18_le)
  have e1: "s32 (S_x0 S - drop_bit 18 (S_dx S)) = S_x0 S - drop_bit 18 (S_dx S)"
    using x lo hi by (intro s32_id) simp_all
  have e2: "s32 (S_x0 S + drop_bit 18 (S_dx S)) = S_x0 S + drop_bit 18 (S_dx S)"
    using x lo hi by (intro s32_id) simp_all
  show ?thesis
    unfolding XVal_def Let_def e1 e2 using le by (simp add: max_def min_def)
qed

lemma Inc_facts:
  fixes x0 x1 y0 y1 :: int
  assumes x0: "0 \<le> x0" "x0 \<le> 256" and x1: "0 \<le> x1" "x1 \<le> 256"
    and y: "0 \<le> y0" "y0 < y1" "y1 \<le> 192"
  defines "Inc \<equiv> (if y1 - y0 = (if x1 = x0 then 1 else \<bar>x1 - x0\<bar>) then 0x40000
                   else \<bar>x1 - x0\<bar> * (0x40000 div (y1 - y0)))"
  shows "x1 \<noteq> x0 \<Longrightarrow> 0 < Inc"
    and "x1 = x0 \<Longrightarrow> Inc \<le> 0x40000"
    and "\<bar>x1 - x0\<bar> * 2 ^ 18 - 2 ^ 18 \<le> (y1 - y0) * Inc"
    and "(y1 - y0) * Inc \<le> 2 ^ 26"
proof -
  define Y where "Y = y1 - y0"
  define xl where "xl = \<bar>x1 - x0\<bar>"
  define q :: int where "q = 2 ^ 18 div Y"
  have Y: "0 < Y" "Y \<le> 192" using y by (simp_all add: Y_def)
  have xl: "0 \<le> xl" "xl \<le> 256" using x0 x1 by (simp_all add: xl_def)
  have q1: "1 \<le> q"
    using zdiv_mono2 [of "2 ^ 18" Y "2 ^ 18"] Y by (simp add: q_def)
  have Inc: "Inc = (if Y = (if x1 = x0 then 1 else xl) then 2 ^ 18 else xl * q)"
    by (simp add: Inc_def Y_def xl_def q_def)
  have t: "xl * 2 ^ 18 - 2 ^ 18 \<le> Y * (xl * q)" "Y * (xl * q) \<le> xl * 2 ^ 18"
    unfolding q_def using inc_total [of xl Y] xl Y by simp_all
  show "0 < Inc" if "x1 \<noteq> x0"
  proof -
    have "1 \<le> xl" using that by (simp add: xl_def)
    then have "1 * 1 \<le> xl * q" using q1 by (intro mult_mono) simp_all
    then show ?thesis by (simp add: Inc)
  qed
  show "Inc \<le> 0x40000" if "x1 = x0"
    using that by (simp add: Inc xl_def)
  have xl0: "x1 = x0 \<Longrightarrow> xl = 0" by (simp add: xl_def)
  show "\<bar>x1 - x0\<bar> * 2 ^ 18 - 2 ^ 18 \<le> (y1 - y0) * Inc"
    unfolding Y_def [symmetric] xl_def [symmetric] Inc using t(1) xl xl0
    by (auto split: if_splits)
  show "(y1 - y0) * Inc \<le> 2 ^ 26"
    unfolding Y_def [symmetric] Inc using t(2) xl Y by (auto split: if_splits)
qed


text \<open>
  C1, as stated: after \<^verbatim>\<open>Setup\<close> with \<open>y = y0\<close> the initial \<^verbatim>\<open>XVal()\<close> is \<open>x0\<close>, and
  after \<open>ylen\<close> steps it is \<open>x1\<close>, except where the clamp to \<open>[xmin, xmax]\<close> applies.
  This fails for an X-major slope: the left slope from \<open>x0 = 10\<close> to \<open>x1 = 0\<close> over two
  lines starts at 5, strictly inside \<open>[xmin, xmax] = [0, 9]\<close>. It also fails for
  \<open>ylen = 0\<close>: the left slope from 0 to 5 with \<open>y0 = y1\<close> is at 0 after no step, and
  \<open>x1\<close> clamped is 4.
\<close>

theorem Slope_initial_XVal_counterexample:
  "XVal (snd (Slope_Setup 0 Slope_new 10 0 0 2 0x1000 0x1000 0)) = 5
   \<and> fst (Slope_Setup 0 Slope_new 10 0 0 2 0x1000 0x1000 0) = 5
   \<and> S_xmin (snd (Slope_Setup 0 Slope_new 10 0 0 2 0x1000 0x1000 0)) = 0
   \<and> S_xmax (snd (Slope_Setup 0 Slope_new 10 0 0 2 0x1000 0x1000 0)) = 9
   \<and> XVal (Slope_Steps 0 (snd (Slope_Setup 0 Slope_new 0 5 3 3 0x1000 0x1000 3))) = 0
   \<and> S_xmax (snd (Slope_Setup 0 Slope_new 0 5 3 3 0x1000 0x1000 3)) = 4"
  by code_simp

text \<open>
  C1, amended: for a slope set up with \<open>y = y0\<close> and screen coordinates
  \<open>0 \<le> x0, x1 \<le> 256\<close> and \<open>0 \<le> y0 < y1 \<le> 192\<close>. \<^verbatim>\<open>Setup\<close> returns \<^verbatim>\<open>XVal()\<close>.
  The bounds are \<open>[x0, x1 - 1]\<close> for \<open>x0 < x1\<close>, \<open>[x1, x0 - 1]\<close> for \<open>x1 < x0\<close>, and
  the single column \<open>x0\<close> (left) or \<open>x0 - 1\<close> (right) for \<open>x0 = x1\<close>; the increment is
  \<open>0x40000\<close> where \<open>ylen\<close> equals the width and \<open>|x1 - x0| * (0x40000 div ylen)\<close>
  otherwise, and the slope is X-major where it exceeds \<open>0x40000\<close>. After any number of
  steps \<^verbatim>\<open>XVal()\<close> lies within the bounds. The initial \<^verbatim>\<open>XVal()\<close> is \<open>x0\<close> clamped to
  the bounds, except for an X-major slope on the left side with \<open>x1 < x0\<close>, where it is
  \<open>x0 - ((Increment + 0x20000) >> 18)\<close> but at least \<open>x1\<close>, and on the right side with
  \<open>x0 < x1\<close>, where it is \<open>x0 + ((Increment - 0x20000) >> 18)\<close> but at most \<open>x1 - 1\<close>.
  After exactly \<open>ylen = y1 - y0\<close> steps \<^verbatim>\<open>XVal()\<close> is \<open>x1\<close> clamped to the bounds.
\<close>

theorem Slope_XVal_start_end:
  fixes side :: nat and S0 :: Slope and x0 x1 y0 y1 w0 w1 :: int
  assumes x0: "0 \<le> x0" "x0 \<le> 256" and x1: "0 \<le> x1" "x1 \<le> 256"
    and y: "0 \<le> y0" "y0 < y1" "y1 \<le> 192"
  defines "S \<equiv> snd (Slope_Setup side S0 x0 x1 y0 y1 w0 w1 y0)"
  shows "fst (Slope_Setup side S0 x0 x1 y0 y1 w0 w1 y0) = XVal S
       \<and> S_xmin S = (if x0 < x1 then x0 else if x1 < x0 then x1
                      else if side \<noteq> 0 then x0 - 1 else x0)
       \<and> S_xmax S = (if x0 < x1 then x1 - 1 else if x1 < x0 then x0 - 1
                      else if side \<noteq> 0 then x0 - 1 else x0)
       \<and> Increment S = (if y1 - y0 = (if x1 = x0 then 1 else \<bar>x1 - x0\<bar>) then 0x40000
                         else \<bar>x1 - x0\<bar> * (0x40000 div (y1 - y0)))
       \<and> XMajor S = (0x40000 < Increment S)
       \<and> (\<forall>n. S_xmin S \<le> XVal (Slope_Steps n S) \<and> XVal (Slope_Steps n S) \<le> S_xmax S)
       \<and> (\<not> XMajor S \<or> (side = 0 \<longleftrightarrow> x0 < x1) \<longrightarrow>
             XVal S = max (S_xmin S) (min (S_xmax S) x0))
       \<and> (XMajor S \<and> side = 0 \<and> x1 < x0 \<longrightarrow>
             XVal S = max x1 (x0 - drop_bit 18 (Increment S + 0x20000)))
       \<and> (XMajor S \<and> side \<noteq> 0 \<and> x0 < x1 \<longrightarrow>
             XVal S = min (x1 - 1) (x0 + drop_bit 18 (Increment S - 0x20000)))
       \<and> XVal (Slope_Steps (nat (y1 - y0)) S) = max (S_xmin S) (min (S_xmax S) x1)"
proof -
  define Inc where "Inc = (if y1 - y0 = (if x1 = x0 then 1 else \<bar>x1 - x0\<bar>) then 0x40000
                   else \<bar>x1 - x0\<bar> * (0x40000 div (y1 - y0)))"
  note f = Slope_Setup_fields(1-8) [OF x0 x1 y, where side = side and ?S0.0 = S0
      and ?w0.0 = w0 and ?w1.0 = w1, folded S_def Inc_def]
    Slope_Setup_fields(9-10) [OF x0 x1 y, folded Inc_def]
  note i = Inc_facts [OF x0 x1 y, folded Inc_def]
  have mm: "S_xmin S \<le> S_xmax S" unfolding f using x0 x1 by simp
  have dx_lo: "- (2 ^ 18) \<le> S_dx S" unfolding f using f(9) by (simp split: if_splits)
  have dx_hi: "S_dx S \<le> Inc + 2 ^ 18" unfolding f using f(9) by (simp split: if_splits)
  have dx_pos: "0 \<le> S_dx S" if "x0 < x1"
    unfolding f using that i(1) by (simp split: if_splits)
  have dx_neg: "2 ^ 18 \<le> S_dx S" if "x1 < x0"
    unfolding f using that i(1) by (simp split: if_splits)
  have x0b: "\<bar>S_x0 S\<bar> \<le> 2 ^ 20" unfolding f using x0 by simp
  have XV: "XVal S = max (S_xmin S) (min (S_xmax S)
           (if x1 < x0 then x0 - drop_bit 18 (S_dx S) else x0 + drop_bit 18 (S_dx S)))"
    using XVal_clamp [OF mm x0b] dx_lo dx_hi f(10) by (simp add: f(1) f(4))
  have range: "S_xmin S \<le> XVal (Slope_Steps n S) \<and> XVal (Slope_Steps n S) \<le> S_xmax S" for n
    using XVal_range [of "Slope_Steps n S"] mm Slope_Steps_fields [of n S] by simp
  have I1: "XVal S = max (S_xmin S) (min (S_xmax S) x0)" if "\<not> XMajor S \<or> (side = 0 \<longleftrightarrow> x0 < x1)"
    unfolding XV using that i(1) i(2) x0 x1 unfolding f
    by (auto simp add: max_def min_def split: if_splits)
  have I2: "XVal S = max x1 (x0 - drop_bit 18 (Increment S + 0x20000))"
    if "XMajor S \<and> side = 0 \<and> x1 < x0"
  proof -
    have "1 * 2 ^ 18 \<le> Inc + 0x20000" using that unfolding f by simp
    then have "1 \<le> drop_bit 18 (Inc + 0x20000)" by (rule drop_bit_18_ge)
    then show ?thesis unfolding XV using that unfolding f by (simp add: max_def min_def)
  qed
  have I3: "XVal S = min (x1 - 1) (x0 + drop_bit 18 (Increment S - 0x20000))"
    if "XMajor S \<and> side \<noteq> 0 \<and> x0 < x1"
  proof -
    have "0 * 2 ^ 18 \<le> Inc - 0x20000" using that unfolding f by simp
    then have "0 \<le> drop_bit 18 (Inc - 0x20000)" by (rule drop_bit_18_ge)
    then show ?thesis unfolding XV using that unfolding f by (simp add: max_def min_def)
  qed
  define n where "n = nat (y1 - y0)"
  define T where "T = S_dx S + (y1 - y0) * Inc"
  have n: "int n = y1 - y0" using y by (simp add: n_def)
  have T_hi: "T < 2 ^ 30" unfolding T_def using dx_hi i(4) f(10) by simp
  have T_lo: "- (2 ^ 30) \<le> T"
  proof -
    have "0 \<le> (y1 - y0) * Inc" using y f(9) by simp
    then show ?thesis unfolding T_def using dx_lo by simp
  qed
  have dxn: "S_dx (Slope_Steps n S) = T"
    unfolding T_def n [symmetric] f(5) [symmetric]
    using f(9) dx_lo T_hi unfolding T_def n [symmetric] f(5) [symmetric]
    by (intro Slope_Steps_dx) simp_all
  have fin: "XVal (Slope_Steps n S) = max (S_xmin S) (min (S_xmax S)
           (if x1 < x0 then x0 - drop_bit 18 T else x0 + drop_bit 18 T))"
    using XVal_clamp [of "Slope_Steps n S"] mm x0b T_lo T_hi Slope_Steps_fields [of n S]
    by (simp add: dxn f(1) f(4))
  have last: "XVal (Slope_Steps n S) = max (S_xmin S) (min (S_xmax S) x1)"
  proof -
    consider "x0 < x1" | "x1 < x0" | "x0 = x1" by linarith
    then show ?thesis
    proof cases
      case 1
      have "(x1 - x0 - 1) * 2 ^ 18 \<le> T"
        unfolding T_def using dx_pos [OF 1] i(3) 1 by (simp add: algebra_simps)
      then have "x1 - x0 - 1 \<le> drop_bit 18 T" by (rule drop_bit_18_ge)
      then show ?thesis unfolding fin f using 1 by (simp add: max_def min_def)
    next
      case 2
      have "(x0 - x1) * 2 ^ 18 \<le> T"
        unfolding T_def using dx_neg [OF 2] i(3) 2 by (simp add: algebra_simps)
      then have "x0 - x1 \<le> drop_bit 18 T" by (rule drop_bit_18_ge)
      then show ?thesis unfolding fin f using 2 by (simp add: max_def min_def)
    next
      case 3
      then show ?thesis unfolding fin f by (simp add: max_def min_def)
    qed
  qed
  show ?thesis
    using f(8) f(2) f(3) f(5) f(6) range I1 I2 I3 last
    unfolding n_def Inc_def f(5) by blast
qed

theorem Slope_XVal_start_end_witness:
  "XVal (snd (Slope_Setup 0 Slope_new 10 0 0 2 0x1000 0x1000 0)) = 5
   \<and> XVal (Slope_Steps 2 (snd (Slope_Setup 0 Slope_new 10 0 0 2 0x1000 0x1000 0))) = 0
   \<and> XVal (snd (Slope_Setup 1 Slope_new 0 5 0 10 0x1000 0x1000 0)) = 0
   \<and> XVal (Slope_Steps 10 (snd (Slope_Setup 1 Slope_new 0 5 0 10 0x1000 0x1000 0))) = 4"
  using Slope_XVal_start_end [where side = 0 and ?S0.0 = Slope_new and ?x0.0 = 10 and ?x1.0 = 0
      and ?y0.0 = 0 and ?y1.0 = 2 and ?w0.0 = "0x1000" and ?w1.0 = "0x1000"]
    Slope_XVal_start_end [where side = 1 and ?S0.0 = Slope_new and ?x0.0 = 0 and ?x1.0 = 5
      and ?y0.0 = 0 and ?y1.0 = 10 and ?w0.0 = "0x1000" and ?w1.0 = "0x1000"]
  by simp

end
